theory Spec2Isabelle
  imports Complex_Main "HOL-Library.Word" "HOL-Library.Monad_Syntax" "HOL-Library.Sublist"
begin

section \<open>Data model\<close>

text \<open>
  The repository is a micro-benchmark of serialization libraries. Its sources are
  \<^item> \<^verbatim>\<open>web/src/test.ts\<close>: the web page, three formats (suffix \<open>_web\<close> below);
  \<^item> the later revision of that file with Avro and the 5MB tests (suffix \<open>_web2\<close>; where
    a function has the same text in both revisions it is modelled once, as \<open>_web\<close>);
  \<^item> \<^verbatim>\<open>SerializationTest.tsx\<close>: the React Native screen, in two revisions that differ
    only in \<open>testFlatBuffers\<close> (suffix \<open>_app\<close>, and \<open>_app_lowlevel\<close> for the revision that
    decodes FlatBuffers by hand).

  \<open>interface TestResult\<close> and \<open>interface TestData\<close> are records. Clock readings and their
  differences are reals; \<open>foo_number\<close> holds iteration indices and is an integer.
\<close>

record TestResult =
  format :: string
  serializeTime :: real
  deserializeTime :: real
  totalTime :: real
  iterations :: nat

record TestData =
  foo :: string
  foo_number :: int

type_synonym bytes = "8 word list"

text \<open>The value of the bundled asset \<^verbatim>\<open>5MB.json\<close>, and of whatever a parser returns for it.\<close>

datatype json =
    JNull
  | JBool bool
  | JNum real
  | JStr string
  | JArr "json list"
  | JObj "(string \<times> json) list"

text \<open>
  A JavaScript number as the result of a division: \<open>x / 0\<close> is an infinity or \<open>NaN\<close>,
  never an exception and never \<open>0\<close>.
\<close>

datatype number = Finite real | PosInfinity | NegInfinity | NaN

definition js_div :: "real \<Rightarrow> real \<Rightarrow> number" where
  "js_div a b =
     (if b \<noteq> 0 then Finite (a / b)
      else if a = 0 then NaN
      else if 0 < a then PosInfinity
      else NegInfinity)"

subsection \<open>Template literals\<close>

definition digit_char :: "nat \<Rightarrow> char" where
  "digit_char d = ''0123456789'' ! (d mod 10)"

fun string_of_nat :: "nat \<Rightarrow> string" where
  "string_of_nat n =
     (if n < 10 then [digit_char n] else string_of_nat (n div 10) @ [digit_char (n mod 10)])"

declare string_of_nat.simps [simp del]

definition string_of_int :: "int \<Rightarrow> string" where
  "string_of_int k = (if k < 0 then ''-'' @ string_of_nat (nat (- k)) else string_of_nat (nat k))"

text \<open>\<open>`${foo}`\<close> for a value of type \<open>string | null\<close>.\<close>

definition string_of_nullable :: "string option \<Rightarrow> string" where
  "string_of_nullable s = (case s of None \<Rightarrow> ''null'' | Some t \<Rightarrow> t)"

section \<open>The world: clock, observable events, heap\<close>

text \<open>
  What a test function does beyond returning its result is recorded in a world that is
  passed through it:
  \<^item> \<open>ticks\<close> counts the calls of \<open>performance.now()\<close>; the \<open>k\<close>-th call returns \<open>clk k\<close>
    for a clock \<open>clk\<close> that is a parameter of every function;
  \<^item> \<open>trace\<close> lists, in order, the clock reads, the calls into the codec libraries with
    the payload they produced or consumed, the console output and the writes to the user
    interface;
  \<^item> \<open>builders\<close>, \<open>arrays\<close> and \<open>next_addr\<close> are the heap of the objects whose identity
    matters: FlatBuffers builders, which own a buffer that they overwrite, and byte
    arrays that own their bytes.
\<close>

datatype payload = Text string | Binary bytes

datatype decoded =
    Parsed TestData
  | Accessors "string option" int
  | LowLevel "int option" "int option"
  | ParsedAny json
  | PersonList nat

record card =
  card_format :: string
  card_rows :: "(string \<times> string) list"

datatype event =
    Now
  | Encode string nat payload
  | Decode string nat payload decoded
  | ConsoleLog string real
  | ConsoleWarn string
  | Pause nat
  | SetIsRunning bool
  | SetResults "TestResult list"
  | ButtonDisabled bool
  | ButtonText string
  | ResultsDisplay string
  | ResultsContent "card list"

record 'b world =
  ticks :: nat
  trace :: "event list"
  builders :: "nat \<Rightarrow> 'b"
  arrays :: "nat \<Rightarrow> bytes"
  next_addr :: nat

type_synonym clock = "nat \<Rightarrow> real"

definition emit :: "event \<Rightarrow> 'b world \<Rightarrow> 'b world" where
  "emit e w = w\<lparr>trace := trace w @ [e]\<rparr>"

text \<open>\<open>performance.now()\<close>\<close>

definition now :: "clock \<Rightarrow> 'b world \<Rightarrow> real \<times> 'b world" where
  "now clk w = (clk (ticks w), emit Now (w\<lparr>ticks := Suc (ticks w)\<rparr>))"

text \<open>
  \<open>for (let i = start; i < n; i++) body\<close>. The body may abort the loop: \<open>None\<close> is an
  exception that nothing in the repository catches.
\<close>

function for_loop :: "nat \<Rightarrow> nat \<Rightarrow> (nat \<Rightarrow> 's \<Rightarrow> 's option) \<Rightarrow> 's \<Rightarrow> 's option" where
  "for_loop i n body s =
     (if i < n then Option.bind (body i s) (for_loop (Suc i) n body) else Some s)"
  by pat_completeness auto
termination
  by (relation "measure (\<lambda>(i, n, body, s). n - i)") auto

declare for_loop.simps [simp del]

text \<open>
  \<open>xs[i]\<close> on an array: out of range it is \<open>undefined\<close>, and every library call of this
  repository that is handed \<open>undefined\<close> throws. \<open>js_index\<close> is the read of an array
  filled by \<open>push\<close>, \<open>js_index_holes\<close> the read of one made by \<open>new Array(n)\<close>, whose
  slots are empty until written; \<open>js_store\<close> is \<open>xs[i] = v\<close>, which extends the array
  when \<open>i\<close> is beyond its end.
\<close>

definition js_index :: "'a list \<Rightarrow> nat \<Rightarrow> 'a option" where
  "js_index xs i = (if i < length xs then Some (xs ! i) else None)"

definition js_index_holes :: "'a option list \<Rightarrow> nat \<Rightarrow> 'a option" where
  "js_index_holes xs i = (if i < length xs then xs ! i else None)"

definition js_store :: "'a option list \<Rightarrow> nat \<Rightarrow> 'a \<Rightarrow> 'a option list" where
  "js_store xs i v =
     (if i < length xs then xs[i := Some v]
      else xs @ replicate (i - length xs) None @ [Some v])"

section \<open>The libraries\<close>

text \<open>
  The codecs are third-party libraries. Each call the repository makes is a field of a
  record of functions, and every definition below takes the records as parameters: what
  is proved holds for every behaviour of the libraries, unless a hypothesis says
  otherwise. \<open>JSON.stringify\<close> and \<open>encode\<close> are used at \<open>TestData\<close> and at the large
  asset, hence two fields each.
\<close>

record json_lib =
  JSON_stringify :: "TestData \<Rightarrow> string"
  JSON_parse :: "string \<Rightarrow> TestData"
  JSON_stringify_any :: "json \<Rightarrow> string"
  JSON_parse_any :: "string \<Rightarrow> json"

record msgpack_lib =
  msgpack_encode :: "TestData \<Rightarrow> bytes"
  msgpack_decode :: "bytes \<Rightarrow> TestData"
  msgpack_encode_any :: "json \<Rightarrow> bytes"
  msgpack_decode_any :: "bytes \<Rightarrow> json"

text \<open>The type that \<open>avro.Type.forSchema\<close> returns for the schema of \<open>TestData\<close>.\<close>

record avro_lib =
  avro_toBuffer :: "TestData \<Rightarrow> bytes"
  avro_fromBuffer :: "bytes \<Rightarrow> TestData"

text \<open>
  \<open>flatbuffers.Builder\<close> with state \<open>'b\<close>, the generated classes \<open>TestData\<close>, \<open>Person\<close>
  and \<open>PersonList\<close>, and \<open>flatbuffers.ByteBuffer\<close>. \<open>Builder_backing\<close> is the content of
  the buffer a builder owns and \<open>Builder_window\<close> the part of it (offset, length) that
  \<open>asUint8Array()\<close> exposes. The readers take the bytes of the array they were given.
\<close>

record 'b flatbuffers_lib =
  Builder_new :: "nat \<Rightarrow> 'b"
  Builder_clear :: "'b \<Rightarrow> 'b"
  Builder_createString :: "json \<Rightarrow> 'b \<Rightarrow> int \<times> 'b"
  Builder_startObject :: "nat \<Rightarrow> 'b \<Rightarrow> 'b"
  Builder_addFieldOffset :: "nat \<Rightarrow> int \<Rightarrow> int \<Rightarrow> 'b \<Rightarrow> 'b"
  Builder_addFieldInt32 :: "nat \<Rightarrow> int \<Rightarrow> int \<Rightarrow> 'b \<Rightarrow> 'b"
  Builder_endObject :: "'b \<Rightarrow> int \<times> 'b"
  Builder_finish :: "int \<Rightarrow> 'b \<Rightarrow> 'b"
  Builder_backing :: "'b \<Rightarrow> bytes"
  Builder_window :: "'b \<Rightarrow> nat \<times> nat"
  TestData_createTestData :: "int \<Rightarrow> int \<Rightarrow> 'b \<Rightarrow> int \<times> 'b"
  TestData_foo :: "bytes \<Rightarrow> string option"
  TestData_fooNumber :: "bytes \<Rightarrow> int"
  Person_createPerson :: "int \<Rightarrow> int \<Rightarrow> int \<Rightarrow> int \<Rightarrow> json \<Rightarrow> 'b \<Rightarrow> int \<times> 'b"
  PersonList_createPersonsVector :: "int list \<Rightarrow> 'b \<Rightarrow> int \<times> 'b"
  PersonList_createPersonList :: "int \<Rightarrow> 'b \<Rightarrow> int \<times> 'b"
  PersonList_personsLength :: "bytes \<Rightarrow> nat"
  PersonList_persons_version :: "bytes \<Rightarrow> nat \<Rightarrow> real option"
  ByteBuffer_readInt32 :: "bytes \<Rightarrow> int \<Rightarrow> int"
  ByteBuffer_readInt16 :: "bytes \<Rightarrow> int \<Rightarrow> int"

subsection \<open>Builders and byte arrays on the heap\<close>

text \<open>
  A \<open>Uint8Array\<close> is either a view of the buffer of the builder at an address, as
  \<open>asUint8Array()\<close> returns it, or an array that owns its bytes, as \<open>slice()\<close> returns
  it. A view shows what its builder's buffer holds when the view is read.
\<close>

datatype u8array = View nat nat nat | Owned nat

definition u8_bytes :: "'b flatbuffers_lib \<Rightarrow> 'b world \<Rightarrow> u8array \<Rightarrow> bytes" where
  "u8_bytes L w v =
     (case v of
        View a off len \<Rightarrow> take len (drop off (Builder_backing L (builders w a)))
      | Owned a \<Rightarrow> arrays w a)"

definition new_Builder :: "'b flatbuffers_lib \<Rightarrow> nat \<Rightarrow> 'b world \<Rightarrow> nat \<times> 'b world" where
  "new_Builder L capacity w =
     (next_addr w,
      w\<lparr>builders := (builders w)(next_addr w := Builder_new L capacity),
        next_addr := Suc (next_addr w)\<rparr>)"

definition update_builder :: "nat \<Rightarrow> ('b \<Rightarrow> 'b) \<Rightarrow> 'b world \<Rightarrow> 'b world" where
  "update_builder a f w = w\<lparr>builders := (builders w)(a := f (builders w a))\<rparr>"

definition call_builder :: "nat \<Rightarrow> ('b \<Rightarrow> 'r \<times> 'b) \<Rightarrow> 'b world \<Rightarrow> 'r \<times> 'b world" where
  "call_builder a f w =
     (fst (f (builders w a)), w\<lparr>builders := (builders w)(a := snd (f (builders w a)))\<rparr>)"

definition asUint8Array :: "'b flatbuffers_lib \<Rightarrow> nat \<Rightarrow> 'b world \<Rightarrow> u8array" where
  "asUint8Array L a w =
     View a (fst (Builder_window L (builders w a))) (snd (Builder_window L (builders w a)))"

definition slice :: "'b flatbuffers_lib \<Rightarrow> u8array \<Rightarrow> 'b world \<Rightarrow> u8array \<times> 'b world" where
  "slice L v w =
     (Owned (next_addr w),
      w\<lparr>arrays := (arrays w)(next_addr w := u8_bytes L w v),
        next_addr := Suc (next_addr w)\<rparr>)"

section \<open>The small-fixture tests\<close>

definition ITERATIONS_web :: nat where
  "ITERATIONS_web = 10000"

definition ITERATIONS_app :: nat where
  "ITERATIONS_app = 1000"

subsection \<open>JSON\<close>

text \<open>
  The serialize loop of \<open>testJSON\<close>. It has the same text in all files but for the bound
  (\<open>ITERATIONS\<close> is 10000 on the web, 1000 in the app) and for the string of the fixture
  (\<open>'bar'\<close>, or \<open>`bar${i}`\<close> in the later web revision), which are its first two
  parameters.
\<close>

definition JSON_serializeLoop ::
  "nat \<Rightarrow> (nat \<Rightarrow> string) \<Rightarrow> json_lib \<Rightarrow> 'b world \<Rightarrow> (string list \<times> 'b world) option" where
  "JSON_serializeLoop n foo_of J w0 =
     for_loop 0 n (\<lambda>i (serialized, w).
       let data = \<lparr>foo = foo_of i, foo_number = int i\<rparr>;
           p = JSON_stringify J data
       in Some (serialized @ [p], emit (Encode ''JSON'' i (Text p)) w)) ([], w0)"

text \<open>The deserialize loop of the web files, which sums the decoded numbers.\<close>

definition JSON_deserializeLoop_sum ::
  "nat \<Rightarrow> json_lib \<Rightarrow> string list \<Rightarrow> 'b world \<Rightarrow> (int \<times> 'b world) option" where
  "JSON_deserializeLoop_sum n J serialized w0 =
     for_loop 0 n (\<lambda>i (sum, w). do {
       p \<leftarrow> js_index serialized i;
       let parsed = JSON_parse J p;
       Some (sum + foo_number parsed, emit (Decode ''JSON'' i (Text p) (Parsed parsed)) w)
     }) (0, w0)"

text \<open>The deserialize loop of the app, which drops the decoded value.\<close>

definition JSON_deserializeLoop ::
  "nat \<Rightarrow> json_lib \<Rightarrow> string list \<Rightarrow> 'b world \<Rightarrow> 'b world option" where
  "JSON_deserializeLoop n J serialized w0 =
     for_loop 0 n (\<lambda>i w. do {
       p \<leftarrow> js_index serialized i;
       Some (emit (Decode ''JSON'' i (Text p) (Parsed (JSON_parse J p))) w)
     }) w0"

definition testJSON_web :: "clock \<Rightarrow> json_lib \<Rightarrow> 'b world \<Rightarrow> (TestResult \<times> 'b world) option" where
  "testJSON_web clk J w0 = do {
     let (startSerialize, w1) = now clk w0;
     (serialized, w2) \<leftarrow> JSON_serializeLoop ITERATIONS_web (\<lambda>i. ''bar'') J w1;
     let (t1, w3) = now clk w2;
     let serializeTime = t1 - startSerialize;
     let (startDeserialize, w4) = now clk w3;
     (sum, w5) \<leftarrow> JSON_deserializeLoop_sum ITERATIONS_web J serialized w4;
     let w6 = (if sum = 0 then emit (ConsoleLog ''JSON sum:'' (of_int sum)) w5 else w5);
     let (t2, w7) = now clk w6;
     let deserializeTime = t2 - startDeserialize;
     let totalTime = serializeTime + deserializeTime;
     Some (\<lparr>format = ''JSON'', serializeTime = serializeTime,
            deserializeTime = deserializeTime, totalTime = totalTime,
            iterations = ITERATIONS_web\<rparr>, w7)
   }"

definition testJSON_web2 :: "clock \<Rightarrow> json_lib \<Rightarrow> 'b world \<Rightarrow> (TestResult \<times> 'b world) option" where
  "testJSON_web2 clk J w0 = do {
     let (startSerialize, w1) = now clk w0;
     (serialized, w2) \<leftarrow>
       JSON_serializeLoop ITERATIONS_web (\<lambda>i. ''bar'' @ string_of_nat i) J w1;
     let (t1, w3) = now clk w2;
     let serializeTime = t1 - startSerialize;
     let (startDeserialize, w4) = now clk w3;
     (sum, w5) \<leftarrow> JSON_deserializeLoop_sum ITERATIONS_web J serialized w4;
     let w6 = (if sum = 0 then emit (ConsoleLog ''JSON sum:'' (of_int sum)) w5 else w5);
     let (t2, w7) = now clk w6;
     let deserializeTime = t2 - startDeserialize;
     let totalTime = serializeTime + deserializeTime;
     Some (\<lparr>format = ''JSON'', serializeTime = serializeTime,
            deserializeTime = deserializeTime, totalTime = totalTime,
            iterations = ITERATIONS_web\<rparr>, w7)
   }"

definition testJSON_app :: "clock \<Rightarrow> json_lib \<Rightarrow> 'b world \<Rightarrow> (TestResult \<times> 'b world) option" where
  "testJSON_app clk J w0 = do {
     let (startSerialize, w1) = now clk w0;
     (serialized, w2) \<leftarrow> JSON_serializeLoop ITERATIONS_app (\<lambda>i. ''bar'') J w1;
     let (t1, w3) = now clk w2;
     let serializeTime = t1 - startSerialize;
     let (startDeserialize, w4) = now clk w3;
     w5 \<leftarrow> JSON_deserializeLoop ITERATIONS_app J serialized w4;
     let (t2, w6) = now clk w5;
     let deserializeTime = t2 - startDeserialize;
     let totalTime = serializeTime + deserializeTime;
     Some (\<lparr>format = ''JSON'', serializeTime = serializeTime,
            deserializeTime = deserializeTime, totalTime = totalTime,
            iterations = ITERATIONS_app\<rparr>, w6)
   }"

subsection \<open>MessagePack\<close>

definition MessagePack_serializeLoop ::
  "nat \<Rightarrow> msgpack_lib \<Rightarrow> 'b world \<Rightarrow> (bytes list \<times> 'b world) option" where
  "MessagePack_serializeLoop n M w0 =
     for_loop 0 n (\<lambda>i (serialized, w).
       let data = \<lparr>foo = ''bar'', foo_number = int i\<rparr>;
           p = msgpack_encode M data
       in Some (serialized @ [p], emit (Encode ''MessagePack'' i (Binary p)) w)) ([], w0)"

definition MessagePack_deserializeLoop_sum ::
  "nat \<Rightarrow> msgpack_lib \<Rightarrow> bytes list \<Rightarrow> 'b world \<Rightarrow> (int \<times> 'b world) option" where
  "MessagePack_deserializeLoop_sum n M serialized w0 =
     for_loop 0 n (\<lambda>i (sum, w). do {
       p \<leftarrow> js_index serialized i;
       let parsed = msgpack_decode M p;
       Some (sum + foo_number parsed,
             emit (Decode ''MessagePack'' i (Binary p) (Parsed parsed)) w)
     }) (0, w0)"

definition MessagePack_deserializeLoop ::
  "nat \<Rightarrow> msgpack_lib \<Rightarrow> bytes list \<Rightarrow> 'b world \<Rightarrow> 'b world option" where
  "MessagePack_deserializeLoop n M serialized w0 =
     for_loop 0 n (\<lambda>i w. do {
       p \<leftarrow> js_index serialized i;
       Some (emit (Decode ''MessagePack'' i (Binary p) (Parsed (msgpack_decode M p))) w)
     }) w0"

text \<open>\<open>testMessagePack\<close> has the same text in both web revisions.\<close>

definition testMessagePack_web ::
  "clock \<Rightarrow> msgpack_lib \<Rightarrow> 'b world \<Rightarrow> (TestResult \<times> 'b world) option" where
  "testMessagePack_web clk M w0 = do {
     let (startSerialize, w1) = now clk w0;
     (serialized, w2) \<leftarrow> MessagePack_serializeLoop ITERATIONS_web M w1;
     let (t1, w3) = now clk w2;
     let serializeTime = t1 - startSerialize;
     let (startDeserialize, w4) = now clk w3;
     (sum, w5) \<leftarrow> MessagePack_deserializeLoop_sum ITERATIONS_web M serialized w4;
     let w6 = (if sum = 0 then emit (ConsoleLog ''MessagePack sum:'' (of_int sum)) w5 else w5);
     let (t2, w7) = now clk w6;
     let deserializeTime = t2 - startDeserialize;
     let totalTime = serializeTime + deserializeTime;
     Some (\<lparr>format = ''MessagePack'', serializeTime = serializeTime,
            deserializeTime = deserializeTime, totalTime = totalTime,
            iterations = ITERATIONS_web\<rparr>, w7)
   }"

definition testMessagePack_app ::
  "clock \<Rightarrow> msgpack_lib \<Rightarrow> 'b world \<Rightarrow> (TestResult \<times> 'b world) option" where
  "testMessagePack_app clk M w0 = do {
     let (startSerialize, w1) = now clk w0;
     (serialized, w2) \<leftarrow> MessagePack_serializeLoop ITERATIONS_app M w1;
     let (t1, w3) = now clk w2;
     let serializeTime = t1 - startSerialize;
     let (startDeserialize, w4) = now clk w3;
     w5 \<leftarrow> MessagePack_deserializeLoop ITERATIONS_app M serialized w4;
     let (t2, w6) = now clk w5;
     let deserializeTime = t2 - startDeserialize;
     let totalTime = serializeTime + deserializeTime;
     Some (\<lparr>format = ''MessagePack'', serializeTime = serializeTime,
            deserializeTime = deserializeTime, totalTime = totalTime,
            iterations = ITERATIONS_app\<rparr>, w6)
   }"

subsection \<open>Avro\<close>

definition Avro_serializeLoop ::
  "nat \<Rightarrow> avro_lib \<Rightarrow> 'b world \<Rightarrow> (bytes list \<times> 'b world) option" where
  "Avro_serializeLoop n A w0 =
     for_loop 0 n (\<lambda>i (serialized, w).
       let data = \<lparr>foo = ''bar'', foo_number = int i\<rparr>;
           p = avro_toBuffer A data
       in Some (serialized @ [p], emit (Encode ''Avro'' i (Binary p)) w)) ([], w0)"

definition Avro_deserializeLoop_sum ::
  "nat \<Rightarrow> avro_lib \<Rightarrow> bytes list \<Rightarrow> 'b world \<Rightarrow> (int \<times> 'b world) option" where
  "Avro_deserializeLoop_sum n A serialized w0 =
     for_loop 0 n (\<lambda>i (sum, w). do {
       p \<leftarrow> js_index serialized i;
       let parsed = avro_fromBuffer A p;
       Some (sum + foo_number parsed, emit (Decode ''Avro'' i (Binary p) (Parsed parsed)) w)
     }) (0, w0)"

text \<open>
  \<open>testAvro\<close> first builds the schema type, which is the parameter \<open>A\<close>, and then reads
  the clock.
\<close>

definition testAvro_web2 :: "clock \<Rightarrow> avro_lib \<Rightarrow> 'b world \<Rightarrow> (TestResult \<times> 'b world) option" where
  "testAvro_web2 clk A w0 = do {
     let (startSerialize, w1) = now clk w0;
     (serialized, w2) \<leftarrow> Avro_serializeLoop ITERATIONS_web A w1;
     let (t1, w3) = now clk w2;
     let serializeTime = t1 - startSerialize;
     let (startDeserialize, w4) = now clk w3;
     (sum, w5) \<leftarrow> Avro_deserializeLoop_sum ITERATIONS_web A serialized w4;
     let w6 = (if sum = 0 then emit (ConsoleLog ''Avro sum:'' (of_int sum)) w5 else w5);
     let (t2, w7) = now clk w6;
     let deserializeTime = t2 - startDeserialize;
     let totalTime = serializeTime + deserializeTime;
     Some (\<lparr>format = ''Avro'', serializeTime = serializeTime,
            deserializeTime = deserializeTime, totalTime = totalTime,
            iterations = ITERATIONS_web\<rparr>, w7)
   }"

subsection \<open>FlatBuffers on the web: one builder for all iterations\<close>

text \<open>
  \<open>testFlatBuffers\<close> has the same text in both web revisions. The array of payloads
  and the builder are made before the clock is read. Every iteration clears the builder,
  builds the table in the builder's buffer, takes the view of that buffer and stores a
  copy of it (\<open>buf.slice()\<close>).
\<close>

definition FlatBuffers_web_serializeLoop ::
  "nat \<Rightarrow> 'b flatbuffers_lib \<Rightarrow> nat \<Rightarrow> u8array option list \<Rightarrow> 'b world
    \<Rightarrow> (u8array option list \<times> 'b world) option" where
  "FlatBuffers_web_serializeLoop n L builder serialized0 w0 =
     for_loop 0 n (\<lambda>i (serialized, w).
       let wa = update_builder builder (Builder_clear L) w;
           (fooOffset, wb) = call_builder builder (Builder_createString L (JStr ''bar'')) wa;
           (testDataOffset, wc) =
              call_builder builder (TestData_createTestData L fooOffset (int i)) wb;
           wd = update_builder builder (Builder_finish L testDataOffset) wc;
           buf = asUint8Array L builder wd;
           (copy, we) = slice L buf wd
       in Some (js_store serialized i copy,
                emit (Encode ''FlatBuffers'' i (Binary (u8_bytes L we copy))) we))
     (serialized0, w0)"

definition FlatBuffers_web_deserializeLoop ::
  "nat \<Rightarrow> 'b flatbuffers_lib \<Rightarrow> u8array option list \<Rightarrow> 'b world \<Rightarrow> (int \<times> 'b world) option" where
  "FlatBuffers_web_deserializeLoop n L serialized w0 =
     for_loop 0 n (\<lambda>i (sum, w). do {
       v \<leftarrow> js_index_holes serialized i;
       let buf = u8_bytes L w v;
       let foo = TestData_foo L buf;
       let fooNumber = TestData_fooNumber L buf;
       Some (sum + (fooNumber + (case foo of None \<Rightarrow> 0 | Some s \<Rightarrow> int (length s))),
             emit (Decode ''FlatBuffers'' i (Binary buf) (Accessors foo fooNumber)) w)
     }) (0, w0)"

definition testFlatBuffers_web ::
  "clock \<Rightarrow> 'b flatbuffers_lib \<Rightarrow> 'b world \<Rightarrow> (TestResult \<times> 'b world) option" where
  "testFlatBuffers_web clk L w0 = do {
     let serialized0 = replicate ITERATIONS_web None;
     let (builder, wb) = new_Builder L 1024 w0;
     let (startSerialize, w1) = now clk wb;
     (serialized, w2) \<leftarrow> FlatBuffers_web_serializeLoop ITERATIONS_web L builder serialized0 w1;
     let (t1, w3) = now clk w2;
     let serializeTime = t1 - startSerialize;
     let (startDeserialize, w4) = now clk w3;
     (sum, w5) \<leftarrow> FlatBuffers_web_deserializeLoop ITERATIONS_web L serialized w4;
     let w6 = (if sum = 0 then emit (ConsoleLog ''FlatBuffers sum:'' (of_int sum)) w5 else w5);
     let (t2, w7) = now clk w6;
     let deserializeTime = t2 - startDeserialize;
     let totalTime = serializeTime + deserializeTime;
     Some (\<lparr>format = ''FlatBuffers'', serializeTime = serializeTime,
            deserializeTime = deserializeTime, totalTime = totalTime,
            iterations = ITERATIONS_web\<rparr>, w7)
   }"

subsection \<open>FlatBuffers in the app: a builder per iteration, generated classes\<close>

text \<open>
  The three warnings of the app's deserialize loops. \<open>quote\<close> is the character \<open>'\<close> of
  the template literals.
\<close>

definition quote :: string where
  "quote = [CHR 0x27]"

definition string_mismatch :: "nat \<Rightarrow> string option \<Rightarrow> string" where
  "string_mismatch i got =
     ''FlatBuffers string mismatch at iteration '' @ string_of_nat i
       @ '': expected '' @ quote @ ''bar'' @ quote @ '', got '' @ quote
       @ string_of_nullable got @ quote"

definition number_mismatch :: "nat \<Rightarrow> int \<Rightarrow> string" where
  "number_mismatch i v =
     ''FlatBuffers number mismatch at iteration '' @ string_of_nat i
       @ '': expected '' @ string_of_nat i @ '', got '' @ string_of_int v"

definition string_length_mismatch :: "nat \<Rightarrow> string" where
  "string_length_mismatch i =
     ''FlatBuffers string length mismatch at iteration '' @ string_of_nat i"

definition FlatBuffers_app_serializeLoop ::
  "nat \<Rightarrow> 'b flatbuffers_lib \<Rightarrow> 'b world \<Rightarrow> (u8array list \<times> 'b world) option" where
  "FlatBuffers_app_serializeLoop n L w0 =
     for_loop 0 n (\<lambda>i (serialized, w).
       let (builder, wa) = new_Builder L 1024 w;
           (fooOffset, wb) = call_builder builder (Builder_createString L (JStr ''bar'')) wa;
           (testDataOffset, wc) =
              call_builder builder (TestData_createTestData L fooOffset (int i)) wb;
           wd = update_builder builder (Builder_finish L testDataOffset) wc;
           buf = asUint8Array L builder wd
       in Some (serialized @ [buf],
                emit (Encode ''FlatBuffers'' i (Binary (u8_bytes L wd buf))) wd))
     ([], w0)"

definition FlatBuffers_app_deserializeLoop ::
  "nat \<Rightarrow> 'b flatbuffers_lib \<Rightarrow> u8array list \<Rightarrow> 'b world \<Rightarrow> 'b world option" where
  "FlatBuffers_app_deserializeLoop n L serialized w0 =
     for_loop 0 n (\<lambda>i w. do {
       v \<leftarrow> js_index serialized i;
       let buf = u8_bytes L w v;
       let foo = TestData_foo L buf;
       let fooNumber = TestData_fooNumber L buf;
       let wa = emit (Decode ''FlatBuffers'' i (Binary buf) (Accessors foo fooNumber)) w;
       let wb = (if foo \<noteq> Some ''bar'' then emit (ConsoleWarn (string_mismatch i foo)) wa
                 else wa);
       let wc = (if fooNumber \<noteq> int i then emit (ConsoleWarn (number_mismatch i fooNumber)) wb
                 else wb);
       Some wc
     }) w0"

definition testFlatBuffers_app ::
  "clock \<Rightarrow> 'b flatbuffers_lib \<Rightarrow> 'b world \<Rightarrow> (TestResult \<times> 'b world) option" where
  "testFlatBuffers_app clk L w0 = do {
     let (startSerialize, w1) = now clk w0;
     (serialized, w2) \<leftarrow> FlatBuffers_app_serializeLoop ITERATIONS_app L w1;
     let (t1, w3) = now clk w2;
     let serializeTime = t1 - startSerialize;
     let (startDeserialize, w4) = now clk w3;
     w5 \<leftarrow> FlatBuffers_app_deserializeLoop ITERATIONS_app L serialized w4;
     let (t2, w6) = now clk w5;
     let deserializeTime = t2 - startDeserialize;
     let totalTime = serializeTime + deserializeTime;
     Some (\<lparr>format = ''FlatBuffers'', serializeTime = serializeTime,
            deserializeTime = deserializeTime, totalTime = totalTime,
            iterations = ITERATIONS_app\<rparr>, w6)
   }"

subsection \<open>FlatBuffers in the app, earlier revision: the table is built and read by hand\<close>

definition FlatBuffers_lowlevel_serializeLoop ::
  "nat \<Rightarrow> 'b flatbuffers_lib \<Rightarrow> 'b world \<Rightarrow> (u8array list \<times> 'b world) option" where
  "FlatBuffers_lowlevel_serializeLoop n L w0 =
     for_loop 0 n (\<lambda>i (serialized, w).
       let (builder, wa) = new_Builder L 1024 w;
           (fooOffset, wb) = call_builder builder (Builder_createString L (JStr ''bar'')) wa;
           wc = update_builder builder (Builder_startObject L 2) wb;
           wd = update_builder builder (Builder_addFieldOffset L 0 fooOffset 0) wc;
           we = update_builder builder (Builder_addFieldInt32 L 1 (int i) 0) wd;
           (offset, wf) = call_builder builder (Builder_endObject L) we;
           wg = update_builder builder (Builder_finish L offset) wf;
           buf = asUint8Array L builder wg
       in Some (serialized @ [buf],
                emit (Encode ''FlatBuffers'' i (Binary (u8_bytes L wg buf))) wg))
     ([], w0)"

text \<open>
  The reads of one iteration of the deserialize loop: the length of the string, when the
  loop gets to read it, and the number, when the loop gets to read it.
\<close>

definition lowlevel_read :: "'b flatbuffers_lib \<Rightarrow> bytes \<Rightarrow> int option \<times> int option" where
  "lowlevel_read L buf =
     (let position = int (length buf) - 4;
          root = ByteBuffer_readInt32 L buf position;
          vtableOffset = root - ByteBuffer_readInt32 L buf root;
          field0Offset = ByteBuffer_readInt16 L buf (vtableOffset + 4);
          field1Offset = ByteBuffer_readInt16 L buf (vtableOffset + 6);
          stringLength =
            (if field0Offset \<noteq> 0 then
               (let stringOffset = ByteBuffer_readInt32 L buf (root + field0Offset)
                in if stringOffset \<noteq> 0
                   then Some (ByteBuffer_readInt32 L buf (root + field0Offset + stringOffset))
                   else None)
             else None);
          numberValue =
            (if field1Offset \<noteq> 0 then Some (ByteBuffer_readInt32 L buf (root + field1Offset))
             else None)
      in (stringLength, numberValue))"

definition FlatBuffers_lowlevel_deserializeLoop ::
  "nat \<Rightarrow> 'b flatbuffers_lib \<Rightarrow> u8array list \<Rightarrow> 'b world \<Rightarrow> 'b world option" where
  "FlatBuffers_lowlevel_deserializeLoop n L serialized w0 =
     for_loop 0 n (\<lambda>i w. do {
       v \<leftarrow> js_index serialized i;
       let buf = u8_bytes L w v;
       let (stringLength, numberValue) = lowlevel_read L buf;
       let wa = emit (Decode ''FlatBuffers'' i (Binary buf) (LowLevel stringLength numberValue)) w;
       let wb = (case stringLength of
                   None \<Rightarrow> wa
                 | Some l \<Rightarrow> if l \<noteq> 3 then emit (ConsoleWarn (string_length_mismatch i)) wa
                             else wa);
       let wc = (case numberValue of
                   None \<Rightarrow> wb
                 | Some v \<Rightarrow> if v \<noteq> int i then emit (ConsoleWarn (number_mismatch i v)) wb
                             else wb);
       Some wc
     }) w0"

definition testFlatBuffers_app_lowlevel ::
  "clock \<Rightarrow> 'b flatbuffers_lib \<Rightarrow> 'b world \<Rightarrow> (TestResult \<times> 'b world) option" where
  "testFlatBuffers_app_lowlevel clk L w0 = do {
     let (startSerialize, w1) = now clk w0;
     (serialized, w2) \<leftarrow> FlatBuffers_lowlevel_serializeLoop ITERATIONS_app L w1;
     let (t1, w3) = now clk w2;
     let serializeTime = t1 - startSerialize;
     let (startDeserialize, w4) = now clk w3;
     w5 \<leftarrow> FlatBuffers_lowlevel_deserializeLoop ITERATIONS_app L serialized w4;
     let (t2, w6) = now clk w5;
     let deserializeTime = t2 - startDeserialize;
     let totalTime = serializeTime + deserializeTime;
     Some (\<lparr>format = ''FlatBuffers'', serializeTime = serializeTime,
            deserializeTime = deserializeTime, totalTime = totalTime,
            iterations = ITERATIONS_app\<rparr>, w6)
   }"

section \<open>The large-dataset tests\<close>

text \<open>
  \<open>largeJsonData\<close> is the content of \<^verbatim>\<open>5MB.json\<close>, a parameter. \<open>testLargeFlatBuffers\<close>
  casts it to an array (\<open>as any[]\<close>), so it is modelled as the list of the array's
  elements, and \<open>JArr data\<close> is the value handed to \<open>JSON.stringify\<close> and \<open>encode\<close>. The
  three tests make one call of the encoder and one of the decoder, outside any loop over
  an iteration count.
\<close>

definition testLargeJSON ::
  "clock \<Rightarrow> json_lib \<Rightarrow> json list \<Rightarrow> 'b world \<Rightarrow> (TestResult \<times> 'b world) option" where
  "testLargeJSON clk J largeJsonData w0 = do {
     let (startSerialize, w1) = now clk w0;
     let serialized = JSON_stringify_any J (JArr largeJsonData);
     let w2 = emit (Encode ''JSON (5MB)'' 0 (Text serialized)) w1;
     let (t1, w3) = now clk w2;
     let serializeTime = t1 - startSerialize;
     let (startDeserialize, w4) = now clk w3;
     let parsed = JSON_parse_any J serialized;
     let w5 = emit (Decode ''JSON (5MB)'' 0 (Text serialized) (ParsedAny parsed)) w4;
     let sum = (case parsed of JArr xs \<Rightarrow> length xs | _ \<Rightarrow> 0);
     let w6 = (if sum = 0 then emit (ConsoleLog ''Large JSON sum:'' (of_nat sum)) w5 else w5);
     let (t2, w7) = now clk w6;
     let deserializeTime = t2 - startDeserialize;
     let totalTime = serializeTime + deserializeTime;
     Some (\<lparr>format = ''JSON (5MB)'', serializeTime = serializeTime,
            deserializeTime = deserializeTime, totalTime = totalTime, iterations = 1\<rparr>, w7)
   }"

definition testLargeMessagePack ::
  "clock \<Rightarrow> msgpack_lib \<Rightarrow> json list \<Rightarrow> 'b world \<Rightarrow> (TestResult \<times> 'b world) option" where
  "testLargeMessagePack clk M largeJsonData w0 = do {
     let (startSerialize, w1) = now clk w0;
     let serialized = msgpack_encode_any M (JArr largeJsonData);
     let w2 = emit (Encode ''MessagePack (5MB)'' 0 (Binary serialized)) w1;
     let (t1, w3) = now clk w2;
     let serializeTime = t1 - startSerialize;
     let (startDeserialize, w4) = now clk w3;
     let parsed = msgpack_decode_any M serialized;
     let w5 = emit (Decode ''MessagePack (5MB)'' 0 (Binary serialized) (ParsedAny parsed)) w4;
     let sum = (case parsed of JArr xs \<Rightarrow> length xs | _ \<Rightarrow> 0);
     let w6 = (if sum = 0 then emit (ConsoleLog ''Large MessagePack sum:'' (of_nat sum)) w5
               else w5);
     let (t2, w7) = now clk w6;
     let deserializeTime = t2 - startDeserialize;
     let totalTime = serializeTime + deserializeTime;
     Some (\<lparr>format = ''MessagePack (5MB)'', serializeTime = serializeTime,
            deserializeTime = deserializeTime, totalTime = totalTime, iterations = 1\<rparr>, w7)
   }"

text \<open>
  \<open>person.name\<close> and the other four properties that \<open>testLargeFlatBuffers\<close> reads of an
  element of the asset: a \<open>TypeError\<close> (\<open>None\<close>) on \<open>null\<close>, the member of an object, or
  \<open>undefined\<close> (\<open>Some None\<close>), as none of the five names is a property of a number, a
  string, a boolean or an array. \<open>js_or\<close> is \<open>v || d\<close>.
\<close>

fun person_prop :: "json \<Rightarrow> string \<Rightarrow> json option option" where
  "person_prop JNull k = None"
| "person_prop (JObj kvs) k = Some (map_of kvs k)"
| "person_prop v k = Some None"

fun truthy :: "json \<Rightarrow> bool" where
  "truthy JNull = False"
| "truthy (JBool b) = b"
| "truthy (JNum x) = (x \<noteq> 0)"
| "truthy (JStr s) = (s \<noteq> [])"
| "truthy v = True"

definition js_or :: "json option \<Rightarrow> json \<Rightarrow> json" where
  "js_or v d = (case v of None \<Rightarrow> d | Some x \<Rightarrow> if truthy x then x else d)"

definition Person_loop ::
  "'b flatbuffers_lib \<Rightarrow> nat \<Rightarrow> json list \<Rightarrow> 'b world \<Rightarrow> (int list \<times> 'b world) option" where
  "Person_loop L builder data w0 =
     for_loop 0 (length data) (\<lambda>i (personOffsets, w). do {
       person \<leftarrow> js_index data i;
       name \<leftarrow> person_prop person ''name'';
       let (nameOffset, wa) =
         call_builder builder (Builder_createString L (js_or name (JStr ''''))) w;
       language \<leftarrow> person_prop person ''language'';
       let (languageOffset, wb) =
         call_builder builder (Builder_createString L (js_or language (JStr ''''))) wa;
       ident \<leftarrow> person_prop person ''id'';
       let (idOffset, wc) =
         call_builder builder (Builder_createString L (js_or ident (JStr ''''))) wb;
       bio \<leftarrow> person_prop person ''bio'';
       let (bioOffset, wd) =
         call_builder builder (Builder_createString L (js_or bio (JStr ''''))) wc;
       v \<leftarrow> person_prop person ''version'';
       let version = js_or v (JNum 0);
       let (personOffset, we) =
         call_builder builder
           (Person_createPerson L nameOffset languageOffset idOffset bioOffset version) wd;
       Some (personOffsets @ [personOffset], we)
     }) ([], w0)"

definition version_loop :: "'b flatbuffers_lib \<Rightarrow> bytes \<Rightarrow> nat \<Rightarrow> real option" where
  "version_loop L buf len =
     for_loop 0 len (\<lambda>i sum.
       Some (case PersonList_persons_version L buf i of None \<Rightarrow> sum | Some v \<Rightarrow> sum + v)) 0"

definition testLargeFlatBuffers ::
  "clock \<Rightarrow> 'b flatbuffers_lib \<Rightarrow> json list \<Rightarrow> 'b world \<Rightarrow> (TestResult \<times> 'b world) option" where
  "testLargeFlatBuffers clk L largeJsonData w0 = do {
     let data = largeJsonData;
     let (startSerialize, w1) = now clk w0;
     let (builder, w2) = new_Builder L (1024 * 1024 * 10) w1;
     (personOffsets, w3) \<leftarrow> Person_loop L builder data w2;
     let (personsVector, w4) =
       call_builder builder (PersonList_createPersonsVector L personOffsets) w3;
     let (personListOffset, w5) =
       call_builder builder (PersonList_createPersonList L personsVector) w4;
     let w6 = update_builder builder (Builder_finish L personListOffset) w5;
     let serialized = asUint8Array L builder w6;
     let w7 = emit (Encode ''FlatBuffers (5MB)'' 0 (Binary (u8_bytes L w6 serialized))) w6;
     let (t1, w8) = now clk w7;
     let serializeTime = t1 - startSerialize;
     let (startDeserialize, w9) = now clk w8;
     let buf = u8_bytes L w9 serialized;
     let len = PersonList_personsLength L buf;
     let w10 = emit (Decode ''FlatBuffers (5MB)'' 0 (Binary buf) (PersonList len)) w9;
     sum \<leftarrow> version_loop L buf len;
     let w11 = (if sum = 0 then emit (ConsoleLog ''Large FlatBuffers sum:'' sum) w10 else w10);
     let (t2, w12) = now clk w11;
     let deserializeTime = t2 - startDeserialize;
     let totalTime = serializeTime + deserializeTime;
     Some (\<lparr>format = ''FlatBuffers (5MB)'', serializeTime = serializeTime,
            deserializeTime = deserializeTime, totalTime = totalTime, iterations = 1\<rparr>, w12)
   }"

section \<open>The reporter\<close>

text \<open>
  \<open>toFixed\<close> is the built-in \<open>Number.prototype.toFixed(2)\<close>, a parameter. A result is
  rendered as a card: the format and four labelled values (the markup around them is
  left out). The later web revision guards the average; the first web revision and the
  app do not.
\<close>

definition formatTime :: "(number \<Rightarrow> string) \<Rightarrow> number \<Rightarrow> string" where
  "formatTime toFixed ms = toFixed ms @ '' ms''"

definition card_web :: "(number \<Rightarrow> string) \<Rightarrow> TestResult \<Rightarrow> card" where
  "card_web toFixed result =
     \<lparr>card_format = format result,
      card_rows =
        [(''Serialize:'', formatTime toFixed (Finite (serializeTime result))),
         (''Deserialize:'', formatTime toFixed (Finite (deserializeTime result))),
         (''Total:'', formatTime toFixed (Finite (totalTime result))),
         (''Avg per operation:'',
            formatTime toFixed (js_div (totalTime result) (real (iterations result) * 2)))]\<rparr>"

definition card_web2 :: "(number \<Rightarrow> string) \<Rightarrow> TestResult \<Rightarrow> card" where
  "card_web2 toFixed result =
     \<lparr>card_format = format result,
      card_rows =
        [(''Serialize:'', formatTime toFixed (Finite (serializeTime result))),
         (''Deserialize:'', formatTime toFixed (Finite (deserializeTime result))),
         (''Total:'', formatTime toFixed (Finite (totalTime result))),
         (''Avg per operation:'',
            (if 1 < iterations result
             then formatTime toFixed (js_div (totalTime result) (real (iterations result) * 2))
             else ''N/A (single operation)''))]\<rparr>"

definition card_app :: "(number \<Rightarrow> string) \<Rightarrow> TestResult \<Rightarrow> card" where
  "card_app toFixed result =
     \<lparr>card_format = format result,
      card_rows =
        [(''Serialize:'', formatTime toFixed (Finite (serializeTime result))),
         (''Deserialize:'', formatTime toFixed (Finite (deserializeTime result))),
         (''Total:'', formatTime toFixed (Finite (totalTime result))),
         (''Avg per operation:'',
            formatTime toFixed (js_div (totalTime result) (real (iterations result) * 2)))]\<rparr>"

text \<open>\<open>updateResults\<close> of the two web revisions: it replaces the content of the page.\<close>

definition updateResults_web ::
  "(number \<Rightarrow> string) \<Rightarrow> TestResult list \<Rightarrow> 'b world \<Rightarrow> 'b world" where
  "updateResults_web toFixed results w = emit (ResultsContent (map (card_web toFixed) results)) w"

definition updateResults_web2 ::
  "(number \<Rightarrow> string) \<Rightarrow> TestResult list \<Rightarrow> 'b world \<Rightarrow> 'b world" where
  "updateResults_web2 toFixed results w =
     emit (ResultsContent (map (card_web2 toFixed) results)) w"

text \<open>The cards that the app's component shows for the state \<open>results\<close>.\<close>

definition SerializationTest_cards :: "(number \<Rightarrow> string) \<Rightarrow> TestResult list \<Rightarrow> card list" where
  "SerializationTest_cards toFixed results =
     (if 0 < length results then map (card_app toFixed) results else [])"

section \<open>The runners\<close>

record 'b env =
  lib_json :: json_lib
  lib_msgpack :: msgpack_lib
  lib_avro :: avro_lib
  lib_flatbuffers :: "'b flatbuffers_lib"
  largeJsonData :: "json list"
  toFixed2 :: "number \<Rightarrow> string"

text \<open>
  \<open>runAllTests\<close>. An \<open>await\<close> of the 100 ms timer is the event \<open>Pause 100\<close>; the writes
  to the page (web) or to the state of the component (app) are events too. The elements
  of the page that the web runner looks up are taken to exist.
\<close>

definition runAllTests_web :: "clock \<Rightarrow> 'b env \<Rightarrow> 'b world \<Rightarrow> 'b world option" where
  "runAllTests_web clk E w0 = do {
     let w1 = emit (ButtonDisabled True) w0;
     let w2 = emit (ButtonText ''Running Tests...'') w1;
     let w3 = emit (ResultsDisplay ''none'') w2;
     let w4 = emit (ResultsContent []) w3;
     (jsonResult, w5) \<leftarrow> testJSON_web clk (lib_json E) w4;
     let w6 = updateResults_web (toFixed2 E) [jsonResult] w5;
     let w7 = emit (Pause 100) w6;
     (msgpackResult, w8) \<leftarrow> testMessagePack_web clk (lib_msgpack E) w7;
     let w9 = updateResults_web (toFixed2 E) [jsonResult, msgpackResult] w8;
     let w10 = emit (Pause 100) w9;
     (flatbuffersResult, w11) \<leftarrow> testFlatBuffers_web clk (lib_flatbuffers E) w10;
     let w12 = updateResults_web (toFixed2 E) [jsonResult, msgpackResult, flatbuffersResult] w11;
     let w13 = emit (ButtonDisabled False) w12;
     let w14 = emit (ButtonText ''Run Performance Tests'') w13;
     let w15 = emit (ResultsDisplay ''block'') w14;
     Some w15
   }"

definition runAllTests_web2 :: "clock \<Rightarrow> 'b env \<Rightarrow> 'b world \<Rightarrow> 'b world option" where
  "runAllTests_web2 clk E w0 = do {
     let w1 = emit (ButtonDisabled True) w0;
     let w2 = emit (ButtonText ''Running Tests...'') w1;
     let w3 = emit (ResultsDisplay ''none'') w2;
     let w4 = emit (ResultsContent []) w3;
     (jsonResult, w5) \<leftarrow> testJSON_web2 clk (lib_json E) w4;
     let w6 = updateResults_web2 (toFixed2 E) [jsonResult] w5;
     let w7 = emit (Pause 100) w6;
     (msgpackResult, w8) \<leftarrow> testMessagePack_web clk (lib_msgpack E) w7;
     let w9 = updateResults_web2 (toFixed2 E) [jsonResult, msgpackResult] w8;
     let w10 = emit (Pause 100) w9;
     let w11 = emit (Pause 100) w10;
     (flatbuffersResult, w12) \<leftarrow> testFlatBuffers_web clk (lib_flatbuffers E) w11;
     let w13 = updateResults_web2 (toFixed2 E) [jsonResult, msgpackResult, flatbuffersResult] w12;
     let w14 = emit (Pause 100) w13;
     (avroResult, w15) \<leftarrow> testAvro_web2 clk (lib_avro E) w14;
     let w16 = updateResults_web2 (toFixed2 E)
                 [jsonResult, msgpackResult, flatbuffersResult, avroResult] w15;
     let w17 = emit (Pause 100) w16;
     (largeJsonResult, w18) \<leftarrow> testLargeJSON clk (lib_json E) (largeJsonData E) w17;
     let w19 = updateResults_web2 (toFixed2 E)
                 [jsonResult, msgpackResult, flatbuffersResult, avroResult, largeJsonResult] w18;
     let w20 = emit (Pause 100) w19;
     (largeMsgpackResult, w21) \<leftarrow>
       testLargeMessagePack clk (lib_msgpack E) (largeJsonData E) w20;
     let w22 = updateResults_web2 (toFixed2 E)
                 [jsonResult, msgpackResult, flatbuffersResult, avroResult, largeJsonResult,
                  largeMsgpackResult] w21;
     let w23 = emit (Pause 100) w22;
     (largeFlatbuffersResult, w24) \<leftarrow>
       testLargeFlatBuffers clk (lib_flatbuffers E) (largeJsonData E) w23;
     let w25 = updateResults_web2 (toFixed2 E)
                 [jsonResult, msgpackResult, flatbuffersResult, avroResult, largeJsonResult,
                  largeMsgpackResult, largeFlatbuffersResult] w24;
     let w26 = emit (ButtonDisabled False) w25;
     let w27 = emit (ButtonText ''Run Performance Tests'') w26;
     let w28 = emit (ResultsDisplay ''block'') w27;
     Some w28
   }"

definition runAllTests_app :: "clock \<Rightarrow> 'b env \<Rightarrow> 'b world \<Rightarrow> 'b world option" where
  "runAllTests_app clk E w0 = do {
     let w1 = emit (SetIsRunning True) w0;
     let w2 = emit (SetResults []) w1;
     (jsonResult, w3) \<leftarrow> testJSON_app clk (lib_json E) w2;
     let w4 = emit (SetResults [jsonResult]) w3;
     let w5 = emit (Pause 100) w4;
     (msgpackResult, w6) \<leftarrow> testMessagePack_app clk (lib_msgpack E) w5;
     let w7 = emit (SetResults [jsonResult, msgpackResult]) w6;
     let w8 = emit (Pause 100) w7;
     (flatbuffersResult, w9) \<leftarrow> testFlatBuffers_app clk (lib_flatbuffers E) w8;
     let w10 = emit (SetResults [jsonResult, msgpackResult, flatbuffersResult]) w9;
     let w11 = emit (SetIsRunning False) w10;
     Some w11
   }"

text \<open>The runner of the earlier app revision: the same text, over its own \<open>testFlatBuffers\<close>.\<close>

definition runAllTests_app_lowlevel :: "clock \<Rightarrow> 'b env \<Rightarrow> 'b world \<Rightarrow> 'b world option" where
  "runAllTests_app_lowlevel clk E w0 = do {
     let w1 = emit (SetIsRunning True) w0;
     let w2 = emit (SetResults []) w1;
     (jsonResult, w3) \<leftarrow> testJSON_app clk (lib_json E) w2;
     let w4 = emit (SetResults [jsonResult]) w3;
     let w5 = emit (Pause 100) w4;
     (msgpackResult, w6) \<leftarrow> testMessagePack_app clk (lib_msgpack E) w5;
     let w7 = emit (SetResults [jsonResult, msgpackResult]) w6;
     let w8 = emit (Pause 100) w7;
     (flatbuffersResult, w9) \<leftarrow> testFlatBuffers_app_lowlevel clk (lib_flatbuffers E) w8;
     let w10 = emit (SetResults [jsonResult, msgpackResult, flatbuffersResult]) w9;
     let w11 = emit (SetIsRunning False) w10;
     Some w11
   }"

section \<open>All test functions under one name\<close>

datatype small_test =
    Web_JSON | Web2_JSON | Web_MessagePack | Web_FlatBuffers | Web2_Avro
  | App_JSON | App_MessagePack | App_FlatBuffers | App_FlatBuffers_lowlevel

datatype large_test = Large_JSON | Large_MessagePack | Large_FlatBuffers

datatype test_name = Small small_test | Large large_test

fun run_test ::
  "test_name \<Rightarrow> clock \<Rightarrow> 'b env \<Rightarrow> 'b world \<Rightarrow> (TestResult \<times> 'b world) option" where
  "run_test (Small Web_JSON) clk E w = testJSON_web clk (lib_json E) w"
| "run_test (Small Web2_JSON) clk E w = testJSON_web2 clk (lib_json E) w"
| "run_test (Small Web_MessagePack) clk E w = testMessagePack_web clk (lib_msgpack E) w"
| "run_test (Small Web_FlatBuffers) clk E w = testFlatBuffers_web clk (lib_flatbuffers E) w"
| "run_test (Small Web2_Avro) clk E w = testAvro_web2 clk (lib_avro E) w"
| "run_test (Small App_JSON) clk E w = testJSON_app clk (lib_json E) w"
| "run_test (Small App_MessagePack) clk E w = testMessagePack_app clk (lib_msgpack E) w"
| "run_test (Small App_FlatBuffers) clk E w = testFlatBuffers_app clk (lib_flatbuffers E) w"
| "run_test (Small App_FlatBuffers_lowlevel) clk E w =
     testFlatBuffers_app_lowlevel clk (lib_flatbuffers E) w"
| "run_test (Large Large_JSON) clk E w = testLargeJSON clk (lib_json E) (largeJsonData E) w"
| "run_test (Large Large_MessagePack) clk E w =
     testLargeMessagePack clk (lib_msgpack E) (largeJsonData E) w"
| "run_test (Large Large_FlatBuffers) clk E w =
     testLargeFlatBuffers clk (lib_flatbuffers E) (largeJsonData E) w"

section \<open>Closed forms\<close>

text \<open>
  The definitions of this section are not code of the repository: they say, without
  loops and without the world, what the lemmas below prove each test function to return
  and to leave behind, and the claims are stated with them.
\<close>

text \<open>
  The result of a test that made its first clock read when \<open>t\<close> reads had been made
  before.
\<close>

definition timed :: "clock \<Rightarrow> nat \<Rightarrow> string \<Rightarrow> nat \<Rightarrow> TestResult" where
  "timed clk t fmt n =
     \<lparr>format = fmt,
      serializeTime = clk (t + 1) - clk t,
      deserializeTime = clk (t + 3) - clk (t + 2),
      totalTime = (clk (t + 1) - clk t) + (clk (t + 3) - clk (t + 2)),
      iterations = n\<rparr>"

text \<open>
  The events of a small-fixture test: a clock read, the \<open>n\<close> encoder calls, two clock
  reads, the \<open>n\<close> decoder calls, each followed by its warnings \<open>X i\<close>, the console output
  \<open>L\<close> after the loop, and the last clock read.
\<close>

definition small_trace ::
  "string \<Rightarrow> nat \<Rightarrow> (nat \<Rightarrow> payload) \<Rightarrow> (nat \<Rightarrow> decoded) \<Rightarrow> (nat \<Rightarrow> event list) \<Rightarrow> event list
     \<Rightarrow> event list" where
  "small_trace fmt n P V X L =
     [Now] @ map (\<lambda>i. Encode fmt i (P i)) [0..<n] @ [Now, Now]
       @ concat (map (\<lambda>i. Decode fmt i (P i) (V i) # X i) [0..<n]) @ L @ [Now]"

definition large_trace :: "string \<Rightarrow> payload \<Rightarrow> decoded \<Rightarrow> event list \<Rightarrow> event list" where
  "large_trace fmt p v L = [Now, Encode fmt 0 p, Now, Now, Decode fmt 0 p v] @ L @ [Now]"

definition sum_log :: "string \<Rightarrow> int \<Rightarrow> event list" where
  "sum_log lbl s = (if s = 0 then [ConsoleLog lbl 0] else [])"

definition fixture :: "string \<Rightarrow> nat \<Rightarrow> TestData" where
  "fixture s i = \<lparr>foo = s, foo_number = int i\<rparr>"

subsection \<open>What a builder holds\<close>

text \<open>The bytes that the view returned by \<open>asUint8Array()\<close> shows while the builder is \<open>b\<close>.\<close>

definition window_bytes :: "'b flatbuffers_lib \<Rightarrow> 'b \<Rightarrow> bytes" where
  "window_bytes L b =
     take (snd (Builder_window L b)) (drop (fst (Builder_window L b)) (Builder_backing L b))"

text \<open>The builder calls of one iteration of the web loop, on the builder state \<open>b\<close>.\<close>

definition build_web :: "'b flatbuffers_lib \<Rightarrow> nat \<Rightarrow> 'b \<Rightarrow> 'b" where
  "build_web L i b =
     (let b1 = Builder_clear L b;
          (fooOffset, b2) = Builder_createString L (JStr ''bar'') b1;
          (testDataOffset, b3) = TestData_createTestData L fooOffset (int i) b2
      in Builder_finish L testDataOffset b3)"

text \<open>The state of the one builder of the web test after \<open>k\<close> iterations.\<close>

primrec builder_web :: "'b flatbuffers_lib \<Rightarrow> nat \<Rightarrow> 'b" where
  "builder_web L 0 = Builder_new L 1024"
| "builder_web L (Suc k) = build_web L k (builder_web L k)"

text \<open>The builder that iteration \<open>i\<close> of the app loops makes and leaves behind.\<close>

definition built_app :: "'b flatbuffers_lib \<Rightarrow> nat \<Rightarrow> 'b" where
  "built_app L i =
     (let b0 = Builder_new L 1024;
          (fooOffset, b1) = Builder_createString L (JStr ''bar'') b0;
          (testDataOffset, b2) = TestData_createTestData L fooOffset (int i) b1
      in Builder_finish L testDataOffset b2)"

definition built_lowlevel :: "'b flatbuffers_lib \<Rightarrow> nat \<Rightarrow> 'b" where
  "built_lowlevel L i =
     (let b0 = Builder_new L 1024;
          (fooOffset, b1) = Builder_createString L (JStr ''bar'') b0;
          b2 = Builder_startObject L 2 b1;
          b3 = Builder_addFieldOffset L 0 fooOffset 0 b2;
          b4 = Builder_addFieldInt32 L 1 (int i) 0 b3;
          (offset, b5) = Builder_endObject L b4
      in Builder_finish L offset b5)"

subsection \<open>The small-fixture tests, one by one\<close>

fun label :: "small_test \<Rightarrow> string" where
  "label Web_JSON = ''JSON''"
| "label Web2_JSON = ''JSON''"
| "label Web_MessagePack = ''MessagePack''"
| "label Web_FlatBuffers = ''FlatBuffers''"
| "label Web2_Avro = ''Avro''"
| "label App_JSON = ''JSON''"
| "label App_MessagePack = ''MessagePack''"
| "label App_FlatBuffers = ''FlatBuffers''"
| "label App_FlatBuffers_lowlevel = ''FlatBuffers''"

fun count :: "small_test \<Rightarrow> nat" where
  "count Web_JSON = ITERATIONS_web"
| "count Web2_JSON = ITERATIONS_web"
| "count Web_MessagePack = ITERATIONS_web"
| "count Web_FlatBuffers = ITERATIONS_web"
| "count Web2_Avro = ITERATIONS_web"
| "count App_JSON = ITERATIONS_app"
| "count App_MessagePack = ITERATIONS_app"
| "count App_FlatBuffers = ITERATIONS_app"
| "count App_FlatBuffers_lowlevel = ITERATIONS_app"

text \<open>The string of the fixture of iteration \<open>i\<close>.\<close>

fun fixture_foo :: "small_test \<Rightarrow> nat \<Rightarrow> string" where
  "fixture_foo Web2_JSON i = ''bar'' @ string_of_nat i"
| "fixture_foo t i = ''bar''"

text \<open>The payload that iteration \<open>i\<close> of the serialize loop produces.\<close>

fun payload_at :: "small_test \<Rightarrow> 'b env \<Rightarrow> nat \<Rightarrow> payload" where
  "payload_at Web_JSON E i = Text (JSON_stringify (lib_json E) (fixture ''bar'' i))"
| "payload_at Web2_JSON E i =
     Text (JSON_stringify (lib_json E) (fixture (''bar'' @ string_of_nat i) i))"
| "payload_at Web_MessagePack E i = Binary (msgpack_encode (lib_msgpack E) (fixture ''bar'' i))"
| "payload_at Web_FlatBuffers E i =
     Binary (window_bytes (lib_flatbuffers E) (builder_web (lib_flatbuffers E) (Suc i)))"
| "payload_at Web2_Avro E i = Binary (avro_toBuffer (lib_avro E) (fixture ''bar'' i))"
| "payload_at App_JSON E i = Text (JSON_stringify (lib_json E) (fixture ''bar'' i))"
| "payload_at App_MessagePack E i = Binary (msgpack_encode (lib_msgpack E) (fixture ''bar'' i))"
| "payload_at App_FlatBuffers E i =
     Binary (window_bytes (lib_flatbuffers E) (built_app (lib_flatbuffers E) i))"
| "payload_at App_FlatBuffers_lowlevel E i =
     Binary (window_bytes (lib_flatbuffers E) (built_lowlevel (lib_flatbuffers E) i))"

text \<open>What the decoder of a test makes of a payload.\<close>

fun decode_with :: "small_test \<Rightarrow> 'b env \<Rightarrow> payload \<Rightarrow> decoded" where
  "decode_with Web_JSON E (Text s) = Parsed (JSON_parse (lib_json E) s)"
| "decode_with Web2_JSON E (Text s) = Parsed (JSON_parse (lib_json E) s)"
| "decode_with App_JSON E (Text s) = Parsed (JSON_parse (lib_json E) s)"
| "decode_with Web_MessagePack E (Binary b) = Parsed (msgpack_decode (lib_msgpack E) b)"
| "decode_with App_MessagePack E (Binary b) = Parsed (msgpack_decode (lib_msgpack E) b)"
| "decode_with Web2_Avro E (Binary b) = Parsed (avro_fromBuffer (lib_avro E) b)"
| "decode_with Web_FlatBuffers E (Binary b) =
     Accessors (TestData_foo (lib_flatbuffers E) b) (TestData_fooNumber (lib_flatbuffers E) b)"
| "decode_with App_FlatBuffers E (Binary b) =
     Accessors (TestData_foo (lib_flatbuffers E) b) (TestData_fooNumber (lib_flatbuffers E) b)"
| "decode_with App_FlatBuffers_lowlevel E (Binary b) =
     LowLevel (fst (lowlevel_read (lib_flatbuffers E) b)) (snd (lowlevel_read (lib_flatbuffers E) b))"
| "decode_with t E p = PersonList 0"

definition decoded_at :: "small_test \<Rightarrow> 'b env \<Rightarrow> nat \<Rightarrow> decoded" where
  "decoded_at t E i = decode_with t E (payload_at t E i)"

text \<open>The warnings that follow the decoder call of iteration \<open>i\<close>.\<close>

fun warnings :: "small_test \<Rightarrow> nat \<Rightarrow> decoded \<Rightarrow> event list" where
  "warnings App_FlatBuffers i (Accessors got n) =
     (if got \<noteq> Some ''bar'' then [ConsoleWarn (string_mismatch i got)] else [])
     @ (if n \<noteq> int i then [ConsoleWarn (number_mismatch i n)] else [])"
| "warnings App_FlatBuffers_lowlevel i (LowLevel l v) =
     (case l of None \<Rightarrow> []
      | Some k \<Rightarrow> if k \<noteq> 3 then [ConsoleWarn (string_length_mismatch i)] else [])
     @ (case v of None \<Rightarrow> []
        | Some k \<Rightarrow> if k \<noteq> int i then [ConsoleWarn (number_mismatch i k)] else [])"
| "warnings t i d = []"

definition warnings_at :: "small_test \<Rightarrow> 'b env \<Rightarrow> nat \<Rightarrow> event list" where
  "warnings_at t E i = warnings t i (decoded_at t E i)"

text \<open>What the web loops add to \<open>sum\<close> for a decoded value, and the output after the loop.\<close>

fun addend :: "decoded \<Rightarrow> int" where
  "addend (Parsed d) = foo_number d"
| "addend (Accessors got n) = n + (case got of None \<Rightarrow> 0 | Some s \<Rightarrow> int (length s))"
| "addend d = 0"

fun logs :: "small_test \<Rightarrow> 'b env \<Rightarrow> event list" where
  "logs Web_JSON E = sum_log ''JSON sum:'' (\<Sum>i\<leftarrow>[0..<ITERATIONS_web]. addend (decoded_at Web_JSON E i))"
| "logs Web2_JSON E =
     sum_log ''JSON sum:'' (\<Sum>i\<leftarrow>[0..<ITERATIONS_web]. addend (decoded_at Web2_JSON E i))"
| "logs Web_MessagePack E =
     sum_log ''MessagePack sum:''
       (\<Sum>i\<leftarrow>[0..<ITERATIONS_web]. addend (decoded_at Web_MessagePack E i))"
| "logs Web_FlatBuffers E =
     sum_log ''FlatBuffers sum:''
       (\<Sum>i\<leftarrow>[0..<ITERATIONS_web]. addend (decoded_at Web_FlatBuffers E i))"
| "logs Web2_Avro E =
     sum_log ''Avro sum:'' (\<Sum>i\<leftarrow>[0..<ITERATIONS_web]. addend (decoded_at Web2_Avro E i))"
| "logs t E = []"

text \<open>
  The heap after a test. The web FlatBuffers test allocates its builder and then one
  array per iteration; the app tests allocate one builder per iteration; the other tests
  allocate nothing.
\<close>

fun heap_after :: "small_test \<Rightarrow> 'b env \<Rightarrow> 'b world \<Rightarrow> 'b world" where
  "heap_after Web_FlatBuffers E w =
     w\<lparr>builders := (builders w)
          (next_addr w := builder_web (lib_flatbuffers E) ITERATIONS_web),
       arrays := (\<lambda>a. if next_addr w < a \<and> a \<le> next_addr w + ITERATIONS_web
                       then window_bytes (lib_flatbuffers E)
                              (builder_web (lib_flatbuffers E) (a - next_addr w))
                       else arrays w a),
       next_addr := next_addr w + 1 + ITERATIONS_web\<rparr>"
| "heap_after App_FlatBuffers E w =
     w\<lparr>builders := (\<lambda>a. if next_addr w \<le> a \<and> a < next_addr w + ITERATIONS_app
                         then built_app (lib_flatbuffers E) (a - next_addr w)
                         else builders w a),
       next_addr := next_addr w + ITERATIONS_app\<rparr>"
| "heap_after App_FlatBuffers_lowlevel E w =
     w\<lparr>builders := (\<lambda>a. if next_addr w \<le> a \<and> a < next_addr w + ITERATIONS_app
                         then built_lowlevel (lib_flatbuffers E) (a - next_addr w)
                         else builders w a),
       next_addr := next_addr w + ITERATIONS_app\<rparr>"
| "heap_after t E w = w"

text \<open>The world after a small-fixture test that started in \<open>w\<close>.\<close>

definition world_after :: "small_test \<Rightarrow> 'b env \<Rightarrow> 'b world \<Rightarrow> 'b world" where
  "world_after t E w =
     (heap_after t E w)
       \<lparr>ticks := ticks w + 4,
        trace := trace w @ small_trace (label t) (count t) (payload_at t E) (decoded_at t E)
                             (warnings_at t E) (logs t E)\<rparr>"

subsection \<open>The large-dataset tests, one by one\<close>

fun large_label :: "large_test \<Rightarrow> string" where
  "large_label Large_JSON = ''JSON (5MB)''"
| "large_label Large_MessagePack = ''MessagePack (5MB)''"
| "large_label Large_FlatBuffers = ''FlatBuffers (5MB)''"

definition large_log :: "string \<Rightarrow> real \<Rightarrow> event list" where
  "large_log lbl s = (if s = 0 then [ConsoleLog lbl 0] else [])"

definition array_length :: "json \<Rightarrow> nat" where
  "array_length v = (case v of JArr xs \<Rightarrow> length xs | _ \<Rightarrow> 0)"

definition versions_sum :: "'b flatbuffers_lib \<Rightarrow> bytes \<Rightarrow> nat \<Rightarrow> real" where
  "versions_sum L buf len =
     (\<Sum>i\<leftarrow>[0..<len]. case PersonList_persons_version L buf i of None \<Rightarrow> 0 | Some v \<Rightarrow> v)"

text \<open>
  The builder of \<open>testLargeFlatBuffers\<close> at address \<open>a\<close>, after the loop over the persons
  has returned the offsets \<open>offs\<close>: the vector and the list are created and the buffer
  is finished.
\<close>

definition finish_PersonList :: "'b flatbuffers_lib \<Rightarrow> int list \<Rightarrow> 'b \<Rightarrow> 'b" where
  "finish_PersonList L offs b =
     (let (personsVector, b1) = PersonList_createPersonsVector L offs b;
          (personListOffset, b2) = PersonList_createPersonList L personsVector b1
      in Builder_finish L personListOffset b2)"

text \<open>
  The world after a large-dataset test that started in \<open>w\<close>, or \<open>None\<close> when the test
  throws, which only the loop over the persons of \<open>testLargeFlatBuffers\<close> can do.
\<close>

fun large_world :: "large_test \<Rightarrow> 'b env \<Rightarrow> 'b world \<Rightarrow> 'b world option" where
  "large_world Large_JSON E w =
     (let s = JSON_stringify_any (lib_json E) (JArr (largeJsonData E));
          v = JSON_parse_any (lib_json E) s
      in Some (w\<lparr>ticks := ticks w + 4,
                 trace := trace w @ large_trace ''JSON (5MB)'' (Text s) (ParsedAny v)
                            (large_log ''Large JSON sum:'' (real (array_length v)))\<rparr>))"
| "large_world Large_MessagePack E w =
     (let s = msgpack_encode_any (lib_msgpack E) (JArr (largeJsonData E));
          v = msgpack_decode_any (lib_msgpack E) s
      in Some (w\<lparr>ticks := ticks w + 4,
                 trace := trace w @ large_trace ''MessagePack (5MB)'' (Binary s) (ParsedAny v)
                            (large_log ''Large MessagePack sum:'' (real (array_length v)))\<rparr>))"
| "large_world Large_FlatBuffers E w =
     map_option
       (\<lambda>(offs, w3).
          let L = lib_flatbuffers E;
              b = finish_PersonList L offs (builders w3 (next_addr w));
              buf = window_bytes L b;
              len = PersonList_personsLength L buf
          in w3\<lparr>ticks := ticks w + 4,
                trace := trace w @ large_trace ''FlatBuffers (5MB)'' (Binary buf) (PersonList len)
                           (large_log ''Large FlatBuffers sum:'' (versions_sum L buf len)),
                builders := (builders w3)(next_addr w := b)\<rparr>)
       (Person_loop (lib_flatbuffers E) (next_addr w) (largeJsonData E)
          (snd (new_Builder (lib_flatbuffers E) (1024 * 1024 * 10)
             (w\<lparr>ticks := Suc (ticks w), trace := trace w @ [Now]\<rparr>))))"

section \<open>A sample environment\<close>

text \<open>
  Libraries, a clock and a world to instantiate the theorems at. The sample codecs write
  the number in unary, a separator and the string; they are inverse to each other on
  every fixture. The sample \<open>ByteBuffer\<close> reads little-endian, and \<open>0\<close> for a byte
  outside the array.
\<close>

definition sample_stringify :: "TestData \<Rightarrow> string" where
  "sample_stringify d = replicate (nat (foo_number d)) (CHR ''1'') @ CHR ''|'' # foo d"

definition sample_parse :: "string \<Rightarrow> TestData" where
  "sample_parse s =
     \<lparr>foo = tl (dropWhile (\<lambda>c. c = CHR ''1'') s),
      foo_number = int (length (takeWhile (\<lambda>c. c = CHR ''1'') s))\<rparr>"

definition byte_of_char :: "char \<Rightarrow> 8 word" where
  "byte_of_char c = of_nat (of_char c)"

definition char_of_byte :: "8 word \<Rightarrow> char" where
  "char_of_byte b = char_of (unat b)"

definition sample_encode :: "TestData \<Rightarrow> bytes" where
  "sample_encode d = replicate (nat (foo_number d)) 1 @ 0 # map byte_of_char (foo d)"

definition sample_decode :: "bytes \<Rightarrow> TestData" where
  "sample_decode bs =
     \<lparr>foo = map char_of_byte (tl (dropWhile (\<lambda>b. b = 1) bs)),
      foo_number = int (length (takeWhile (\<lambda>b. b = 1) bs))\<rparr>"

definition sample_json :: json_lib where
  "sample_json =
     \<lparr>JSON_stringify = sample_stringify, JSON_parse = sample_parse,
      JSON_stringify_any = (\<lambda>v. ''[]''), JSON_parse_any = (\<lambda>s. JArr [])\<rparr>"

definition sample_msgpack :: msgpack_lib where
  "sample_msgpack =
     \<lparr>msgpack_encode = sample_encode, msgpack_decode = sample_decode,
      msgpack_encode_any = (\<lambda>v. [144]), msgpack_decode_any = (\<lambda>s. JArr [])\<rparr>"

definition sample_avro :: avro_lib where
  "sample_avro = \<lparr>avro_toBuffer = sample_encode, avro_fromBuffer = sample_decode\<rparr>"

definition byte_at :: "bytes \<Rightarrow> int \<Rightarrow> int" where
  "byte_at buf i = (if 0 \<le> i \<and> nat i < length buf then uint (buf ! nat i) else 0)"

definition sample_readInt32 :: "bytes \<Rightarrow> int \<Rightarrow> int" where
  "sample_readInt32 buf i =
     (let u = byte_at buf i + 256 * byte_at buf (i + 1) + 65536 * byte_at buf (i + 2)
                + 16777216 * byte_at buf (i + 3)
      in if u < 2147483648 then u else u - 4294967296)"

definition sample_readInt16 :: "bytes \<Rightarrow> int \<Rightarrow> int" where
  "sample_readInt16 buf i =
     (let u = byte_at buf i + 256 * byte_at buf (i + 1)
      in if u < 32768 then u else u - 65536)"

text \<open>The sample builder's state is its buffer, and the view shows all of it.\<close>

definition sample_flatbuffers :: "bytes flatbuffers_lib" where
  "sample_flatbuffers =
     \<lparr>Builder_new = (\<lambda>capacity. []),
      Builder_clear = (\<lambda>b. []),
      Builder_createString = (\<lambda>v b. (0, case v of JStr s \<Rightarrow> map byte_of_char s | _ \<Rightarrow> b)),
      Builder_startObject = (\<lambda>n b. b),
      Builder_addFieldOffset = (\<lambda>i off d b. b),
      Builder_addFieldInt32 = (\<lambda>i v d b. replicate (nat v) 1 @ 0 # b),
      Builder_endObject = (\<lambda>b. (0, b)),
      Builder_finish = (\<lambda>off b. b),
      Builder_backing = (\<lambda>b. b),
      Builder_window = (\<lambda>b. (0, length b)),
      TestData_createTestData = (\<lambda>off n b. (0, replicate (nat n) 1 @ 0 # b)),
      TestData_foo = (\<lambda>bs. Some (foo (sample_decode bs))),
      TestData_fooNumber = (\<lambda>bs. foo_number (sample_decode bs)),
      Person_createPerson = (\<lambda>n l i b v s. (0, s)),
      PersonList_createPersonsVector = (\<lambda>offs b. (0, b)),
      PersonList_createPersonList = (\<lambda>off b. (0, b)),
      PersonList_personsLength = (\<lambda>bs. 0),
      PersonList_persons_version = (\<lambda>bs i. None),
      ByteBuffer_readInt32 = sample_readInt32,
      ByteBuffer_readInt16 = sample_readInt16\<rparr>"

definition sample_env :: "bytes env" where
  "sample_env =
     \<lparr>lib_json = sample_json, lib_msgpack = sample_msgpack, lib_avro = sample_avro,
      lib_flatbuffers = sample_flatbuffers,
      largeJsonData = [JObj [(''name'', JStr ''Ann''), (''version'', JNum 2)]],
      toFixed2 = (\<lambda>x. ''0.00'')\<rparr>"

definition sample_clock :: clock where
  "sample_clock k = real k"

definition world0 :: "bytes world" where
  "world0 = \<lparr>ticks = 0, trace = [], builders = (\<lambda>a. []), arrays = (\<lambda>a. []), next_addr = 0\<rparr>"

section \<open>Reading a trace\<close>

text \<open>The events that a run added to the trace of the world it started in.\<close>

definition new_events :: "'b world \<Rightarrow> 'b world \<Rightarrow> event list" where
  "new_events w w' = drop (length (trace w)) (trace w')"

text \<open>The calls into a codec.\<close>

fun is_codec :: "event \<Rightarrow> bool" where
  "is_codec (Encode f i p) = True"
| "is_codec (Decode f i p v) = True"
| "is_codec e = False"

text \<open>The decoded values, the warnings, and what the user interface was given to show.\<close>

fun decoded_of :: "event \<Rightarrow> decoded option" where
  "decoded_of (Decode f i p v) = Some v"
| "decoded_of e = None"

fun warning_of :: "event \<Rightarrow> string option" where
  "warning_of (ConsoleWarn m) = Some m"
| "warning_of e = None"

fun content_of :: "event \<Rightarrow> card list option" where
  "content_of (ResultsContent cs) = Some cs"
| "content_of e = None"

fun results_of :: "event \<Rightarrow> TestResult list option" where
  "results_of (SetResults rs) = Some rs"
| "results_of e = None"

text \<open>The string and the number that a decoder call produced, when it produces both.\<close>

fun fields_of :: "decoded \<Rightarrow> (string option \<times> int) option" where
  "fields_of (Parsed d) = Some (Some (foo d), foo_number d)"
| "fields_of (Accessors got n) = Some (got, n)"
| "fields_of v = None"

text \<open>
  The order of a run: which format a codec call belongs to, and which formats the list
  handed to the user interface names.
\<close>

datatype mark = Ran string | Shown "string list"

fun mark_of :: "event \<Rightarrow> mark option" where
  "mark_of (Encode f i p) = Some (Ran f)"
| "mark_of (Decode f i p v) = Some (Ran f)"
| "mark_of (SetResults rs) = Some (Shown (map format rs))"
| "mark_of (ResultsContent cs) = Some (Shown (map card_format cs))"
| "mark_of e = None"

section \<open>Codecs that are inverse on the fixtures\<close>

text \<open>
  What the libraries are expected to do, as a hypothesis on the parameters: decoding
  what was encoded for a fixture gives the fixture back. For FlatBuffers the hypothesis
  is on the bytes that the builder shows after the calls of one iteration, from any
  state of a reused builder (web) and from a new builder (app).
\<close>

definition codecs_roundtrip :: "'b env \<Rightarrow> bool" where
  "codecs_roundtrip E \<longleftrightarrow>
     (\<forall>s i. JSON_parse (lib_json E) (JSON_stringify (lib_json E) (fixture s i)) = fixture s i)
   \<and> (\<forall>i. msgpack_decode (lib_msgpack E) (msgpack_encode (lib_msgpack E) (fixture ''bar'' i))
            = fixture ''bar'' i)
   \<and> (\<forall>i. avro_fromBuffer (lib_avro E) (avro_toBuffer (lib_avro E) (fixture ''bar'' i))
            = fixture ''bar'' i)
   \<and> (\<forall>i b. TestData_foo (lib_flatbuffers E)
                 (window_bytes (lib_flatbuffers E) (build_web (lib_flatbuffers E) i b))
               = Some ''bar''
            \<and> TestData_fooNumber (lib_flatbuffers E)
                 (window_bytes (lib_flatbuffers E) (build_web (lib_flatbuffers E) i b))
               = int i)
   \<and> (\<forall>i. TestData_foo (lib_flatbuffers E)
               (window_bytes (lib_flatbuffers E) (built_app (lib_flatbuffers E) i))
             = Some ''bar''
          \<and> TestData_fooNumber (lib_flatbuffers E)
               (window_bytes (lib_flatbuffers E) (built_app (lib_flatbuffers E) i))
             = int i)"

section \<open>The FlatBuffers wire format\<close>

text \<open>
  The library behind the FlatBuffers tests, for the calls that the small-fixture tests
  make and for strings of one byte per character: \<open>flatbuffers.Builder\<close> writes its
  buffer from the back to the front, so what is written first ends up last; the getters
  of the generated \<open>TestData\<close> start from the offset in the first four bytes. A state
  of the builder holds the bytes written so far (\<open>offset()\<close> is their number), the
  largest alignment seen, and the slots and the start of the table under construction.
  The capacity is never exceeded here, and no buffer holds a second table whose vtable
  could be shared.
\<close>

record wire_builder =
  wb_capacity :: nat
  wb_bytes :: bytes
  wb_minalign :: nat
  wb_vtable :: "nat list"
  wb_object_start :: nat

text \<open>Little-endian bytes of a 16-bit and of a 32-bit integer.\<close>

definition le16 :: "int \<Rightarrow> bytes" where
  "le16 v = [word_of_int v, word_of_int (v div 256)]"

definition le32 :: "int \<Rightarrow> bytes" where
  "le32 v = [word_of_int v, word_of_int (v div 256), word_of_int (v div 65536),
             word_of_int (v div 16777216)]"

text \<open>\<open>prep\<close> pads so that what follows is aligned; the \<open>add\<close> functions then write.\<close>

definition wb_offset :: "wire_builder \<Rightarrow> nat" where
  "wb_offset b = length (wb_bytes b)"

definition wb_prep :: "nat \<Rightarrow> nat \<Rightarrow> wire_builder \<Rightarrow> wire_builder" where
  "wb_prep sz additional b =
     b\<lparr>wb_minalign := max sz (wb_minalign b),
       wb_bytes := replicate ((sz - (wb_offset b + additional) mod sz) mod sz) 0 @ wb_bytes b\<rparr>"

definition wb_write :: "bytes \<Rightarrow> wire_builder \<Rightarrow> wire_builder" where
  "wb_write bs b = b\<lparr>wb_bytes := bs @ wb_bytes b\<rparr>"

definition wb_addInt8 :: "int \<Rightarrow> wire_builder \<Rightarrow> wire_builder" where
  "wb_addInt8 v b = wb_write [word_of_int v] (wb_prep 1 0 b)"

definition wb_addInt16 :: "int \<Rightarrow> wire_builder \<Rightarrow> wire_builder" where
  "wb_addInt16 v b = wb_write (le16 v) (wb_prep 2 0 b)"

definition wb_addInt32 :: "int \<Rightarrow> wire_builder \<Rightarrow> wire_builder" where
  "wb_addInt32 v b = wb_write (le32 v) (wb_prep 4 0 b)"

definition wb_addOffset :: "int \<Rightarrow> wire_builder \<Rightarrow> wire_builder" where
  "wb_addOffset off b =
     (let b1 = wb_prep 4 0 b in wb_write (le32 (int (wb_offset b1) - off + 4)) b1)"

definition wb_slot :: "nat \<Rightarrow> wire_builder \<Rightarrow> wire_builder" where
  "wb_slot i b = b\<lparr>wb_vtable := (wb_vtable b)[i := wb_offset b]\<rparr>"

text \<open>
  The calls of the tests. \<open>createString\<close> writes the terminator, the characters and the
  length (and returns 0 for \<open>null\<close>; here for all that is not a string); a field equal to
  its default is not written; \<open>endObject\<close> writes the offset to
  the vtable, then the vtable without its trailing zeros, and \<open>finish\<close> the offset of the
  table. \<open>createTestData\<close> is what the schema compiler generates for a table of the
  string \<open>foo\<close> and the 32-bit integer \<open>foo_number\<close>.
\<close>

definition wb_new :: "nat \<Rightarrow> wire_builder" where
  "wb_new capacity =
     \<lparr>wb_capacity = capacity, wb_bytes = [], wb_minalign = 1, wb_vtable = [], wb_object_start = 0\<rparr>"

definition wb_createString :: "json \<Rightarrow> wire_builder \<Rightarrow> int \<times> wire_builder" where
  "wb_createString v b =
     (case v of
        JStr s \<Rightarrow>
          (let b1 = wb_addInt8 0 b;
               b2 = wb_prep 1 (length s) (wb_prep 4 (length s) b1);
               b3 = wb_write (map byte_of_char s) b2;
               b4 = wb_write (le32 (int (length s))) b3
           in (int (wb_offset b4), b4))
      | _ \<Rightarrow> (0, b))"

definition wb_startObject :: "nat \<Rightarrow> wire_builder \<Rightarrow> wire_builder" where
  "wb_startObject numfields b =
     b\<lparr>wb_vtable := replicate numfields 0, wb_object_start := wb_offset b\<rparr>"

definition wb_addFieldOffset :: "nat \<Rightarrow> int \<Rightarrow> int \<Rightarrow> wire_builder \<Rightarrow> wire_builder" where
  "wb_addFieldOffset voffset v d b = (if v \<noteq> d then wb_slot voffset (wb_addOffset v b) else b)"

definition wb_addFieldInt32 :: "nat \<Rightarrow> int \<Rightarrow> int \<Rightarrow> wire_builder \<Rightarrow> wire_builder" where
  "wb_addFieldInt32 voffset v d b = (if v \<noteq> d then wb_slot voffset (wb_addInt32 v b) else b)"

definition wb_endObject :: "wire_builder \<Rightarrow> int \<times> wire_builder" where
  "wb_endObject b =
     (let b1 = wb_addInt32 0 b;
          vtableloc = wb_offset b1;
          trimmed = rev (dropWhile (\<lambda>s. s = 0) (rev (wb_vtable b1)));
          b2 = fold (\<lambda>s. wb_addInt16 (if s \<noteq> 0 then int vtableloc - int s else 0))
                 (rev trimmed) b1;
          b3 = wb_addInt16 (int vtableloc - int (wb_object_start b)) b2;
          b4 = wb_addInt16 (int ((length trimmed + 2) * 2)) b3;
          tablepos = wb_offset b4 - vtableloc
      in (int vtableloc,
          b4\<lparr>wb_bytes := take tablepos (wb_bytes b4) @ le32 (int (wb_offset b4) - int vtableloc)
                           @ drop (tablepos + 4) (wb_bytes b4)\<rparr>))"

definition wb_finish :: "int \<Rightarrow> wire_builder \<Rightarrow> wire_builder" where
  "wb_finish root_table b = wb_addOffset root_table (wb_prep (wb_minalign b) 4 b)"

definition wb_createTestData :: "int \<Rightarrow> int \<Rightarrow> wire_builder \<Rightarrow> int \<times> wire_builder" where
  "wb_createTestData fooOffset fooNumber b =
     wb_endObject (wb_addFieldInt32 1 fooNumber 0 (wb_addFieldOffset 0 fooOffset 0
       (wb_startObject 2 b)))"

text \<open>The getters: \<open>__offset\<close>, \<open>__string\<close>, \<open>foo()\<close> and \<open>fooNumber()\<close> from the root.\<close>

definition wire_offset :: "bytes \<Rightarrow> int \<Rightarrow> int \<Rightarrow> int" where
  "wire_offset buf bb_pos vtable_offset =
     (let vtable = bb_pos - sample_readInt32 buf bb_pos
      in if vtable_offset < sample_readInt16 buf vtable
         then sample_readInt16 buf (vtable + vtable_offset) else 0)"

definition wire_string :: "bytes \<Rightarrow> int \<Rightarrow> string" where
  "wire_string buf off =
     (let start = off + sample_readInt32 buf off;
          len = sample_readInt32 buf start
      in map char_of_byte (take (nat len) (drop (nat (start + 4)) buf)))"

definition wire_foo :: "bytes \<Rightarrow> string option" where
  "wire_foo buf =
     (let bb_pos = sample_readInt32 buf 0 + 0;
          off = wire_offset buf bb_pos 4
      in if off \<noteq> 0 then Some (wire_string buf (bb_pos + off)) else None)"

definition wire_fooNumber :: "bytes \<Rightarrow> int" where
  "wire_fooNumber buf =
     (let bb_pos = sample_readInt32 buf 0 + 0;
          off = wire_offset buf bb_pos 6
      in if off \<noteq> 0 then sample_readInt32 buf (bb_pos + off) else 0)"

text \<open>
  The library, its \<open>ByteBuffer\<close> reading little-endian and \<open>0\<close> outside the array (the
  sample readers), an environment with it and a world to start in. The classes of the
  large-dataset test are as in the sample library.
\<close>

definition wire_flatbuffers :: "wire_builder flatbuffers_lib" where
  "wire_flatbuffers =
     \<lparr>Builder_new = wb_new,
      Builder_clear = (\<lambda>b. wb_new (wb_capacity b)),
      Builder_createString = wb_createString,
      Builder_startObject = wb_startObject,
      Builder_addFieldOffset = wb_addFieldOffset,
      Builder_addFieldInt32 = wb_addFieldInt32,
      Builder_endObject = wb_endObject,
      Builder_finish = wb_finish,
      Builder_backing = (\<lambda>b. replicate (wb_capacity b - wb_offset b) 0 @ wb_bytes b),
      Builder_window = (\<lambda>b. (wb_capacity b - wb_offset b, wb_offset b)),
      TestData_createTestData = wb_createTestData,
      TestData_foo = wire_foo,
      TestData_fooNumber = wire_fooNumber,
      Person_createPerson = (\<lambda>n l i b v s. (0, s)),
      PersonList_createPersonsVector = (\<lambda>offs b. (0, b)),
      PersonList_createPersonList = (\<lambda>off b. (0, b)),
      PersonList_personsLength = (\<lambda>bs. 0),
      PersonList_persons_version = (\<lambda>bs i. None),
      ByteBuffer_readInt32 = sample_readInt32,
      ByteBuffer_readInt16 = sample_readInt16\<rparr>"

definition wire_env :: "wire_builder env" where
  "wire_env =
     \<lparr>lib_json = sample_json, lib_msgpack = sample_msgpack, lib_avro = sample_avro,
      lib_flatbuffers = wire_flatbuffers,
      largeJsonData = [JObj [(''name'', JStr ''Ann''), (''version'', JNum 2)]],
      toFixed2 = (\<lambda>x. ''0.00'')\<rparr>"

definition wire_world0 :: "wire_builder world" where
  "wire_world0 =
     \<lparr>ticks = 0, trace = [], builders = (\<lambda>a. wb_new 0), arrays = (\<lambda>a. []), next_addr = 0\<rparr>"

text \<open>The buffer of iteration \<open>i\<close>: 28 bytes when the number is the default, else 32.\<close>

definition wire_payload :: "nat \<Rightarrow> bytes" where
  "wire_payload i =
     (if i = 0
      then [12, 0, 0, 0, 0, 0, 6, 0, 8, 0, 4, 0, 6, 0, 0, 0, 4, 0, 0, 0, 3, 0, 0, 0, 98, 97, 114, 0]
      else [12, 0, 0, 0, 8, 0, 12, 0, 8, 0, 4, 0, 8, 0, 0, 0] @ le32 (int i)
           @ [4, 0, 0, 0, 3, 0, 0, 0, 98, 97, 114, 0])"

section \<open>A buffer that the hand-written decoder can read\<close>




section \<open>Closed forms for the runners\<close>

text \<open>The events that a test adds to the trace, and the world after a large-dataset test.\<close>

definition test_events :: "small_test \<Rightarrow> 'b env \<Rightarrow> event list" where
  "test_events t E =
     small_trace (label t) (count t) (payload_at t E) (decoded_at t E) (warnings_at t E) (logs t E)"

definition large_after :: "large_test \<Rightarrow> 'b env \<Rightarrow> 'b world \<Rightarrow> 'b world" where
  "large_after l E w = the (large_world l E w)"

definition large_events :: "large_test \<Rightarrow> 'b env \<Rightarrow> 'b world \<Rightarrow> event list" where
  "large_events l E w = new_events w (large_after l E w)"

text \<open>
  The results of a run that started when \<open>t\<close> clock reads had been made: every test
  makes four reads.
\<close>

definition web_results :: "clock \<Rightarrow> nat \<Rightarrow> TestResult list" where
  "web_results clk t =
     [timed clk t ''JSON'' ITERATIONS_web,
      timed clk (t + 4) ''MessagePack'' ITERATIONS_web,
      timed clk (t + 8) ''FlatBuffers'' ITERATIONS_web]"

definition web2_results :: "clock \<Rightarrow> nat \<Rightarrow> TestResult list" where
  "web2_results clk t =
     [timed clk t ''JSON'' ITERATIONS_web,
      timed clk (t + 4) ''MessagePack'' ITERATIONS_web,
      timed clk (t + 8) ''FlatBuffers'' ITERATIONS_web,
      timed clk (t + 12) ''Avro'' ITERATIONS_web,
      timed clk (t + 16) ''JSON (5MB)'' 1,
      timed clk (t + 20) ''MessagePack (5MB)'' 1,
      timed clk (t + 24) ''FlatBuffers (5MB)'' 1]"

definition app_results :: "clock \<Rightarrow> nat \<Rightarrow> TestResult list" where
  "app_results clk t =
     [timed clk t ''JSON'' ITERATIONS_app,
      timed clk (t + 4) ''MessagePack'' ITERATIONS_app,
      timed clk (t + 8) ''FlatBuffers'' ITERATIONS_app]"

text \<open>\<open>[[], [x1], [x1, x2], ...]\<close>: a list as it grows by appending.\<close>

definition growing :: "'a list \<Rightarrow> 'a list list" where
  "growing xs = map (\<lambda>k. take k xs) [0..<Suc (length xs)]"

text \<open>
  The order of a run: the marks of its events, a block of codec calls of one format
  counted once.
\<close>

definition run_order :: "event list \<Rightarrow> mark list" where
  "run_order tr = remdups_adj (List.map_filter mark_of tr)"

text \<open>The average that a card shows.\<close>

definition avg_cell :: "card \<Rightarrow> string option" where
  "avg_cell c = map_of (card_rows c) ''Avg per operation:''"

text \<open>
  Modelled on the specification's words, to compare the three reporters with: the
  average per operation is \<open>totalTimeMs / (iterations * 2)\<close> when \<open>iterations > 1\<close>, and
  not applicable otherwise.
\<close>

definition spec_average :: "TestResult \<Rightarrow> real option" where
  "spec_average r =
     (if 1 < iterations r then Some (totalTime r / (real (iterations r) * 2)) else None)"

text \<open>
  A rendering with two decimals, rounding half away from zero, a clock that advances
  by 5000 ms from one reading to the next, and the sample environment with that
  rendering: with them the averages of the fixtures are not \<open>0.00\<close>.
\<close>

definition two_decimals :: "number \<Rightarrow> string" where
  "two_decimals v =
     (case v of
        Finite x \<Rightarrow>
          (let n = nat \<lfloor>\<bar>x\<bar> * 100 + 1 / 2\<rfloor>
           in (if x < 0 then ''-'' else [])
              @ string_of_nat (n div 100) @ ''.''
              @ [digit_char (n div 10 mod 10), digit_char (n mod 10)])
      | PosInfinity \<Rightarrow> ''Infinity''
      | NegInfinity \<Rightarrow> ''-Infinity''
      | NaN \<Rightarrow> ''NaN'')"

definition slow_clock :: clock where
  "slow_clock k = 5000 * real k"

definition decimal_env :: "bytes env" where
  "decimal_env = sample_env\<lparr>toFixed2 := two_decimals\<rparr>"

section \<open>Loops\<close>

text \<open>
  A loop whose states are known in closed form: when the body takes \<open>S k\<close> to
  \<open>S (k + 1)\<close> for every \<open>k\<close> below the bound, the loop takes \<open>S 0\<close> to \<open>S n\<close>.
\<close>

lemma for_loop_steps:
  assumes "i \<le> n" and "\<And>k. i \<le> k \<Longrightarrow> k < n \<Longrightarrow> body k (S k) = Some (S (Suc k))"
  shows "for_loop i n body (S i) = Some (S n)"
  using assms
proof (induction "n - i" arbitrary: i)
  case 0
  then show ?case by (simp add: for_loop.simps)
next
  case (Suc d)
  then have lt: "i < n" by simp
  have "for_loop (Suc i) n body (S (Suc i)) = Some (S n)"
    using Suc by (intro Suc.hyps(1)) auto
  then show ?case using lt Suc.prems(2)[of i] by (subst for_loop.simps) simp
qed

lemma for_loop_closed:
  assumes "\<And>k. k < n \<Longrightarrow> body k (S k) = Some (S (Suc k))" and "s = S 0"
  shows "for_loop 0 n body s = Some (S n)"
  using for_loop_steps[of 0 n body S] assms by simp

lemma world_eqI:
  fixes a b :: "'b world"
  assumes "ticks a = ticks b" "trace a = trace b" "builders a = builders b"
    "arrays a = arrays b" "next_addr a = next_addr b"
  shows "a = b"
  using assms by (intro world.equality) simp_all

lemma u8_bytes_trace [simp]: "u8_bytes L (w\<lparr>trace := t\<rparr>) v = u8_bytes L w v"
  by (simp add: u8_bytes_def split: u8array.splits)

lemma u8_bytes_ticks [simp]: "u8_bytes L (w\<lparr>ticks := t\<rparr>) v = u8_bytes L w v"
  by (simp add: u8_bytes_def split: u8array.splits)

subsection \<open>JSON, MessagePack, Avro\<close>

lemma JSON_serializeLoop_eq:
  "JSON_serializeLoop n f J w =
     Some (map (\<lambda>i. JSON_stringify J (fixture (f i) i)) [0..<n],
           w\<lparr>trace := trace w @ map (\<lambda>i. Encode ''JSON'' i
               (Text (JSON_stringify J (fixture (f i) i)))) [0..<n]\<rparr>)"
  unfolding JSON_serializeLoop_def
  by (rule for_loop_closed[where S = "\<lambda>k. (map (\<lambda>i. JSON_stringify J (fixture (f i) i)) [0..<k],
           w\<lparr>trace := trace w @ map (\<lambda>i. Encode ''JSON'' i
               (Text (JSON_stringify J (fixture (f i) i)))) [0..<k]\<rparr>)"])
     (simp_all add: emit_def Let_def fixture_def)

lemma JSON_deserializeLoop_sum_eq:
  "JSON_deserializeLoop_sum n J (map P [0..<n]) w =
     Some (\<Sum>i\<leftarrow>[0..<n]. foo_number (JSON_parse J (P i)),
           w\<lparr>trace := trace w @ map (\<lambda>i. Decode ''JSON'' i (Text (P i))
               (Parsed (JSON_parse J (P i)))) [0..<n]\<rparr>)"
  unfolding JSON_deserializeLoop_sum_def
  by (rule for_loop_closed[where S = "\<lambda>k. (\<Sum>i\<leftarrow>[0..<k]. foo_number (JSON_parse J (P i)),
           w\<lparr>trace := trace w @ map (\<lambda>i. Decode ''JSON'' i (Text (P i))
               (Parsed (JSON_parse J (P i)))) [0..<k]\<rparr>)"])
     (simp_all add: emit_def js_index_def Let_def)

lemma JSON_deserializeLoop_eq:
  "JSON_deserializeLoop n J (map P [0..<n]) w =
     Some (w\<lparr>trace := trace w @ map (\<lambda>i. Decode ''JSON'' i (Text (P i))
               (Parsed (JSON_parse J (P i)))) [0..<n]\<rparr>)"
  unfolding JSON_deserializeLoop_def
  by (rule for_loop_closed[where S = "\<lambda>k. w\<lparr>trace := trace w @ map (\<lambda>i. Decode ''JSON'' i
               (Text (P i)) (Parsed (JSON_parse J (P i)))) [0..<k]\<rparr>"])
     (simp_all add: emit_def js_index_def Let_def)

lemma MessagePack_serializeLoop_eq:
  "MessagePack_serializeLoop n M w =
     Some (map (\<lambda>i. msgpack_encode M (fixture ''bar'' i)) [0..<n],
           w\<lparr>trace := trace w @ map (\<lambda>i. Encode ''MessagePack'' i
               (Binary (msgpack_encode M (fixture ''bar'' i)))) [0..<n]\<rparr>)"
  unfolding MessagePack_serializeLoop_def
  by (rule for_loop_closed[where S = "\<lambda>k. (map (\<lambda>i. msgpack_encode M (fixture ''bar'' i)) [0..<k],
           w\<lparr>trace := trace w @ map (\<lambda>i. Encode ''MessagePack'' i
               (Binary (msgpack_encode M (fixture ''bar'' i)))) [0..<k]\<rparr>)"])
     (simp_all add: emit_def Let_def fixture_def)

lemma MessagePack_deserializeLoop_sum_eq:
  "MessagePack_deserializeLoop_sum n M (map P [0..<n]) w =
     Some (\<Sum>i\<leftarrow>[0..<n]. foo_number (msgpack_decode M (P i)),
           w\<lparr>trace := trace w @ map (\<lambda>i. Decode ''MessagePack'' i (Binary (P i))
               (Parsed (msgpack_decode M (P i)))) [0..<n]\<rparr>)"
  unfolding MessagePack_deserializeLoop_sum_def
  by (rule for_loop_closed[where S = "\<lambda>k. (\<Sum>i\<leftarrow>[0..<k]. foo_number (msgpack_decode M (P i)),
           w\<lparr>trace := trace w @ map (\<lambda>i. Decode ''MessagePack'' i (Binary (P i))
               (Parsed (msgpack_decode M (P i)))) [0..<k]\<rparr>)"])
     (simp_all add: emit_def js_index_def Let_def)

lemma MessagePack_deserializeLoop_eq:
  "MessagePack_deserializeLoop n M (map P [0..<n]) w =
     Some (w\<lparr>trace := trace w @ map (\<lambda>i. Decode ''MessagePack'' i (Binary (P i))
               (Parsed (msgpack_decode M (P i)))) [0..<n]\<rparr>)"
  unfolding MessagePack_deserializeLoop_def
  by (rule for_loop_closed[where S = "\<lambda>k. w\<lparr>trace := trace w @ map (\<lambda>i. Decode ''MessagePack'' i
               (Binary (P i)) (Parsed (msgpack_decode M (P i)))) [0..<k]\<rparr>"])
     (simp_all add: emit_def js_index_def Let_def)

lemma Avro_serializeLoop_eq:
  "Avro_serializeLoop n A w =
     Some (map (\<lambda>i. avro_toBuffer A (fixture ''bar'' i)) [0..<n],
           w\<lparr>trace := trace w @ map (\<lambda>i. Encode ''Avro'' i
               (Binary (avro_toBuffer A (fixture ''bar'' i)))) [0..<n]\<rparr>)"
  unfolding Avro_serializeLoop_def
  by (rule for_loop_closed[where S = "\<lambda>k. (map (\<lambda>i. avro_toBuffer A (fixture ''bar'' i)) [0..<k],
           w\<lparr>trace := trace w @ map (\<lambda>i. Encode ''Avro'' i
               (Binary (avro_toBuffer A (fixture ''bar'' i)))) [0..<k]\<rparr>)"])
     (simp_all add: emit_def Let_def fixture_def)

lemma Avro_deserializeLoop_sum_eq:
  "Avro_deserializeLoop_sum n A (map P [0..<n]) w =
     Some (\<Sum>i\<leftarrow>[0..<n]. foo_number (avro_fromBuffer A (P i)),
           w\<lparr>trace := trace w @ map (\<lambda>i. Decode ''Avro'' i (Binary (P i))
               (Parsed (avro_fromBuffer A (P i)))) [0..<n]\<rparr>)"
  unfolding Avro_deserializeLoop_sum_def
  by (rule for_loop_closed[where S = "\<lambda>k. (\<Sum>i\<leftarrow>[0..<k]. foo_number (avro_fromBuffer A (P i)),
           w\<lparr>trace := trace w @ map (\<lambda>i. Decode ''Avro'' i (Binary (P i))
               (Parsed (avro_fromBuffer A (P i)))) [0..<k]\<rparr>)"])
     (simp_all add: emit_def js_index_def Let_def)

subsection \<open>FlatBuffers\<close>

lemma js_store_next:
  assumes "k < n"
  shows "js_store (map f [0..<k] @ replicate (n - k) None) k v =
         map f [0..<k] @ Some v # replicate (n - Suc k) None"
proof -
  from assms have r: "replicate (n - k) (None :: 'a option) = None # replicate (n - Suc k) None"
    by (simp add: Suc_diff_Suc flip: replicate_Suc)
  show ?thesis using assms by (simp add: js_store_def r list_update_append)
qed

lemma js_index_holes_filled:
  "k < n \<Longrightarrow> js_index_holes (map (\<lambda>i. Some (V i)) [0..<n]) k = Some (V k)"
  by (simp add: js_index_holes_def)

lemma FlatBuffers_web_serializeLoop_eq:
  assumes b0: "builders w a = Builder_new L 1024"
  shows "FlatBuffers_web_serializeLoop n L a (replicate n None) w =
     Some (map (\<lambda>i. Some (Owned (next_addr w + i))) [0..<n],
           w\<lparr>builders := (builders w)(a := builder_web L n),
             arrays := (\<lambda>x. if next_addr w \<le> x \<and> x < next_addr w + n
                             then window_bytes L (builder_web L (Suc (x - next_addr w)))
                             else arrays w x),
             next_addr := next_addr w + n,
             trace := trace w @ map (\<lambda>i. Encode ''FlatBuffers'' i
                (Binary (window_bytes L (builder_web L (Suc i))))) [0..<n]\<rparr>)"
proof -
  let ?S = "\<lambda>k. (map (\<lambda>i. Some (Owned (next_addr w + i))) [0..<k] @ replicate (n - k) None,
           w\<lparr>builders := (builders w)(a := builder_web L k),
             arrays := (\<lambda>x. if next_addr w \<le> x \<and> x < next_addr w + k
                             then window_bytes L (builder_web L (Suc (x - next_addr w)))
                             else arrays w x),
             next_addr := next_addr w + k,
             trace := trace w @ map (\<lambda>i. Encode ''FlatBuffers'' i
                (Binary (window_bytes L (builder_web L (Suc i))))) [0..<k]\<rparr>)"
  have init: "(replicate n None, w) = ?S 0"
    using b0 by (auto intro!: world_eqI simp: fun_eq_iff)
  let ?body = "\<lambda>i (serialized, w).
       let wa = update_builder a (Builder_clear L) w;
           (fooOffset, wb) = call_builder a (Builder_createString L (JStr ''bar'')) wa;
           (testDataOffset, wc) =
              call_builder a (TestData_createTestData L fooOffset (int i)) wb;
           wd = update_builder a (Builder_finish L testDataOffset) wc;
           buf = asUint8Array L a wd;
           (copy, we) = slice L buf wd
       in Some (js_store serialized i copy,
                emit (Encode ''FlatBuffers'' i (Binary (u8_bytes L we copy))) we)"
  have step: "?body k (?S k) = Some (?S (Suc k))" if "k < n" for k
    using that
    apply (simp add: Let_def split_beta update_builder_def call_builder_def asUint8Array_def
        slice_def emit_def u8_bytes_def build_web_def window_bytes_def js_store_next)
    apply (intro world_eqI)
    apply (simp_all add: fun_eq_iff build_web_def window_bytes_def Let_def split_beta)
    done
  show ?thesis
    unfolding FlatBuffers_web_serializeLoop_def
    using for_loop_closed[where S = ?S and body = ?body and n = n, OF step init] by simp
qed


lemma FlatBuffers_web_deserializeLoop_eq:
  assumes rd: "\<And>i. i < n \<Longrightarrow> u8_bytes L w (V i) = B i"
  shows "FlatBuffers_web_deserializeLoop n L (map (\<lambda>i. Some (V i)) [0..<n]) w =
     Some (\<Sum>i\<leftarrow>[0..<n]. addend (Accessors (TestData_foo L (B i)) (TestData_fooNumber L (B i))),
           w\<lparr>trace := trace w @ map (\<lambda>i. Decode ''FlatBuffers'' i (Binary (B i))
               (Accessors (TestData_foo L (B i)) (TestData_fooNumber L (B i)))) [0..<n]\<rparr>)"
  unfolding FlatBuffers_web_deserializeLoop_def
  by (rule for_loop_closed[where S = "\<lambda>k.
          (\<Sum>i\<leftarrow>[0..<k]. addend (Accessors (TestData_foo L (B i)) (TestData_fooNumber L (B i))),
           w\<lparr>trace := trace w @ map (\<lambda>i. Decode ''FlatBuffers'' i (Binary (B i))
               (Accessors (TestData_foo L (B i)) (TestData_fooNumber L (B i)))) [0..<k]\<rparr>)"])
     (simp_all add: emit_def js_index_holes_def Let_def rd)

lemma FlatBuffers_app_serializeLoop_eq:
  "FlatBuffers_app_serializeLoop n L w =
     Some (map (\<lambda>i. View (next_addr w + i) (fst (Builder_window L (built_app L i)))
                       (snd (Builder_window L (built_app L i)))) [0..<n],
           w\<lparr>builders := (\<lambda>x. if next_addr w \<le> x \<and> x < next_addr w + n
                               then built_app L (x - next_addr w) else builders w x),
             next_addr := next_addr w + n,
             trace := trace w @ map (\<lambda>i. Encode ''FlatBuffers'' i
                (Binary (window_bytes L (built_app L i)))) [0..<n]\<rparr>)"
proof -
  let ?S = "\<lambda>k. (map (\<lambda>i. View (next_addr w + i) (fst (Builder_window L (built_app L i)))
                       (snd (Builder_window L (built_app L i)))) [0..<k],
           w\<lparr>builders := (\<lambda>x. if next_addr w \<le> x \<and> x < next_addr w + k
                               then built_app L (x - next_addr w) else builders w x),
             next_addr := next_addr w + k,
             trace := trace w @ map (\<lambda>i. Encode ''FlatBuffers'' i
                (Binary (window_bytes L (built_app L i)))) [0..<k]\<rparr>)"
  let ?body = "\<lambda>i (serialized, w).
       let (builder, wa) = new_Builder L 1024 w;
           (fooOffset, wb) = call_builder builder (Builder_createString L (JStr ''bar'')) wa;
           (testDataOffset, wc) =
              call_builder builder (TestData_createTestData L fooOffset (int i)) wb;
           wd = update_builder builder (Builder_finish L testDataOffset) wc;
           buf = asUint8Array L builder wd
       in Some (serialized @ [buf],
                emit (Encode ''FlatBuffers'' i (Binary (u8_bytes L wd buf))) wd)"
  have init: "([], w) = ?S 0"
    by (auto intro!: world_eqI simp: fun_eq_iff)
  have step: "?body k (?S k) = Some (?S (Suc k))" if "k < n" for k
    using that
    apply (simp add: Let_def split_beta update_builder_def call_builder_def asUint8Array_def
        new_Builder_def emit_def u8_bytes_def built_app_def window_bytes_def)
    apply (intro world_eqI)
    apply (auto simp add: fun_eq_iff built_app_def window_bytes_def Let_def split_beta)
    done
  show ?thesis
    unfolding FlatBuffers_app_serializeLoop_def
    using for_loop_closed[where S = ?S and body = ?body and n = n, OF step init] by simp
qed

lemma FlatBuffers_lowlevel_serializeLoop_eq:
  "FlatBuffers_lowlevel_serializeLoop n L w =
     Some (map (\<lambda>i. View (next_addr w + i) (fst (Builder_window L (built_lowlevel L i)))
                       (snd (Builder_window L (built_lowlevel L i)))) [0..<n],
           w\<lparr>builders := (\<lambda>x. if next_addr w \<le> x \<and> x < next_addr w + n
                               then built_lowlevel L (x - next_addr w) else builders w x),
             next_addr := next_addr w + n,
             trace := trace w @ map (\<lambda>i. Encode ''FlatBuffers'' i
                (Binary (window_bytes L (built_lowlevel L i)))) [0..<n]\<rparr>)"
proof -
  let ?S = "\<lambda>k. (map (\<lambda>i. View (next_addr w + i) (fst (Builder_window L (built_lowlevel L i)))
                       (snd (Builder_window L (built_lowlevel L i)))) [0..<k],
           w\<lparr>builders := (\<lambda>x. if next_addr w \<le> x \<and> x < next_addr w + k
                               then built_lowlevel L (x - next_addr w) else builders w x),
             next_addr := next_addr w + k,
             trace := trace w @ map (\<lambda>i. Encode ''FlatBuffers'' i
                (Binary (window_bytes L (built_lowlevel L i)))) [0..<k]\<rparr>)"
  let ?body = "\<lambda>i (serialized, w).
       let (builder, wa) = new_Builder L 1024 w;
           (fooOffset, wb) = call_builder builder (Builder_createString L (JStr ''bar'')) wa;
           wc = update_builder builder (Builder_startObject L 2) wb;
           wd = update_builder builder (Builder_addFieldOffset L 0 fooOffset 0) wc;
           we = update_builder builder (Builder_addFieldInt32 L 1 (int i) 0) wd;
           (offset, wf) = call_builder builder (Builder_endObject L) we;
           wg = update_builder builder (Builder_finish L offset) wf;
           buf = asUint8Array L builder wg
       in Some (serialized @ [buf],
                emit (Encode ''FlatBuffers'' i (Binary (u8_bytes L wg buf))) wg)"
  have init: "([], w) = ?S 0"
    by (auto intro!: world_eqI simp: fun_eq_iff)
  have step: "?body k (?S k) = Some (?S (Suc k))" if "k < n" for k
    using that
    apply (simp add: Let_def split_beta update_builder_def call_builder_def asUint8Array_def
        new_Builder_def emit_def u8_bytes_def built_lowlevel_def window_bytes_def)
    apply (intro world_eqI)
    apply (auto simp add: fun_eq_iff built_lowlevel_def window_bytes_def Let_def split_beta)
    done
  show ?thesis
    unfolding FlatBuffers_lowlevel_serializeLoop_def
    using for_loop_closed[where S = ?S and body = ?body and n = n, OF step init] by simp
qed

lemma FlatBuffers_app_deserializeLoop_eq:
  assumes rd: "\<And>i. i < n \<Longrightarrow> u8_bytes L w (V i) = B i"
  shows "FlatBuffers_app_deserializeLoop n L (map V [0..<n]) w =
     Some (w\<lparr>trace := trace w @ concat (map (\<lambda>i.
              Decode ''FlatBuffers'' i (Binary (B i))
                (Accessors (TestData_foo L (B i)) (TestData_fooNumber L (B i)))
              # warnings App_FlatBuffers i
                  (Accessors (TestData_foo L (B i)) (TestData_fooNumber L (B i)))) [0..<n])\<rparr>)"
  unfolding FlatBuffers_app_deserializeLoop_def
  by (rule for_loop_closed[where S = "\<lambda>k. w\<lparr>trace := trace w @ concat (map (\<lambda>i.
              Decode ''FlatBuffers'' i (Binary (B i))
                (Accessors (TestData_foo L (B i)) (TestData_fooNumber L (B i)))
              # warnings App_FlatBuffers i
                  (Accessors (TestData_foo L (B i)) (TestData_fooNumber L (B i)))) [0..<k])\<rparr>"])
     (simp_all add: emit_def js_index_def Let_def rd)

lemma FlatBuffers_lowlevel_deserializeLoop_eq:
  assumes rd: "\<And>i. i < n \<Longrightarrow> u8_bytes L w (V i) = B i"
  shows "FlatBuffers_lowlevel_deserializeLoop n L (map V [0..<n]) w =
     Some (w\<lparr>trace := trace w @ concat (map (\<lambda>i.
              Decode ''FlatBuffers'' i (Binary (B i))
                (LowLevel (fst (lowlevel_read L (B i))) (snd (lowlevel_read L (B i))))
              # warnings App_FlatBuffers_lowlevel i
                  (LowLevel (fst (lowlevel_read L (B i))) (snd (lowlevel_read L (B i))))) [0..<n])\<rparr>)"
  unfolding FlatBuffers_lowlevel_deserializeLoop_def
  by (rule for_loop_closed[where S = "\<lambda>k. w\<lparr>trace := trace w @ concat (map (\<lambda>i.
              Decode ''FlatBuffers'' i (Binary (B i))
                (LowLevel (fst (lowlevel_read L (B i))) (snd (lowlevel_read L (B i))))
              # warnings App_FlatBuffers_lowlevel i
                  (LowLevel (fst (lowlevel_read L (B i))) (snd (lowlevel_read L (B i))))) [0..<k])\<rparr>"])
     (simp_all add: emit_def js_index_def Let_def rd split_beta split: option.splits)

section \<open>What each small-fixture test returns and leaves behind\<close>

lemma tick_numerals:
  "n + 1 = Suc n" "n + 2 = Suc (Suc n)" "n + 3 = Suc (Suc (Suc n))"
  "n + 4 = Suc (Suc (Suc (Suc n)))"
  by simp_all

lemmas test_simps = now_def emit_def timed_def small_trace_def Let_def tick_numerals
  world_after_def decoded_at_def warnings_at_def sum_log_def

lemma testJSON_web_eq:
  "testJSON_web clk (lib_json E) w =
     Some (timed clk (ticks w) (label Web_JSON) (count Web_JSON), world_after Web_JSON E w)"
  unfolding testJSON_web_def
  by (simp add: test_simps JSON_serializeLoop_eq JSON_deserializeLoop_sum_eq)

lemma testJSON_web2_eq:
  "testJSON_web2 clk (lib_json E) w =
     Some (timed clk (ticks w) (label Web2_JSON) (count Web2_JSON), world_after Web2_JSON E w)"
  unfolding testJSON_web2_def
  by (simp add: test_simps JSON_serializeLoop_eq JSON_deserializeLoop_sum_eq)

lemma testJSON_app_eq:
  "testJSON_app clk (lib_json E) w =
     Some (timed clk (ticks w) (label App_JSON) (count App_JSON), world_after App_JSON E w)"
  unfolding testJSON_app_def
  by (simp add: test_simps JSON_serializeLoop_eq JSON_deserializeLoop_eq)

lemma testMessagePack_web_eq:
  "testMessagePack_web clk (lib_msgpack E) w =
     Some (timed clk (ticks w) (label Web_MessagePack) (count Web_MessagePack),
           world_after Web_MessagePack E w)"
  unfolding testMessagePack_web_def
  by (simp add: test_simps MessagePack_serializeLoop_eq MessagePack_deserializeLoop_sum_eq)

lemma testMessagePack_app_eq:
  "testMessagePack_app clk (lib_msgpack E) w =
     Some (timed clk (ticks w) (label App_MessagePack) (count App_MessagePack),
           world_after App_MessagePack E w)"
  unfolding testMessagePack_app_def
  by (simp add: test_simps MessagePack_serializeLoop_eq MessagePack_deserializeLoop_eq)

lemma testAvro_web2_eq:
  "testAvro_web2 clk (lib_avro E) w =
     Some (timed clk (ticks w) (label Web2_Avro) (count Web2_Avro), world_after Web2_Avro E w)"
  unfolding testAvro_web2_def
  by (simp add: test_simps Avro_serializeLoop_eq Avro_deserializeLoop_sum_eq)

lemma testFlatBuffers_app_eq:
  "testFlatBuffers_app clk (lib_flatbuffers E) w =
     Some (timed clk (ticks w) (label App_FlatBuffers) (count App_FlatBuffers),
           world_after App_FlatBuffers E w)"
proof -
  let ?L = "lib_flatbuffers E"
  let ?w1 = "snd (now clk w)"
  define ser where "ser = map (\<lambda>i. View (next_addr w + i) (fst (Builder_window ?L (built_app ?L i)))
                       (snd (Builder_window ?L (built_app ?L i)))) [0..<ITERATIONS_app]"
  define w2 where "w2 = w\<lparr>ticks := Suc (ticks w),
             builders := (\<lambda>x. if next_addr w \<le> x \<and> x < next_addr w + ITERATIONS_app
                               then built_app ?L (x - next_addr w) else builders w x),
             next_addr := next_addr w + ITERATIONS_app,
             trace := trace w @ Now # map (\<lambda>i. Encode ''FlatBuffers'' i
                (Binary (window_bytes ?L (built_app ?L i)))) [0..<ITERATIONS_app]\<rparr>"
  have ser: "FlatBuffers_app_serializeLoop ITERATIONS_app ?L ?w1 = Some (ser, w2)"
    by (simp add: FlatBuffers_app_serializeLoop_eq now_def emit_def ser_def w2_def cong: if_cong)
  let ?w4 = "snd (now clk (snd (now clk w2)))"
  have rd: "u8_bytes ?L ?w4 (View (next_addr w + i) (fst (Builder_window ?L (built_app ?L i)))
                       (snd (Builder_window ?L (built_app ?L i)))) = window_bytes ?L (built_app ?L i)"
    if "i < ITERATIONS_app" for i
    using that by (simp add: w2_def now_def emit_def u8_bytes_def window_bytes_def)
  note de = FlatBuffers_app_deserializeLoop_eq[where w = ?w4 and L = ?L and n = ITERATIONS_app, OF rd, simplified]
  show ?thesis
    unfolding testFlatBuffers_app_def
    apply (simp add: split_beta Let_def ser)
    apply (simp add: ser_def de)
    apply (simp add: test_simps w2_def)
    done
qed

lemma testFlatBuffers_app_lowlevel_eq:
  "testFlatBuffers_app_lowlevel clk (lib_flatbuffers E) w =
     Some (timed clk (ticks w) (label App_FlatBuffers_lowlevel) (count App_FlatBuffers_lowlevel),
           world_after App_FlatBuffers_lowlevel E w)"
proof -
  let ?L = "lib_flatbuffers E"
  let ?w1 = "snd (now clk w)"
  define ser where "ser = map (\<lambda>i. View (next_addr w + i) (fst (Builder_window ?L (built_lowlevel ?L i)))
                       (snd (Builder_window ?L (built_lowlevel ?L i)))) [0..<ITERATIONS_app]"
  define w2 where "w2 = w\<lparr>ticks := Suc (ticks w),
             builders := (\<lambda>x. if next_addr w \<le> x \<and> x < next_addr w + ITERATIONS_app
                               then built_lowlevel ?L (x - next_addr w) else builders w x),
             next_addr := next_addr w + ITERATIONS_app,
             trace := trace w @ Now # map (\<lambda>i. Encode ''FlatBuffers'' i
                (Binary (window_bytes ?L (built_lowlevel ?L i)))) [0..<ITERATIONS_app]\<rparr>"
  have ser: "FlatBuffers_lowlevel_serializeLoop ITERATIONS_app ?L ?w1 = Some (ser, w2)"
    by (simp add: FlatBuffers_lowlevel_serializeLoop_eq now_def emit_def ser_def w2_def cong: if_cong)
  let ?w4 = "snd (now clk (snd (now clk w2)))"
  have rd: "u8_bytes ?L ?w4 (View (next_addr w + i) (fst (Builder_window ?L (built_lowlevel ?L i)))
                       (snd (Builder_window ?L (built_lowlevel ?L i)))) = window_bytes ?L (built_lowlevel ?L i)"
    if "i < ITERATIONS_app" for i
    using that by (simp add: w2_def now_def emit_def u8_bytes_def window_bytes_def)
  note de = FlatBuffers_lowlevel_deserializeLoop_eq[where w = ?w4 and L = ?L and n = ITERATIONS_app, OF rd, simplified]
  show ?thesis
    unfolding testFlatBuffers_app_lowlevel_def
    apply (simp add: split_beta Let_def ser)
    apply (simp add: ser_def de)
    apply (simp add: test_simps w2_def)
    done
qed


lemma testFlatBuffers_web_eq:
  "testFlatBuffers_web clk (lib_flatbuffers E) w =
     Some (timed clk (ticks w) (label Web_FlatBuffers) (count Web_FlatBuffers),
           world_after Web_FlatBuffers E w)"
proof -
  let ?L = "lib_flatbuffers E"
  let ?a = "next_addr w"
  let ?w1 = "snd (now clk (snd (new_Builder ?L 1024 w)))"
  define ser where "ser = map (\<lambda>i. Some (Owned (Suc (?a + i)))) [0..<ITERATIONS_web]"
  define w2 where "w2 = w\<lparr>ticks := Suc (ticks w),
             builders := (builders w)(?a := builder_web ?L ITERATIONS_web),
             arrays := (\<lambda>x. if ?a < x \<and> x \<le> ?a + ITERATIONS_web
                             then window_bytes ?L (builder_web ?L (x - ?a))
                             else arrays w x),
             next_addr := ?a + 1 + ITERATIONS_web,
             trace := trace w @ Now # map (\<lambda>i. Encode ''FlatBuffers'' i
                (Binary (window_bytes ?L (builder_web ?L (Suc i))))) [0..<ITERATIONS_web]\<rparr>"
  have b0: "builders ?w1 ?a = Builder_new ?L 1024"
    by (simp add: now_def emit_def new_Builder_def)
  have ser: "FlatBuffers_web_serializeLoop ITERATIONS_web ?L ?a (replicate ITERATIONS_web None) ?w1
      = Some (ser, w2)"
    unfolding FlatBuffers_web_serializeLoop_eq[OF b0]
    apply (simp add: ser_def w2_def now_def emit_def new_Builder_def del: builder_web.simps
        cong: if_cong)
    apply (intro world_eqI)
    apply (auto simp add: fun_eq_iff Suc_diff_Suc Suc_le_eq now_def emit_def new_Builder_def
        simp del: builder_web.simps)
    done
  let ?w4 = "snd (now clk (snd (now clk w2)))"
  have rd: "u8_bytes ?L ?w4 (Owned (Suc (?a + i))) = window_bytes ?L (builder_web ?L (Suc i))"
    if "i < ITERATIONS_web" for i
    using that by (simp add: w2_def now_def emit_def u8_bytes_def)
  note de = FlatBuffers_web_deserializeLoop_eq[where w = ?w4 and L = ?L and n = ITERATIONS_web
      and V = "\<lambda>i. Owned (Suc (?a + i))", OF rd, simplified]
  show ?thesis
    unfolding testFlatBuffers_web_def
    apply (simp add: split_beta Let_def ser new_Builder_def[of ?L 1024 w, THEN arg_cong[of _ _ fst]])
    apply (simp add: ser_def de)
    apply (simp add: test_simps w2_def new_Builder_def)
    done
qed

lemma small_test_run:
  "run_test (Small t) clk E w = Some (timed clk (ticks w) (label t) (count t), world_after t E w)"
  by (cases t)
    (simp_all only: run_test.simps testJSON_web_eq testJSON_web2_eq testJSON_app_eq
      testMessagePack_web_eq testMessagePack_app_eq testAvro_web2_eq testFlatBuffers_web_eq
      testFlatBuffers_app_eq testFlatBuffers_app_lowlevel_eq)

section \<open>The large-dataset tests\<close>

lemma for_loop_invariant:
  assumes "for_loop i n body s = Some s'" and "I s"
    and "\<And>k s s'. I s \<Longrightarrow> body k s = Some s' \<Longrightarrow> I s'"
  shows "I s'"
  using assms
proof (induction i n body s rule: for_loop.induct)
  case (1 i n body s)
  show ?case
  proof (cases "i < n")
    case True
    with "1.prems"(1) obtain s1 where b: "body i s = Some s1"
      and r: "for_loop (Suc i) n body s1 = Some s'"
      by (subst (asm) for_loop.simps) (auto simp: bind_eq_Some_conv)
    from "1.prems"(3)[OF "1.prems"(2) b] have "I s1" .
    from "1.IH"[OF True b r this "1.prems"(3)] show ?thesis by simp
  next
    case False
    with "1.prems" show ?thesis by (subst (asm) for_loop.simps) simp
  qed
qed

lemma for_loop_total:
  assumes "\<And>k s. k < n \<Longrightarrow> \<exists>s'. body k s = Some s'"
  shows "\<exists>s'. for_loop i n body s = Some s'"
  using assms
proof (induction i n body s rule: for_loop.induct)
  case (1 i n body s)
  show ?case
  proof (cases "i < n")
    case True
    from "1.prems"[OF True] obtain s1 where b: "body i s = Some s1" by blast
    from "1.IH"[OF True b "1.prems"] obtain s' where "for_loop (Suc i) n body s1 = Some s'"
      by blast
    with True b show ?thesis by (subst for_loop.simps) simp
  next
    case False
    then show ?thesis by (subst for_loop.simps) simp
  qed
qed

lemma version_loop_eq: "version_loop L buf len = Some (versions_sum L buf len)"
  unfolding version_loop_def versions_sum_def
  by (rule for_loop_closed[where S = "\<lambda>k. (\<Sum>i\<leftarrow>[0..<k].
        case PersonList_persons_version L buf i of None \<Rightarrow> 0 | Some v \<Rightarrow> v)"])
     (simp_all split: option.splits)

lemma Person_loop_frame:
  assumes "Person_loop L a data w = Some (offs, w')"
  shows "ticks w' = ticks w \<and> trace w' = trace w \<and> arrays w' = arrays w
         \<and> next_addr w' = next_addr w"
proof -
  let ?I = "\<lambda>s :: int list \<times> 'a world. ticks (snd s) = ticks w \<and> trace (snd s) = trace w
      \<and> arrays (snd s) = arrays w \<and> next_addr (snd s) = next_addr w"
  have "?I (offs, w')"
    by (rule for_loop_invariant[where I = ?I, OF assms[unfolded Person_loop_def]])
       (auto simp: bind_eq_Some_conv call_builder_def Let_def split_beta)
  then show ?thesis by simp
qed

lemma person_prop_total: "person \<noteq> JNull \<Longrightarrow> \<exists>v. person_prop person k = Some v"
  by (cases person) simp_all

lemma Person_loop_total:
  assumes "JNull \<notin> set data"
  shows "\<exists>offs w'. Person_loop L a data w = Some (offs, w')"
proof -
  have "\<exists>s'. for_loop 0 (length data) body s = Some s'"
    if "body = (\<lambda>i (personOffsets, w). do {
       person \<leftarrow> js_index data i;
       name \<leftarrow> person_prop person ''name'';
       let (nameOffset, wa) =
         call_builder a (Builder_createString L (js_or name (JStr ''''))) w;
       language \<leftarrow> person_prop person ''language'';
       let (languageOffset, wb) =
         call_builder a (Builder_createString L (js_or language (JStr ''''))) wa;
       ident \<leftarrow> person_prop person ''id'';
       let (idOffset, wc) =
         call_builder a (Builder_createString L (js_or ident (JStr ''''))) wb;
       bio \<leftarrow> person_prop person ''bio'';
       let (bioOffset, wd) =
         call_builder a (Builder_createString L (js_or bio (JStr ''''))) wc;
       v \<leftarrow> person_prop person ''version'';
       let version = js_or v (JNum 0);
       let (personOffset, we) =
         call_builder a
           (Person_createPerson L nameOffset languageOffset idOffset bioOffset version) wd;
       Some (personOffsets @ [personOffset], we)
     })" for body and s :: "int list \<times> 'a world"
  proof (rule for_loop_total)
    fix k and s :: "int list \<times> 'a world"
    assume k: "k < length data"
    with assms have nn: "data ! k \<noteq> JNull" by (metis nth_mem)
    from person_prop_total[OF nn] show "\<exists>s'. body k s = Some s'"
      unfolding that using k
      by (cases "data ! k") (simp_all add: js_index_def split_beta Let_def)
  qed
  then show ?thesis unfolding Person_loop_def by (metis surj_pair)
qed

lemmas large_simps = now_def emit_def timed_def large_trace_def Let_def tick_numerals
  large_log_def array_length_def

lemma testLargeJSON_eq:
  "testLargeJSON clk (lib_json E) (largeJsonData E) w =
     map_option (Pair (timed clk (ticks w) (large_label Large_JSON) 1)) (large_world Large_JSON E w)"
  unfolding testLargeJSON_def by (simp add: large_simps)

lemma testLargeMessagePack_eq:
  "testLargeMessagePack clk (lib_msgpack E) (largeJsonData E) w =
     map_option (Pair (timed clk (ticks w) (large_label Large_MessagePack) 1))
       (large_world Large_MessagePack E w)"
  unfolding testLargeMessagePack_def by (simp add: large_simps)

lemma u8_bytes_View:
  "u8_bytes L w (View a off len) = take len (drop off (Builder_backing L (builders w a)))"
  by (simp add: u8_bytes_def)

lemma testLargeFlatBuffers_eq:
  "testLargeFlatBuffers clk (lib_flatbuffers E) (largeJsonData E) w =
     map_option (Pair (timed clk (ticks w) (large_label Large_FlatBuffers) 1))
       (large_world Large_FlatBuffers E w)"
proof -
  let ?L = "lib_flatbuffers E"
  let ?a = "next_addr w"
  let ?w2 = "snd (new_Builder ?L (1024 * 1024 * 10)
             (w\<lparr>ticks := Suc (ticks w), trace := trace w @ [Now]\<rparr>))"
  have start: "new_Builder ?L (1024 * 1024 * 10) (snd (now clk w)) = (?a, ?w2)"
    by (simp add: now_def emit_def new_Builder_def)
  show ?thesis
  proof (cases "Person_loop ?L ?a (largeJsonData E) ?w2")
    case None
    then show ?thesis
      unfolding testLargeFlatBuffers_def
      by (simp add: now_def emit_def Let_def split_beta new_Builder_def)
  next
    case (Some r)
    obtain offs w3 where r: "r = (offs, w3)" by (cases r)
    from Person_loop_frame[OF Some[unfolded r]]
    have fr: "ticks w3 = Suc (ticks w)" "trace w3 = trace w @ [Now]"
      by (simp_all add: new_Builder_def)
    define X where "X = PersonList_createPersonsVector ?L offs (builders w3 ?a)"
    define Y where "Y = PersonList_createPersonList ?L (fst X) (snd X)"
    define b where "b = Builder_finish ?L (fst Y) (snd Y)"
    define buf where "buf = window_bytes ?L b"
    define w6 where "w6 = w3\<lparr>builders := (builders w3)(?a := b)\<rparr>"
    have b: "b = finish_PersonList ?L offs (builders w3 ?a)"
      by (simp add: b_def Y_def X_def finish_PersonList_def Let_def split_beta)
    have s4: "call_builder ?a (PersonList_createPersonsVector ?L offs) w3
        = (fst X, w3\<lparr>builders := (builders w3)(?a := snd X)\<rparr>)"
      by (simp add: call_builder_def X_def)
    have s5: "call_builder ?a (PersonList_createPersonList ?L (fst X))
          (w3\<lparr>builders := (builders w3)(?a := snd X)\<rparr>)
        = (fst Y, w3\<lparr>builders := (builders w3)(?a := snd Y)\<rparr>)"
      by (simp add: call_builder_def Y_def)
    have s6: "update_builder ?a (Builder_finish ?L (fst Y))
          (w3\<lparr>builders := (builders w3)(?a := snd Y)\<rparr>) = w6"
      by (simp add: update_builder_def b_def w6_def)
    have s7: "u8_bytes ?L w6 (asUint8Array ?L ?a w6) = buf"
      by (simp add: asUint8Array_def u8_bytes_View w6_def buf_def window_bytes_def)
    have s9: "u8_bytes ?L (snd (now clk (snd (now clk
          (emit (Encode ''FlatBuffers (5MB)'' 0 (Binary buf)) w6))))) (asUint8Array ?L ?a w6) = buf"
      by (simp add: asUint8Array_def u8_bytes_View w6_def buf_def window_bytes_def now_def
          emit_def)
    have body: "testLargeFlatBuffers clk ?L (largeJsonData E) w =
      (let w7 = emit (Encode ''FlatBuffers (5MB)'' 0 (Binary buf)) w6;
           (t1, w8) = now clk w7;
           (startDeserialize, w9) = now clk w8;
           len = PersonList_personsLength ?L buf;
           w10 = emit (Decode ''FlatBuffers (5MB)'' 0 (Binary buf) (PersonList len)) w9;
           sum = versions_sum ?L buf len;
           w11 = (if sum = 0 then emit (ConsoleLog ''Large FlatBuffers sum:'' sum) w10 else w10);
           (t2, w12) = now clk w11
       in Some (\<lparr>format = ''FlatBuffers (5MB)'', serializeTime = t1 - clk (ticks w),
            deserializeTime = t2 - startDeserialize,
            totalTime = (t1 - clk (ticks w)) + (t2 - startDeserialize), iterations = 1\<rparr>, w12))"
      unfolding testLargeFlatBuffers_def
      apply (simp only: Let_def[of "largeJsonData E"])
      apply (simp only: now_def[of clk w] Let_def[of "(_, _)"] case_prod_conv)
      apply (simp only: start[unfolded now_def snd_conv] case_prod_conv Some r Option.bind.simps
          Let_def[of "(_, _)"])
      apply (simp only: s4 s5 s6 case_prod_conv Let_def[of "(_, _)"] Let_def[of w6]
          Let_def[of "asUint8Array _ _ _"] s7)
      apply (simp add: Let_def split_beta s9 version_loop_eq)
      done
    have loop: "Person_loop ?L ?a (largeJsonData E)
        (snd (new_Builder ?L 10485760 (w\<lparr>ticks := Suc (ticks w), trace := trace w @ [Now]\<rparr>)))
        = Some (offs, w3)"
      using Some r by simp
    show ?thesis
      unfolding body
      by (simp add: loop b buf_def w6_def now_def emit_def Let_def fr
          timed_def tick_numerals large_log_def large_trace_def)
  qed
qed


lemma large_test_run:
  "run_test (Large l) clk E w =
     map_option (Pair (timed clk (ticks w) (large_label l) 1)) (large_world l E w)"
  by (cases l)
    (simp_all only: run_test.simps testLargeJSON_eq testLargeMessagePack_eq
      testLargeFlatBuffers_eq)

lemma large_world_total:
  assumes "l \<noteq> Large_FlatBuffers \<or> JNull \<notin> set (largeJsonData E)"
  shows "\<exists>W. large_world l E w = Some W"
proof (cases l)
  case Large_FlatBuffers
  with assms have "JNull \<notin> set (largeJsonData E)" by simp
  from Person_loop_total[OF this] show ?thesis
    unfolding Large_FlatBuffers by (fastforce simp: split_beta)
qed (simp_all add: Let_def)

lemma large_world_trace:
  assumes "large_world l E w = Some W"
  shows "\<exists>p v lbl s. ticks W = ticks w + 4
     \<and> trace W = trace w @ large_trace (large_label l) p v (large_log lbl s)"
proof (cases l)
  case Large_JSON
  with assms have "ticks W = ticks w + 4"
    and "trace W = trace w @ large_trace (large_label l)
       (Text (JSON_stringify_any (lib_json E) (JArr (largeJsonData E))))
       (ParsedAny (JSON_parse_any (lib_json E)
          (JSON_stringify_any (lib_json E) (JArr (largeJsonData E)))))
       (large_log ''Large JSON sum:'' (real (array_length (JSON_parse_any (lib_json E)
          (JSON_stringify_any (lib_json E) (JArr (largeJsonData E)))))))"
    by (auto simp: Let_def)
  then show ?thesis by blast
next
  case Large_MessagePack
  with assms have "ticks W = ticks w + 4"
    and "trace W = trace w @ large_trace (large_label l)
       (Binary (msgpack_encode_any (lib_msgpack E) (JArr (largeJsonData E))))
       (ParsedAny (msgpack_decode_any (lib_msgpack E)
          (msgpack_encode_any (lib_msgpack E) (JArr (largeJsonData E)))))
       (large_log ''Large MessagePack sum:'' (real (array_length (msgpack_decode_any (lib_msgpack E)
          (msgpack_encode_any (lib_msgpack E) (JArr (largeJsonData E)))))))"
    by (auto simp: Let_def)
  then show ?thesis by blast
next
  case Large_FlatBuffers
  with assms obtain offs w3 where
    W: "W = (let L = lib_flatbuffers E;
              b = finish_PersonList L offs (builders w3 (next_addr w));
              buf = window_bytes L b;
              len = PersonList_personsLength L buf
          in w3\<lparr>ticks := ticks w + 4,
                trace := trace w @ large_trace ''FlatBuffers (5MB)'' (Binary buf) (PersonList len)
                           (large_log ''Large FlatBuffers sum:'' (versions_sum L buf len)),
                builders := (builders w3)(next_addr w := b)\<rparr>)"
    by (auto simp: split_beta)
  have "ticks W = ticks w + 4" unfolding W by (simp add: Let_def)
  moreover have "\<exists>p v lbl s. trace W = trace w @ large_trace (large_label l) p v (large_log lbl s)"
    unfolding W Large_FlatBuffers by (simp add: Let_def) blast
  ultimately show ?thesis by blast
qed


section \<open>Traces\<close>

lemma filter_codec_warnings [simp]: "filter is_codec (warnings t i v) = []"
  by (cases "(t, i, v)" rule: warnings.cases) (auto split: option.splits)

lemma filter_codec_logs [simp]: "filter is_codec (logs t E) = []"
  by (cases t) (simp_all add: sum_log_def)

lemma filter_codec_large_log [simp]: "filter is_codec (large_log lbl s) = []"
  by (simp add: large_log_def)

lemma trace_world_after:
  "trace (world_after t E w) = trace w @ small_trace (label t) (count t) (payload_at t E)
      (decoded_at t E) (warnings_at t E) (logs t E)"
  by (cases t) (simp_all add: world_after_def)

lemma ticks_world_after: "ticks (world_after t E w) = ticks w + 4"
  by (cases t) (simp_all add: world_after_def)

lemma map_filter_append: "List.map_filter f (xs @ ys) = List.map_filter f xs @ List.map_filter f ys"
  by (simp add: List.map_filter_def)

lemma map_filter_concat:
  "List.map_filter f (concat xss) = concat (map (List.map_filter f) xss)"
  by (induction xss) (simp_all add: map_filter_append List.map_filter_simps)

lemma map_filter_small_trace:
  "List.map_filter f (small_trace fmt n P V X L) =
     List.map_filter f [Now] @ List.map_filter f (map (\<lambda>i. Encode fmt i (P i)) [0..<n])
     @ List.map_filter f [Now, Now]
     @ concat (map (\<lambda>i. List.map_filter f (Decode fmt i (P i) (V i) # X i)) [0..<n])
     @ List.map_filter f L @ List.map_filter f [Now]"
  by (simp add: small_trace_def List.map_filter_def filter_concat map_concat comp_def
      del: List.map_filter_simps)

lemma new_events_world_after:
  "new_events w (world_after t E w) = small_trace (label t) (count t) (payload_at t E)
      (decoded_at t E) (warnings_at t E) (logs t E)"
  by (simp add: new_events_def trace_world_after)

lemma decoded_of_warnings [simp]: "List.map_filter decoded_of (warnings t i v) = []"
  by (cases "(t, i, v)" rule: warnings.cases)
     (auto split: option.splits)

lemma decoded_of_logs [simp]: "List.map_filter decoded_of (logs t E) = []"
  by (cases t) (simp_all add: sum_log_def)

lemma decoded_of_encodes [simp]:
  "List.map_filter decoded_of (map (\<lambda>i. Encode fmt i (P i)) xs) = []"
  by (induction xs) simp_all

lemma decoded_values_world_after:
  "List.map_filter decoded_of (new_events w (world_after t E w)) = map (decoded_at t E) [0..<count t]"
  by (simp add: new_events_world_after map_filter_small_trace warnings_at_def)

lemma fields_of_decoded_at:
  assumes "codecs_roundtrip E" and "t \<noteq> App_FlatBuffers_lowlevel"
  shows "fields_of (decoded_at t E i) = Some (Some (fixture_foo t i), int i)"
  using assms
  by (cases t) (simp_all add: codecs_roundtrip_def decoded_at_def fixture_def)

section \<open>The sample codecs\<close>

lemma takeWhile_replicate_sep:
  "y \<noteq> x \<Longrightarrow> takeWhile (\<lambda>c. c = x) (replicate n x @ y # ys) = replicate n x"
  by (induction n) auto

lemma dropWhile_replicate_sep:
  "y \<noteq> x \<Longrightarrow> dropWhile (\<lambda>c. c = x) (replicate n x @ y # ys) = y # ys"
  by (induction n) auto

lemma sample_parse_stringify: "sample_parse (sample_stringify (fixture s i)) = fixture s i"
  by (simp add: sample_parse_def sample_stringify_def fixture_def takeWhile_replicate_sep
      dropWhile_replicate_sep)

lemma char_of_byte_of_char [simp]: "char_of_byte (byte_of_char c) = c"
proof -
  have "unat (of_nat (of_char c :: nat) :: 8 word) = of_char c"
    by (simp add: unat_of_nat)
  then show ?thesis by (simp add: char_of_byte_def byte_of_char_def)
qed

lemma sample_decode_encode: "sample_decode (sample_encode (fixture s i)) = fixture s i"
  by (simp add: sample_decode_def sample_encode_def fixture_def takeWhile_replicate_sep
      dropWhile_replicate_sep comp_def)

lemma sample_decode_unary:
  "sample_decode (replicate n 1 @ 0 # bs) = \<lparr>foo = map char_of_byte bs, foo_number = int n\<rparr>"
  by (simp add: sample_decode_def takeWhile_replicate_sep dropWhile_replicate_sep)

lemma sample_roundtrip: "codecs_roundtrip sample_env"
  by (simp add: codecs_roundtrip_def sample_env_def sample_json_def sample_msgpack_def
      sample_avro_def sample_flatbuffers_def sample_parse_stringify sample_decode_encode
      window_bytes_def build_web_def built_app_def sample_decode_unary)

section \<open>The warnings\<close>


lemma sublist_mid: "sublist xs (ps @ xs @ ss)"
  by (rule sublist_appendI)

lemma string_mismatch_mentions:
  "sublist ''FlatBuffers'' (string_mismatch i got)"
  "sublist (''iteration '' @ string_of_nat i) (string_mismatch i got)"
  "sublist (''expected '' @ quote @ ''bar'' @ quote) (string_mismatch i got)"
  "sublist (''got '' @ quote @ string_of_nullable got @ quote) (string_mismatch i got)"
proof -
  show "sublist ''FlatBuffers'' (string_mismatch i got)"
    unfolding string_mismatch_def
    using sublist_mid[of "''FlatBuffers''" "[]"] by (simp del: sublist_code)
  show "sublist (''iteration '' @ string_of_nat i) (string_mismatch i got)"
    unfolding string_mismatch_def
    using sublist_mid[of "''iteration '' @ string_of_nat i" "''FlatBuffers string mismatch at ''"]
    by simp
  show "sublist (''expected '' @ quote @ ''bar'' @ quote) (string_mismatch i got)"
    unfolding string_mismatch_def
    using sublist_mid[of "''expected '' @ quote @ ''bar'' @ quote"
       "''FlatBuffers string mismatch at iteration '' @ string_of_nat i @ '': ''"]
    by simp
  show "sublist (''got '' @ quote @ string_of_nullable got @ quote) (string_mismatch i got)"
    unfolding string_mismatch_def
    using sublist_mid[of "''got '' @ quote @ string_of_nullable got @ quote"
       "''FlatBuffers string mismatch at iteration ''
       @ string_of_nat i @ '': expected '' @ quote @ ''bar'' @ quote @ '', ''" "[]"]
    by simp
qed

lemma number_mismatch_mentions:
  "sublist ''FlatBuffers'' (number_mismatch i v)"
  "sublist (''iteration '' @ string_of_nat i) (number_mismatch i v)"
  "sublist (''expected '' @ string_of_nat i) (number_mismatch i v)"
  "sublist (''got '' @ string_of_int v) (number_mismatch i v)"
proof -
  show "sublist ''FlatBuffers'' (number_mismatch i v)"
    unfolding number_mismatch_def
    using sublist_mid[of "''FlatBuffers''" "[]"] by (simp del: sublist_code)
  show "sublist (''expected '' @ string_of_nat i) (number_mismatch i v)"
    unfolding number_mismatch_def
    using sublist_mid[of "''expected '' @ string_of_nat i"
      "''FlatBuffers number mismatch at iteration '' @ string_of_nat i @ '': ''"]
    by simp
  show "sublist (''got '' @ string_of_int v) (number_mismatch i v)"
    unfolding number_mismatch_def
    using sublist_mid[of "''got '' @ string_of_int v"
      "''FlatBuffers number mismatch at iteration '' @ string_of_nat i
         @ '': expected '' @ string_of_nat i @ '', ''" "[]"]
    by simp
  show "sublist (''iteration '' @ string_of_nat i) (number_mismatch i v)"
    unfolding number_mismatch_def
    using sublist_mid[of "''iteration '' @ string_of_nat i" "''FlatBuffers number mismatch at ''"]
    by simp
qed

lemma string_length_mismatch_mentions:
  "sublist ''FlatBuffers'' (string_length_mismatch i)"
  "sublist (''iteration '' @ string_of_nat i) (string_length_mismatch i)"
proof -
  show "sublist ''FlatBuffers'' (string_length_mismatch i)"
    unfolding string_length_mismatch_def
    using sublist_mid[of "''FlatBuffers''" "[]"] by (simp del: sublist_code)
  show "sublist (''iteration '' @ string_of_nat i) (string_length_mismatch i)"
    unfolding string_length_mismatch_def
    using sublist_mid[of "''iteration '' @ string_of_nat i"
      "''FlatBuffers string length mismatch at ''" "[]"]
    by simp
qed


lemma warning_of_encodes [simp]:
  "List.map_filter warning_of (map (\<lambda>i. Encode fmt i (P i)) xs) = []"
  by (induction xs) simp_all

lemma warning_of_logs [simp]: "List.map_filter warning_of (logs t E) = []"
  by (cases t) (simp_all add: sum_log_def)

lemma warnings_world_after:
  "List.map_filter warning_of (new_events w (world_after t E w))
     = concat (map (\<lambda>i. List.map_filter warning_of (warnings t i (decoded_at t E i)))
         [0..<count t])"
  by (simp add: new_events_world_after map_filter_small_trace warnings_at_def)


section \<open>The runners\<close>

text \<open>What a test adds to the trace, read for the order of the run and for what is shown.\<close>

lemma trace_emit [simp]: "trace (emit e w) = trace w @ [e]"
  by (simp add: emit_def)

lemma ticks_emit [simp]: "ticks (emit e w) = ticks w"
  by (simp add: emit_def)

lemma trace_after_test: "trace (world_after t E w) = trace w @ test_events t E"
  by (simp add: trace_world_after test_events_def)

lemma mark_of_test_events:
  "List.map_filter mark_of (test_events t E)
     = replicate (count t) (Ran (label t)) @ replicate (count t) (Ran (label t))"
proof -
  have w: "List.map_filter mark_of (warnings t i v) = []" for i v
    by (cases "(t, i, v)" rule: warnings.cases) (auto split: option.splits)
  have l: "List.map_filter mark_of (logs t E) = []"
    by (cases t) (simp_all add: sum_log_def)
  have e: "List.map_filter mark_of (map (\<lambda>i. Encode f i (P i)) xs) = map (\<lambda>i. Ran f) xs"
    for f P and xs :: "nat list"
    by (induction xs) simp_all
  show ?thesis
    by (simp add: test_events_def map_filter_small_trace w l e warnings_at_def
        map_replicate_const)
qed

lemma content_of_test_events: "List.map_filter content_of (test_events t E) = []"
proof -
  have w: "List.map_filter content_of (warnings t i v) = []" for i v
    by (cases "(t, i, v)" rule: warnings.cases) (auto split: option.splits)
  have l: "List.map_filter content_of (logs t E) = []"
    by (cases t) (simp_all add: sum_log_def)
  have e: "List.map_filter content_of (map (\<lambda>i. Encode f i (P i)) xs) = []"
    for f P and xs :: "nat list"
    by (induction xs) simp_all
  show ?thesis
    by (simp add: test_events_def map_filter_small_trace w l e warnings_at_def)
qed

lemma results_of_test_events: "List.map_filter results_of (test_events t E) = []"
proof -
  have w: "List.map_filter results_of (warnings t i v) = []" for i v
    by (cases "(t, i, v)" rule: warnings.cases) (auto split: option.splits)
  have l: "List.map_filter results_of (logs t E) = []"
    by (cases t) (simp_all add: sum_log_def)
  have e: "List.map_filter results_of (map (\<lambda>i. Encode f i (P i)) xs) = []"
    for f P and xs :: "nat list"
    by (induction xs) simp_all
  show ?thesis
    by (simp add: test_events_def map_filter_small_trace w l e warnings_at_def)
qed

lemmas small_test_eqs = testJSON_web_eq testJSON_web2_eq testJSON_app_eq testMessagePack_web_eq
  testMessagePack_app_eq testAvro_web2_eq testFlatBuffers_web_eq testFlatBuffers_app_eq
  testFlatBuffers_app_lowlevel_eq

text \<open>
  A large-dataset test, when no element of the asset is \<open>null\<close>: it returns, after four
  clock reads and one encoder and one decoder call.
\<close>

lemma large_world_after:
  assumes "JNull \<notin> set (largeJsonData E)"
  shows "large_world l E w = Some (large_after l E w)"
  using large_world_total[of l E w] assms by (auto simp: large_after_def)

lemma ticks_large_after:
  assumes "JNull \<notin> set (largeJsonData E)"
  shows "ticks (large_after l E w) = ticks w + 4"
  using large_world_trace[OF large_world_after[OF assms]] by blast

lemma trace_large_after:
  assumes "JNull \<notin> set (largeJsonData E)"
  shows "trace (large_after l E w) = trace w @ large_events l E w"
  using large_world_trace[OF large_world_after[OF assms], of l w]
  by (auto simp: large_events_def new_events_def)

lemma mark_of_large_events:
  assumes "JNull \<notin> set (largeJsonData E)"
  shows "List.map_filter mark_of (large_events l E w) = [Ran (large_label l), Ran (large_label l)]"
  using large_world_trace[OF large_world_after[OF assms], of l w]
  by (auto simp: large_events_def new_events_def large_trace_def large_log_def
      List.map_filter_def)

lemma content_of_large_events:
  assumes "JNull \<notin> set (largeJsonData E)"
  shows "List.map_filter content_of (large_events l E w) = []"
  using large_world_trace[OF large_world_after[OF assms], of l w]
  by (auto simp: large_events_def new_events_def large_trace_def large_log_def
      List.map_filter_def)

lemmas large_test_eqs = testLargeJSON_eq testLargeMessagePack_eq testLargeFlatBuffers_eq

lemma card_format_card [simp]:
  "card_format (card_web tf r) = format r"
  "card_format (card_web2 tf r) = format r"
  "card_format (card_app tf r) = format r"
  by (simp_all add: card_web_def card_web2_def card_app_def)

lemma timed_fields [simp]:
  "format (timed clk t f n) = f"
  "iterations (timed clk t f n) = n"
  by (simp_all add: timed_def)

lemma growing7:
  "growing [a, b, c, d, e, f, g] =
     [[], [a], [a, b], [a, b, c], [a, b, c, d], [a, b, c, d, e], [a, b, c, d, e, f],
      [a, b, c, d, e, f, g]]"
  by (simp add: growing_def upt_rec numeral_eq_Suc)

lemma runAllTests_web2_run:
  assumes "JNull \<notin> set (largeJsonData E)"
  shows "\<exists>W X. runAllTests_web2 clk E w = Some W \<and> trace W = trace w @ X
     \<and> List.map_filter mark_of X =
         [Shown []] @ replicate ITERATIONS_web (Ran ''JSON'') @ replicate ITERATIONS_web (Ran ''JSON'')
         @ [Shown [''JSON'']]
         @ replicate ITERATIONS_web (Ran ''MessagePack'') @ replicate ITERATIONS_web (Ran ''MessagePack'')
         @ [Shown [''JSON'', ''MessagePack'']]
         @ replicate ITERATIONS_web (Ran ''FlatBuffers'') @ replicate ITERATIONS_web (Ran ''FlatBuffers'')
         @ [Shown [''JSON'', ''MessagePack'', ''FlatBuffers'']]
         @ replicate ITERATIONS_web (Ran ''Avro'') @ replicate ITERATIONS_web (Ran ''Avro'')
         @ [Shown [''JSON'', ''MessagePack'', ''FlatBuffers'', ''Avro''],
            Ran ''JSON (5MB)'', Ran ''JSON (5MB)'',
            Shown [''JSON'', ''MessagePack'', ''FlatBuffers'', ''Avro'', ''JSON (5MB)''],
            Ran ''MessagePack (5MB)'', Ran ''MessagePack (5MB)'',
            Shown [''JSON'', ''MessagePack'', ''FlatBuffers'', ''Avro'', ''JSON (5MB)'',
                   ''MessagePack (5MB)''],
            Ran ''FlatBuffers (5MB)'', Ran ''FlatBuffers (5MB)'',
            Shown [''JSON'', ''MessagePack'', ''FlatBuffers'', ''Avro'', ''JSON (5MB)'',
                   ''MessagePack (5MB)'', ''FlatBuffers (5MB)'']]
     \<and> List.map_filter content_of X
         = map (map (card_web2 (toFixed2 E))) (growing (web2_results clk (ticks w)))"
  unfolding runAllTests_web2_def
  by (simp add: small_test_eqs large_test_eqs large_world_after[OF assms]
      ticks_large_after[OF assms] trace_large_after[OF assms] mark_of_large_events[OF assms]
      content_of_large_events[OF assms]
      Let_def updateResults_web2_def trace_after_test ticks_world_after
      map_filter_append mark_of_test_events content_of_test_events growing7 web2_results_def
      add.assoc del: large_world.simps)

lemma growing3: "growing [a, b, c] = [[], [a], [a, b], [a, b, c]]"
  by (simp add: growing_def upt_rec numeral_eq_Suc)

lemma runAllTests_web_run:
  "\<exists>W X. runAllTests_web clk E w = Some W \<and> trace W = trace w @ X
     \<and> List.map_filter mark_of X =
         [Shown []] @ replicate ITERATIONS_web (Ran ''JSON'') @ replicate ITERATIONS_web (Ran ''JSON'')
         @ [Shown [''JSON'']]
         @ replicate ITERATIONS_web (Ran ''MessagePack'') @ replicate ITERATIONS_web (Ran ''MessagePack'')
         @ [Shown [''JSON'', ''MessagePack'']]
         @ replicate ITERATIONS_web (Ran ''FlatBuffers'') @ replicate ITERATIONS_web (Ran ''FlatBuffers'')
         @ [Shown [''JSON'', ''MessagePack'', ''FlatBuffers'']]
     \<and> List.map_filter content_of X
         = map (map (card_web (toFixed2 E))) (growing (web_results clk (ticks w)))"
  unfolding runAllTests_web_def
  by (simp add: small_test_eqs Let_def updateResults_web_def trace_after_test ticks_world_after
      map_filter_append mark_of_test_events content_of_test_events growing3 web_results_def
      add.assoc)

lemma runAllTests_app_run:
  "\<exists>W X. runAllTests_app clk E w = Some W \<and> trace W = trace w @ X
     \<and> List.map_filter mark_of X =
         [Shown []] @ replicate ITERATIONS_app (Ran ''JSON'') @ replicate ITERATIONS_app (Ran ''JSON'')
         @ [Shown [''JSON'']]
         @ replicate ITERATIONS_app (Ran ''MessagePack'') @ replicate ITERATIONS_app (Ran ''MessagePack'')
         @ [Shown [''JSON'', ''MessagePack'']]
         @ replicate ITERATIONS_app (Ran ''FlatBuffers'') @ replicate ITERATIONS_app (Ran ''FlatBuffers'')
         @ [Shown [''JSON'', ''MessagePack'', ''FlatBuffers'']]
     \<and> List.map_filter results_of X = growing (app_results clk (ticks w))"
  unfolding runAllTests_app_def
  by (simp add: small_test_eqs Let_def trace_after_test ticks_world_after
      map_filter_append mark_of_test_events results_of_test_events growing3 app_results_def
      add.assoc)

lemma runAllTests_app_lowlevel_run:
  "\<exists>W X. runAllTests_app_lowlevel clk E w = Some W \<and> trace W = trace w @ X
     \<and> List.map_filter mark_of X =
         [Shown []] @ replicate ITERATIONS_app (Ran ''JSON'') @ replicate ITERATIONS_app (Ran ''JSON'')
         @ [Shown [''JSON'']]
         @ replicate ITERATIONS_app (Ran ''MessagePack'') @ replicate ITERATIONS_app (Ran ''MessagePack'')
         @ [Shown [''JSON'', ''MessagePack'']]
         @ replicate ITERATIONS_app (Ran ''FlatBuffers'') @ replicate ITERATIONS_app (Ran ''FlatBuffers'')
         @ [Shown [''JSON'', ''MessagePack'', ''FlatBuffers'']]
     \<and> List.map_filter results_of X = growing (app_results clk (ticks w))"
  unfolding runAllTests_app_lowlevel_def
  by (simp add: small_test_eqs Let_def trace_after_test ticks_world_after
      map_filter_append mark_of_test_events results_of_test_events growing3 app_results_def
      add.assoc)

text \<open>Blocks of equal marks, and the events of a run as a suffix of its trace.\<close>

lemma remdups_adj_Cons_replicate:
  "remdups_adj (x # replicate k x @ ys) = remdups_adj (x # ys)"
  by (induction k) simp_all

lemma remdups_adj_block:
  assumes "0 < n" and "x \<noteq> y"
  shows "remdups_adj (y # replicate n x @ replicate n x @ ys) = y # remdups_adj (x # ys)"
proof -
  from assms(1) obtain m where n: "n = Suc m" by (cases n) auto
  have e: "replicate n x @ replicate n x @ ys = x # replicate (m + n) x @ ys"
    unfolding n by (simp add: replicate_add replicate_append_same)
  show ?thesis
    unfolding e using assms(2) by (simp add: remdups_adj_Cons_replicate del: replicate.simps)
qed

lemma new_events_append: "trace W = trace w @ X \<Longrightarrow> new_events w W = X"
  by (simp add: new_events_def)

lemma iterations_positive: "0 < ITERATIONS_web" "0 < ITERATIONS_app"
  by (simp_all add: ITERATIONS_web_def ITERATIONS_app_def)

text \<open>The average that each reporter shows.\<close>

lemma marker_not_a_time: "tf x @ '' ms'' \<noteq> ''N/A (single operation)''"
proof
  assume "tf x @ '' ms'' = ''N/A (single operation)''"
  then have "last (tf x @ '' ms'') = last ''N/A (single operation)''" by simp
  then show False by simp
qed

lemma card_web2_average:
  "avg_cell (card_web2 tf r)
     = Some (case spec_average r of Some q \<Rightarrow> tf (Finite q) @ '' ms''
             | None \<Rightarrow> ''N/A (single operation)'')"
  by (simp add: avg_cell_def card_web2_def spec_average_def js_div_def formatTime_def)

lemma card_web_average:
  "1 < iterations r \<Longrightarrow> avg_cell (card_web tf r)
     = Some (case spec_average r of Some q \<Rightarrow> tf (Finite q) @ '' ms''
             | None \<Rightarrow> ''N/A (single operation)'')"
  by (simp add: avg_cell_def card_web_def spec_average_def js_div_def formatTime_def)

lemma card_app_average:
  "1 < iterations r \<Longrightarrow> avg_cell (card_app tf r)
     = Some (case spec_average r of Some q \<Rightarrow> tf (Finite q) @ '' ms''
             | None \<Rightarrow> ''N/A (single operation)'')"
  by (simp add: avg_cell_def card_app_def spec_average_def js_div_def formatTime_def)

lemma SerializationTest_cards_eq: "SerializationTest_cards tf rs = map (card_app tf) rs"
  by (simp add: SerializationTest_cards_def)

section \<open>The FlatBuffers wire format\<close>

text \<open>What the builder holds after each call of an iteration, and the buffer it ends with.\<close>

lemma wire_window: "window_bytes wire_flatbuffers b = wb_bytes b"
  by (simp add: window_bytes_def wire_flatbuffers_def wb_offset_def)

lemmas wb_defs = wb_addInt8_def wb_addInt16_def wb_addInt32_def
  wb_addOffset_def wb_prep_def wb_write_def wb_offset_def wb_slot_def

lemma wire_createString_bar:
  "wb_createString (JStr ''bar'') (wb_new c) =
     (8, \<lparr>wb_capacity = c, wb_bytes = [3, 0, 0, 0, 98, 97, 114, 0], wb_minalign = 4,
          wb_vtable = [], wb_object_start = 0\<rparr>)"
  by (simp add: wb_createString_def wb_new_def wb_defs Let_def le32_def byte_of_char_def)

lemma wire_table_fields:
  "wb_addFieldInt32 1 (int i) 0 (wb_addFieldOffset 0 8 0 (wb_startObject 2
     \<lparr>wb_capacity = c, wb_bytes = [3, 0, 0, 0, 98, 97, 114, 0], wb_minalign = 4,
      wb_vtable = [], wb_object_start = 0\<rparr>)) =
   (if i = 0
    then \<lparr>wb_capacity = c, wb_bytes = [4, 0, 0, 0, 3, 0, 0, 0, 98, 97, 114, 0], wb_minalign = 4,
          wb_vtable = [12, 0], wb_object_start = 8\<rparr>
    else \<lparr>wb_capacity = c, wb_bytes = le32 (int i) @ [4, 0, 0, 0, 3, 0, 0, 0, 98, 97, 114, 0],
          wb_minalign = 4, wb_vtable = [12, 16], wb_object_start = 8\<rparr>)"
  by (simp add: wb_startObject_def wb_addFieldOffset_def wb_addFieldInt32_def wb_defs Let_def
      le32_def numeral_2_eq_2)

lemma wire_endObject_absent:
  "wb_endObject \<lparr>wb_capacity = c, wb_bytes = [4, 0, 0, 0, 3, 0, 0, 0, 98, 97, 114, 0],
          wb_minalign = 4, wb_vtable = [12, 0], wb_object_start = 8\<rparr> =
     (16, \<lparr>wb_capacity = c,
           wb_bytes = [6, 0, 8, 0, 4, 0, 6, 0, 0, 0, 4, 0, 0, 0, 3, 0, 0, 0, 98, 97, 114, 0],
           wb_minalign = 4, wb_vtable = [12, 0], wb_object_start = 8\<rparr>)"
  by (simp add: wb_endObject_def wb_defs Let_def le32_def le16_def)

lemma wire_endObject_present:
  "wb_endObject \<lparr>wb_capacity = c, wb_bytes = [n0, n1, n2, n3, 4, 0, 0, 0, 3, 0, 0, 0, 98, 97, 114, 0],
          wb_minalign = 4, wb_vtable = [12, 16], wb_object_start = 8\<rparr> =
     (20, \<lparr>wb_capacity = c,
           wb_bytes = [8, 0, 12, 0, 8, 0, 4, 0, 8, 0, 0, 0, n0, n1, n2, n3,
                       4, 0, 0, 0, 3, 0, 0, 0, 98, 97, 114, 0],
           wb_minalign = 4, wb_vtable = [12, 16], wb_object_start = 8\<rparr>)"
  by (simp add: wb_endObject_def wb_defs Let_def le32_def le16_def)

lemma wire_finish_absent:
  "wb_bytes (wb_finish 16 \<lparr>wb_capacity = c,
           wb_bytes = [6, 0, 8, 0, 4, 0, 6, 0, 0, 0, 4, 0, 0, 0, 3, 0, 0, 0, 98, 97, 114, 0],
           wb_minalign = 4, wb_vtable = [12, 0], wb_object_start = 8\<rparr>) =
     [12, 0, 0, 0, 0, 0, 6, 0, 8, 0, 4, 0, 6, 0, 0, 0, 4, 0, 0, 0, 3, 0, 0, 0, 98, 97, 114, 0]"
  by (simp add: wb_finish_def wb_defs Let_def le32_def numeral_2_eq_2)

lemma wire_finish_present:
  "wb_bytes (wb_finish 20 \<lparr>wb_capacity = c,
           wb_bytes = [8, 0, 12, 0, 8, 0, 4, 0, 8, 0, 0, 0, n0, n1, n2, n3,
                       4, 0, 0, 0, 3, 0, 0, 0, 98, 97, 114, 0],
           wb_minalign = 4, wb_vtable = [12, 16], wb_object_start = 8\<rparr>) =
     [12, 0, 0, 0, 8, 0, 12, 0, 8, 0, 4, 0, 8, 0, 0, 0, n0, n1, n2, n3,
      4, 0, 0, 0, 3, 0, 0, 0, 98, 97, 114, 0]"
  by (simp add: wb_finish_def wb_defs Let_def le32_def)

lemma wire_sel:
  "Builder_new wire_flatbuffers = wb_new"
  "Builder_createString wire_flatbuffers = wb_createString"
  "Builder_startObject wire_flatbuffers = wb_startObject"
  "Builder_addFieldOffset wire_flatbuffers = wb_addFieldOffset"
  "Builder_addFieldInt32 wire_flatbuffers = wb_addFieldInt32"
  "Builder_endObject wire_flatbuffers = wb_endObject"
  "Builder_finish wire_flatbuffers = wb_finish"
  "TestData_createTestData wire_flatbuffers = wb_createTestData"
  "TestData_foo wire_flatbuffers = wire_foo"
  "TestData_fooNumber wire_flatbuffers = wire_fooNumber"
  "ByteBuffer_readInt32 wire_flatbuffers = sample_readInt32"
  "ByteBuffer_readInt16 wire_flatbuffers = sample_readInt16"
  by (simp_all add: wire_flatbuffers_def)

lemma wire_table:
  "wb_bytes (wb_finish
      (fst (wb_endObject (wb_addFieldInt32 1 (int i) 0 (wb_addFieldOffset 0 8 0
        (wb_startObject 2 \<lparr>wb_capacity = c, wb_bytes = [3, 0, 0, 0, 98, 97, 114, 0],
           wb_minalign = 4, wb_vtable = [], wb_object_start = 0\<rparr>)))))
      (snd (wb_endObject (wb_addFieldInt32 1 (int i) 0 (wb_addFieldOffset 0 8 0
        (wb_startObject 2 \<lparr>wb_capacity = c, wb_bytes = [3, 0, 0, 0, 98, 97, 114, 0],
           wb_minalign = 4, wb_vtable = [], wb_object_start = 0\<rparr>)))))) = wire_payload i"
proof (cases "i = 0")
  case True
  show ?thesis
    by (simp only: wire_table_fields True refl if_True wire_endObject_absent fst_conv snd_conv
        wire_finish_absent wire_payload_def)
next
  case False
  have e: "le32 (int i) @ [4, 0, 0, 0, 3, 0, 0, 0, 98, 97, 114, 0] =
      [word_of_int (int i), word_of_int (int i div 256), word_of_int (int i div 65536),
       word_of_int (int i div 16777216), 4, 0, 0, 0, 3, 0, 0, 0, 98, 97, 114, 0]"
    by (simp add: le32_def)
  show ?thesis
    by (simp only: wire_table_fields False if_False e wire_endObject_present fst_conv snd_conv
        wire_finish_present wire_payload_def append.simps)
qed

lemma wire_built_lowlevel: "wb_bytes (built_lowlevel wire_flatbuffers i) = wire_payload i"
  unfolding built_lowlevel_def wire_sel wire_createString_bar Let_def prod.case split_beta
    fst_conv snd_conv
  by (rule wire_table)

lemma wire_built_app: "wb_bytes (built_app wire_flatbuffers i) = wire_payload i"
  unfolding built_app_def wire_sel wire_createString_bar Let_def prod.case split_beta
    wb_createTestData_def fst_conv snd_conv
  by (rule wire_table)

text \<open>
  The hand-written decoder on a buffer whose last four bytes are the string \<open>bar\<close> and its
  terminator: the offset it reads there is 7496034, beyond the buffer, where every read
  gives 0, so that it finds no field.
\<close>

lemma wire_payload_at:
  "payload_at App_FlatBuffers_lowlevel wire_env i = Binary (wire_payload i)"
  "payload_at App_FlatBuffers wire_env i = Binary (wire_payload i)"
  by (simp_all add: wire_env_def wire_window wire_built_lowlevel wire_built_app)

lemma wire_payload_tail:
  "\<exists>pre. wire_payload i = pre @ [98, 97, 114, 0] \<and> length pre < 100"
  by (simp add: wire_payload_def le32_def)

lemma byte_at_append_right:
  "0 \<le> k \<Longrightarrow> byte_at (pre @ xs) (int (length pre) + k) = byte_at xs k"
  by (auto simp: byte_at_def nth_append nat_add_distrib)

lemma byte_at_beyond: "int (length buf) \<le> k \<Longrightarrow> byte_at buf k = 0"
  by (auto simp: byte_at_def)

lemma readInt32_last_four:
  "sample_readInt32 (pre @ [98, 97, 114, 0]) (int (length (pre @ [98, 97, 114, 0])) - 4) = 7496034"
proof -
  have "byte_at (pre @ [98, 97, 114, 0]) (int (length pre) + k) = byte_at [98, 97, 114, 0] k"
    if "0 \<le> k" for k using that by (rule byte_at_append_right)
  from this[of 0] this[of 1] this[of 2] this[of 3]
  show ?thesis
    by (simp add: sample_readInt32_def Let_def add.assoc) (simp add: byte_at_def)
qed

lemma readInt32_beyond: "int (length buf) \<le> k \<Longrightarrow> sample_readInt32 buf k = 0"
  by (simp add: sample_readInt32_def byte_at_beyond)

lemma readInt16_beyond: "int (length buf) \<le> k \<Longrightarrow> sample_readInt16 buf k = 0"
  by (simp add: sample_readInt16_def byte_at_beyond)

lemma lowlevel_read_string_last:
  assumes "length pre < 7496000"
  shows "lowlevel_read wire_flatbuffers (pre @ [98, 97, 114, 0]) = (None, None)"
proof -
  let ?buf = "pre @ [98, 97, 114, 0]"
  have root: "sample_readInt32 ?buf (int (length ?buf) - 4) = 7496034"
    by (rule readInt32_last_four)
  have far: "int (length ?buf) \<le> 7496034" using assms by simp
  have r: "sample_readInt32 ?buf 7496034 = 0" using far by (rule readInt32_beyond)
  have f0: "sample_readInt16 ?buf (7496034 + 4) = 0" using far by (intro readInt16_beyond) simp
  have f1: "sample_readInt16 ?buf (7496034 + 6) = 0" using far by (intro readInt16_beyond) simp
  show ?thesis
    unfolding lowlevel_read_def wire_sel Let_def root r diff_0_right f0 f1 by simp
qed

lemma wire_lowlevel_read: "lowlevel_read wire_flatbuffers (wire_payload i) = (None, None)"
proof -
  from wire_payload_tail[of i] obtain pre where
    "wire_payload i = pre @ [98, 97, 114, 0]" "length pre < 100" by blast
  then show ?thesis using lowlevel_read_string_last[of pre] by simp
qed

lemma wire_decoded_lowlevel:
  "decoded_at App_FlatBuffers_lowlevel wire_env i = LowLevel None None"
  by (simp add: decoded_at_def wire_env_def wire_window wire_built_lowlevel wire_lowlevel_read)

text \<open>The getters of the generated class on the same buffers.\<close>

lemma le32_value:
  assumes "0 \<le> v" and "v < 2147483648"
  shows "v mod 256 + 256 * (v div 256 mod 256) + 65536 * (v div 65536 mod 256)
           + 16777216 * (v div 16777216 mod 256) = (v::int)"
proof -
  have a: "v = 256 * (v div 256) + v mod 256" by simp
  have "v div 65536 = v div 256 div 256" by (simp add: div_mult2_eq[symmetric])
  then have b: "v div 256 = 256 * (v div 65536) + v div 256 mod 256" by simp
  have "v div 16777216 = v div 65536 div 256" by (simp add: div_mult2_eq[symmetric])
  then have c: "v div 65536 = 256 * (v div 16777216) + v div 65536 mod 256" by simp
  have "0 \<le> v div 16777216" "v div 16777216 < 256" using assms by simp_all
  then have d: "v div 16777216 mod 256 = v div 16777216" by simp
  from a b c d show ?thesis by linarith
qed

lemma byte_at_Nil: "byte_at [] k = 0"
  by (simp add: byte_at_def)

lemma byte_at_Cons: "byte_at (x # xs) k = (if k = 0 then uint x else byte_at xs (k - 1))"
  by (auto simp: byte_at_def nat_diff_distrib nth_Cons split: nat.splits)

lemma char_of_byte_bar:
  "char_of_byte 98 = CHR ''b''" "char_of_byte 97 = CHR ''a''" "char_of_byte 114 = CHR ''r''"
proof -
  have "(98 :: 8 word) = byte_of_char CHR ''b''" "(97 :: 8 word) = byte_of_char CHR ''a''"
    "(114 :: 8 word) = byte_of_char CHR ''r''"
    by (simp_all add: byte_of_char_def)
  then show "char_of_byte 98 = CHR ''b''" "char_of_byte 97 = CHR ''a''"
    "char_of_byte 114 = CHR ''r''"
    by (simp_all only: char_of_byte_of_char)
qed

lemmas read_simps = sample_readInt32_def sample_readInt16_def byte_at_Cons byte_at_Nil Let_def

lemma wire_accessors_absent:
  "wire_foo (wire_payload 0) = Some ''bar''" "wire_fooNumber (wire_payload 0) = 0"
proof -
  let ?buf = "[12, 0, 0, 0, 0, 0, 6, 0, 8, 0, 4, 0, 6, 0, 0, 0, 4, 0, 0, 0, 3, 0, 0, 0,
               98, 97, 114, 0] :: bytes"
  have p: "wire_payload 0 = ?buf" by (simp add: wire_payload_def)
  have r0: "sample_readInt32 ?buf 0 = 12" by (simp add: read_simps)
  have r12: "sample_readInt32 ?buf 12 = 6" by (simp add: read_simps)
  have h6: "sample_readInt16 ?buf 6 = 6" by (simp add: read_simps)
  have h10: "sample_readInt16 ?buf 10 = 4" by (simp add: read_simps)
  have r16: "sample_readInt32 ?buf 16 = 4" by (simp add: read_simps)
  have r20: "sample_readInt32 ?buf 20 = 3" by (simp add: read_simps)
  have o4: "wire_offset ?buf 12 4 = 4" unfolding wire_offset_def Let_def r12 by (simp add: h6 h10)
  have o6: "wire_offset ?buf 12 6 = 0" unfolding wire_offset_def Let_def r12 by (simp add: h6)
  have s: "wire_string ?buf 16 = ''bar''"
    unfolding wire_string_def Let_def r16 by (simp add: r20 char_of_byte_bar)
  show "wire_foo (wire_payload 0) = Some ''bar''"
    unfolding p wire_foo_def Let_def r0 by (simp add: o4 s)
  show "wire_fooNumber (wire_payload 0) = 0"
    unfolding p wire_fooNumber_def Let_def r0 by (simp add: o6)
qed

lemma wire_accessors_present:
  assumes "0 < i" and "i < 2147483648"
  shows "wire_foo (wire_payload i) = Some ''bar''" "wire_fooNumber (wire_payload i) = int i"
proof -
  let ?buf = "[12, 0, 0, 0, 8, 0, 12, 0, 8, 0, 4, 0, 8, 0, 0, 0,
               word_of_nat i, word_of_int (int i div 256), word_of_int (int i div 65536),
               word_of_int (int i div 16777216),
               4, 0, 0, 0, 3, 0, 0, 0, 98, 97, 114, 0] :: bytes"
  have p: "wire_payload i = ?buf" using assms by (simp add: wire_payload_def le32_def)
  have r0: "sample_readInt32 ?buf 0 = 12" by (simp add: read_simps)
  have r12: "sample_readInt32 ?buf 12 = 8" by (simp add: read_simps)
  have h4: "sample_readInt16 ?buf 4 = 8" by (simp add: read_simps)
  have h8: "sample_readInt16 ?buf 8 = 8" by (simp add: read_simps)
  have h10: "sample_readInt16 ?buf 10 = 4" by (simp add: read_simps)
  have r20: "sample_readInt32 ?buf 20 = 4" by (simp add: read_simps)
  have r24: "sample_readInt32 ?buf 24 = 3" by (simp add: read_simps)
  have v: "int i mod 256 + 256 * (int i div 256 mod 256) + 65536 * (int i div 65536 mod 256)
           + 16777216 * (int i div 16777216 mod 256) = int i"
  proof (rule le32_value)
    show "0 \<le> int i" by simp
    from assms(2) show "int i < 2147483648" by linarith
  qed
  have lt: "int i < 2147483648" using assms(2) by linarith
  have u0: "uint (word_of_nat i :: 8 word) = int i mod 256"
    by (simp add: uint_nat unat_of_nat zmod_int)
  have b16: "byte_at ?buf 16 = int i mod 256" "byte_at ?buf (16 + 1) = int i div 256 mod 256"
    "byte_at ?buf (16 + 2) = int i div 65536 mod 256"
    "byte_at ?buf (16 + 3) = int i div 16777216 mod 256"
    by (simp_all add: byte_at_Cons byte_at_Nil uint_word_of_int take_bit_eq_mod u0)
  have r16: "sample_readInt32 ?buf 16 = int i"
    unfolding sample_readInt32_def Let_def b16 v using lt by (simp only: if_True)
  have o4: "wire_offset ?buf 12 4 = 8" unfolding wire_offset_def Let_def r12 by (simp add: h4 h8)
  have o6: "wire_offset ?buf 12 6 = 4" unfolding wire_offset_def Let_def r12 by (simp add: h4 h10)
  have s: "wire_string ?buf 20 = ''bar''"
    unfolding wire_string_def Let_def r20 by (simp add: r24 char_of_byte_bar)
  show "wire_foo (wire_payload i) = Some ''bar''"
    unfolding p wire_foo_def Let_def r0 by (simp add: o4 s)
  show "wire_fooNumber (wire_payload i) = int i"
    unfolding p wire_fooNumber_def Let_def r0 by (simp add: o6 r16)
qed

lemma wire_decoded_app:
  assumes "i < ITERATIONS_app"
  shows "decoded_at App_FlatBuffers wire_env i = Accessors (Some ''bar'') (int i)"
proof -
  from assms have "i < 2147483648" by (simp add: ITERATIONS_app_def)
  with wire_accessors_absent wire_accessors_present[of i]
  have "wire_foo (wire_payload i) = Some ''bar''" "wire_fooNumber (wire_payload i) = int i"
    by (cases "i = 0"; simp)+
  then show ?thesis
    by (simp add: decoded_at_def wire_env_def wire_window wire_built_app wire_sel)
qed



section \<open>Every test function\<close>

text \<open>
  A small-fixture test always returns; a large-dataset test returns unless
  \<open>testLargeFlatBuffers\<close> reads a property of a \<open>null\<close> element of the asset.
\<close>

lemma run_test_returns:
  assumes "t = Large Large_FlatBuffers \<longrightarrow> JNull \<notin> set (largeJsonData E)"
  shows "\<exists>r w'. run_test t clk E w = Some (r, w')"
proof (cases t)
  case (Small s)
  then show ?thesis by (simp add: small_test_run)
next
  case (Large l)
  with assms have "l \<noteq> Large_FlatBuffers \<or> JNull \<notin> set (largeJsonData E)" by auto
  from large_world_total[OF this] obtain W where "large_world l E w = Some W" by blast
  then show ?thesis unfolding Large by (simp add: large_test_run)
qed

text \<open>
  The result of every test is \<open>timed\<close>: its times are differences of the four clock
  readings of the test, and the world it leaves behind does not depend on the clock.
\<close>

lemma run_test_timed:
  "\<exists>fmt n Wopt. \<forall>clk. run_test t clk E w = map_option (Pair (timed clk (ticks w) fmt n)) Wopt"
proof (cases t)
  case (Small s)
  have "\<forall>clk. run_test t clk E w
      = map_option (Pair (timed clk (ticks w) (label s) (count s))) (Some (world_after s E w))"
    unfolding Small by (simp add: small_test_run)
  then show ?thesis by blast
next
  case (Large l)
  have "\<forall>clk. run_test t clk E w
      = map_option (Pair (timed clk (ticks w) (large_label l) 1)) (large_world l E w)"
    unfolding Large by (simp add: large_test_run)
  then show ?thesis by blast
qed

text \<open>
  C1. For every test function, small or large, of every file: the \<open>totalTime\<close> of the
  result it returns is the sum of the result's \<open>serializeTime\<close> and \<open>deserializeTime\<close>.
\<close>

theorem total_time_is_sum:
  assumes "run_test t clk E w = Some (r, w')"
  shows "totalTime r = serializeTime r + deserializeTime r"
proof -
  from run_test_timed[of t E w] obtain fmt n Wopt
    where "run_test t clk E w = map_option (Pair (timed clk (ticks w) fmt n)) Wopt" by blast
  with assms have "r = timed clk (ticks w) fmt n" by auto
  then show ?thesis by (simp add: timed_def)
qed

theorem total_time_is_sum_witness:
  "run_test (Small Web_JSON) sample_clock sample_env world0
     = Some (timed sample_clock 0 ''JSON'' ITERATIONS_web, world_after Web_JSON sample_env world0)
   \<and> totalTime (timed sample_clock 0 ''JSON'' ITERATIONS_web)
     = serializeTime (timed sample_clock 0 ''JSON'' ITERATIONS_web)
       + deserializeTime (timed sample_clock 0 ''JSON'' ITERATIONS_web)"
proof -
  have run: "run_test (Small Web_JSON) sample_clock sample_env world0
     = Some (timed sample_clock 0 ''JSON'' ITERATIONS_web, world_after Web_JSON sample_env world0)"
    by (simp add: small_test_run world0_def)
  from total_time_is_sum[OF run] run show ?thesis by simp
qed

text \<open>
  C9. For every test function: when the clock never goes back, the \<open>serializeTime\<close> and
  the \<open>deserializeTime\<close> of the result are not negative; each is a clock reading minus
  the reading before it.
\<close>

theorem times_not_negative:
  assumes "\<And>i j. i \<le> j \<Longrightarrow> clk i \<le> clk j"
    and "run_test t clk E w = Some (r, w')"
  shows "serializeTime r = clk (ticks w + 1) - clk (ticks w)
       \<and> deserializeTime r = clk (ticks w + 3) - clk (ticks w + 2)
       \<and> 0 \<le> serializeTime r \<and> 0 \<le> deserializeTime r"
proof -
  from run_test_timed[of t E w] obtain fmt n Wopt
    where "run_test t clk E w = map_option (Pair (timed clk (ticks w) fmt n)) Wopt" by blast
  with assms(2) have r: "r = timed clk (ticks w) fmt n" by auto
  have "clk (ticks w) \<le> clk (ticks w + 1)" "clk (ticks w + 2) \<le> clk (ticks w + 3)"
    by (rule assms(1), simp)+
  then show ?thesis unfolding r by (simp add: timed_def)
qed

theorem times_not_negative_witness:
  "run_test (Small App_FlatBuffers) sample_clock sample_env world0
     = Some (timed sample_clock 0 ''FlatBuffers'' ITERATIONS_app,
             world_after App_FlatBuffers sample_env world0)
   \<and> serializeTime (timed sample_clock 0 ''FlatBuffers'' ITERATIONS_app) = 1
   \<and> deserializeTime (timed sample_clock 0 ''FlatBuffers'' ITERATIONS_app) = 1
   \<and> 0 \<le> serializeTime (timed sample_clock 0 ''FlatBuffers'' ITERATIONS_app)
   \<and> 0 \<le> deserializeTime (timed sample_clock 0 ''FlatBuffers'' ITERATIONS_app)"
proof -
  have mono: "\<And>i j. i \<le> j \<Longrightarrow> sample_clock i \<le> sample_clock j"
    by (simp add: sample_clock_def)
  have run: "run_test (Small App_FlatBuffers) sample_clock sample_env world0
     = Some (timed sample_clock 0 ''FlatBuffers'' ITERATIONS_app,
             world_after App_FlatBuffers sample_env world0)"
    by (simp add: small_test_run world0_def)
  from times_not_negative[OF mono run] run show ?thesis
    by (simp add: world0_def sample_clock_def)
qed

text \<open>
  C10. Two runs of a test function that differ only in what the clock returns: when one
  returns, so does the other, with the same format and the same number of iterations,
  and both leave the same world behind, that is the same payloads encoded and values
  decoded, in the same order, the same console output and the same heap. Only the
  three times may differ.
\<close>

theorem clock_only_changes_times:
  assumes "run_test t clk1 E w = Some (r1, w1)"
  shows "\<exists>r2 w2. run_test t clk2 E w = Some (r2, w2)
           \<and> format r2 = format r1 \<and> iterations r2 = iterations r1
           \<and> trace w2 = trace w1 \<and> w2 = w1"
proof -
  from run_test_timed[of t E w] obtain fmt n Wopt
    where eq: "\<And>clk. run_test t clk E w = map_option (Pair (timed clk (ticks w) fmt n)) Wopt"
    by blast
  from assms eq[of clk1] have "r1 = timed clk1 (ticks w) fmt n" "Wopt = Some w1" by auto
  with eq[of clk2] show ?thesis by (simp add: timed_def)
qed

theorem clock_only_changes_times_witness:
  "run_test (Small Web_FlatBuffers) sample_clock sample_env world0
     = Some (timed sample_clock 0 ''FlatBuffers'' ITERATIONS_web,
             world_after Web_FlatBuffers sample_env world0)
   \<and> (\<exists>r2 w2. run_test (Small Web_FlatBuffers) (\<lambda>k. 2 * real k + 5) sample_env world0
                  = Some (r2, w2)
           \<and> format r2 = ''FlatBuffers'' \<and> iterations r2 = ITERATIONS_web
           \<and> trace w2 = trace (world_after Web_FlatBuffers sample_env world0)
           \<and> w2 = world_after Web_FlatBuffers sample_env world0)"
proof -
  have run: "run_test (Small Web_FlatBuffers) sample_clock sample_env world0
     = Some (timed sample_clock 0 ''FlatBuffers'' ITERATIONS_web,
             world_after Web_FlatBuffers sample_env world0)"
    by (simp add: small_test_run world0_def)
  from clock_only_changes_times[OF run, of "\<lambda>k. 2 * real k + 5"] run show ?thesis
    by (simp add: timed_def)
qed

section \<open>The two loops of a small-fixture test\<close>

text \<open>
  C5. A small-fixture test with \<open>N\<close> iterations (1000 in the app, 10000 on the web)
  makes its \<open>N\<close> encoder calls, in the order of the iterations, between its first and
  its second clock read, and all its decoder calls after the third: the serialize loop
  is over before the deserialize loop starts. The payload that the decoder call of
  iteration \<open>i\<close> is given is the payload that the encoder call of iteration \<open>i\<close>
  produced, so all \<open>N\<close> payloads are retained, in order, when deserialization begins.
\<close>

theorem serialize_loop_ends_before_deserialize_loop:
  "\<exists>r w'. run_test (Small t) clk E w = Some (r, w')
     \<and> iterations r = count t \<and> (count t = 1000 \<or> count t = 10000)
     \<and> trace w' = trace w @ [Now]
         @ map (\<lambda>i. Encode (format r) i (payload_at t E i)) [0..<iterations r]
         @ [Now, Now]
         @ concat (map (\<lambda>i. Decode (format r) i (payload_at t E i) (decoded_at t E i)
                              # warnings_at t E i) [0..<iterations r])
         @ logs t E @ [Now]
     \<and> length (map (\<lambda>i. Encode (format r) i (payload_at t E i)) [0..<iterations r]) = count t
     \<and> filter is_codec (concat (map (warnings_at t E) [0..<iterations r]) @ logs t E) = []"
proof -
  have "filter is_codec (concat (map (warnings_at t E) [0..<count t])) = []"
    by (simp add: filter_concat warnings_at_def comp_def)
  moreover have "count t = 1000 \<or> count t = 10000"
    by (cases t) (simp_all add: ITERATIONS_web_def ITERATIONS_app_def)
  ultimately show ?thesis
    by (simp add: small_test_run trace_world_after small_trace_def timed_def)
qed

theorem serialize_loop_ends_before_deserialize_loop_witness:
  "\<exists>r w'. run_test (Small App_JSON) sample_clock sample_env world0 = Some (r, w')
     \<and> iterations r = 1000
     \<and> trace w' = [Now]
         @ map (\<lambda>i. Encode ''JSON'' i (payload_at App_JSON sample_env i)) [0..<1000]
         @ [Now, Now]
         @ concat (map (\<lambda>i. Decode ''JSON'' i (payload_at App_JSON sample_env i)
                                 (decoded_at App_JSON sample_env i)
                              # warnings_at App_JSON sample_env i) [0..<1000])
         @ logs App_JSON sample_env @ [Now]"
proof -
  from serialize_loop_ends_before_deserialize_loop[of App_JSON sample_clock sample_env world0]
  obtain r w' where run: "run_test (Small App_JSON) sample_clock sample_env world0 = Some (r, w')"
    and n: "iterations r = count App_JSON"
    and tr: "trace w' = trace world0 @ [Now]
         @ map (\<lambda>i. Encode (format r) i (payload_at App_JSON sample_env i)) [0..<iterations r]
         @ [Now, Now]
         @ concat (map (\<lambda>i. Decode (format r) i (payload_at App_JSON sample_env i)
                                 (decoded_at App_JSON sample_env i)
                              # warnings_at App_JSON sample_env i) [0..<iterations r])
         @ logs App_JSON sample_env @ [Now]"
    by blast
  from run have "format r = ''JSON''" by (auto simp add: small_test_run timed_def)
  with run n tr show ?thesis by (simp add: ITERATIONS_app_def world0_def)
qed

section \<open>The large-dataset tests\<close>

text \<open>
  C7. A large-dataset test makes one encoder call and one decoder call, whatever
  \<open>ITERATIONS\<close> is, which it never reads, and returns a result whose \<open>iterations\<close> is 1.
  (\<open>testLargeFlatBuffers\<close> throws when an element of the asset is \<open>null\<close>; the asset is an
  array of objects.)
\<close>

theorem large_test_runs_once:
  assumes "l = Large_FlatBuffers \<longrightarrow> JNull \<notin> set (largeJsonData E)"
  shows "\<exists>r w' p v L. run_test (Large l) clk E w = Some (r, w')
     \<and> iterations r = 1
     \<and> trace w' = trace w @ [Now, Encode (format r) 0 p, Now, Now, Decode (format r) 0 p v]
                     @ L @ [Now]
     \<and> filter is_codec L = []"
proof -
  from assms have "l \<noteq> Large_FlatBuffers \<or> JNull \<notin> set (largeJsonData E)" by auto
  from large_world_total[OF this] obtain W where W: "large_world l E w = Some W" by blast
  from large_world_trace[OF W] obtain p v lbl s where
    tr: "trace W = trace w @ large_trace (large_label l) p v (large_log lbl s)" by blast
  have "run_test (Large l) clk E w = Some (timed clk (ticks w) (large_label l) 1, W)"
    by (simp add: large_test_run W)
  moreover have "iterations (timed clk (ticks w) (large_label l) 1) = 1"
    "format (timed clk (ticks w) (large_label l) 1) = large_label l"
    by (simp_all add: timed_def)
  moreover have "filter is_codec (large_log lbl s) = []" by simp
  ultimately show ?thesis using tr unfolding large_trace_def by (metis append_Cons append_Nil)
qed

theorem large_test_runs_once_witness:
  "JNull \<notin> set (largeJsonData sample_env)
   \<and> (\<exists>r w' p v L. run_test (Large Large_FlatBuffers) sample_clock sample_env world0 = Some (r, w')
     \<and> iterations r = 1
     \<and> trace w' = trace world0 @ [Now, Encode (format r) 0 p, Now, Now, Decode (format r) 0 p v]
                     @ L @ [Now]
     \<and> filter is_codec L = [])"
proof -
  have h: "JNull \<notin> set (largeJsonData sample_env)"
    by (simp add: sample_env_def)
  then have "Large_FlatBuffers = Large_FlatBuffers \<longrightarrow> JNull \<notin> set (largeJsonData sample_env)"
    by simp
  from large_test_runs_once[OF this] h show ?thesis by blast
qed

section \<open>What the decoder calls return\<close>

text \<open>
  The test functions that decode through a library decoder: the decoder call of
  iteration \<open>i\<close> is given the payload that serializing the fixture of iteration \<open>i\<close>
  produced, so that a library whose decoder inverts its encoder on the fixtures gives
  back the string and the number of the fixture.
\<close>

lemma library_decoders_are_given_their_payload:
  assumes "codecs_roundtrip E" and "t \<noteq> App_FlatBuffers_lowlevel"
  shows "\<exists>r w'. run_test (Small t) clk E w = Some (r, w')
     \<and> List.map_filter decoded_of (new_events w w')
         = map (\<lambda>i. decode_with t E (payload_at t E i)) [0..<iterations r]
     \<and> map fields_of (List.map_filter decoded_of (new_events w w'))
         = map (\<lambda>i. Some (Some (fixture_foo t i), int i)) [0..<iterations r]"
  by (simp add: small_test_run decoded_values_world_after
      fields_of_decoded_at[OF assms, unfolded decoded_at_def]
      comp_def timed_def decoded_at_def)

lemma library_decoders_on_the_sample_codecs:
  "codecs_roundtrip sample_env
   \<and> (\<exists>r w'. run_test (Small Web2_JSON) sample_clock sample_env world0 = Some (r, w')
     \<and> iterations r = ITERATIONS_web
     \<and> map fields_of (List.map_filter decoded_of (new_events world0 w'))
         = map (\<lambda>i. Some (Some (''bar'' @ string_of_nat i), int i)) [0..<ITERATIONS_web])"
proof -
  have ne: "Web2_JSON \<noteq> App_FlatBuffers_lowlevel" by simp
  from library_decoders_are_given_their_payload[OF sample_roundtrip ne, of sample_clock world0]
  obtain r w' where run: "run_test (Small Web2_JSON) sample_clock sample_env world0 = Some (r, w')"
    and f: "map fields_of (List.map_filter decoded_of (new_events world0 w'))
         = map (\<lambda>i. Some (Some (fixture_foo Web2_JSON i), int i)) [0..<iterations r]"
    by blast
  from run have "iterations r = ITERATIONS_web" by (auto simp: small_test_run timed_def)
  with run f sample_roundtrip show ?thesis by auto
qed

text \<open>
  C3 asks that decoding the payload of iteration \<open>i\<close> gives back the string and the number
  of the fixture, for every format. The \<open>testFlatBuffers\<close> of the app that decodes by hand
  does not: on the buffers that the FlatBuffers builder writes, here for the 1000
  iterations of a run, it reads neither the string nor the number, and so it never
  warns. The buffer of iteration 1 is 32 bytes and ends with the string, which was
  written first; the decoder takes these last four bytes for the offset of the table.
  The getters of the generated class, which the other \<open>testFlatBuffers\<close> of the app
  calls, read \<open>bar\<close> and \<open>i\<close> from the same buffers.
\<close>

theorem hand_decoder_reads_no_field:
  "payload_at App_FlatBuffers_lowlevel wire_env 1
     = Binary [12, 0, 0, 0, 8, 0, 12, 0, 8, 0, 4, 0, 8, 0, 0, 0, 1, 0, 0, 0, 4, 0, 0, 0,
               3, 0, 0, 0, 98, 97, 114, 0]
   \<and> sample_readInt32 (wire_payload 1) (int (length (wire_payload 1)) - 4) = 7496034
   \<and> lowlevel_read wire_flatbuffers (wire_payload 1) = (None, None)
   \<and> (\<exists>w'. run_test (Small App_FlatBuffers_lowlevel) sample_clock wire_env wire_world0
               = Some (timed sample_clock 0 ''FlatBuffers'' ITERATIONS_app, w')
          \<and> List.map_filter decoded_of (new_events wire_world0 w')
               = replicate ITERATIONS_app (LowLevel None None)
          \<and> List.map_filter warning_of (new_events wire_world0 w') = [])
   \<and> (\<exists>w'. run_test (Small App_FlatBuffers) sample_clock wire_env wire_world0
               = Some (timed sample_clock 0 ''FlatBuffers'' ITERATIONS_app, w')
          \<and> List.map_filter decoded_of (new_events wire_world0 w')
               = map (\<lambda>i. Accessors (Some ''bar'') (int i)) [0..<ITERATIONS_app]
          \<and> List.map_filter warning_of (new_events wire_world0 w') = [])"
proof -
  have p: "payload_at App_FlatBuffers_lowlevel wire_env 1
     = Binary [12, 0, 0, 0, 8, 0, 12, 0, 8, 0, 4, 0, 8, 0, 0, 0, 1, 0, 0, 0, 4, 0, 0, 0,
               3, 0, 0, 0, 98, 97, 114, 0]"
    unfolding wire_payload_at by (simp add: wire_payload_def le32_def)
  from wire_payload_tail[of 1] obtain pre where
    "wire_payload 1 = pre @ [98, 97, 114, 0]" by blast
  then have r: "sample_readInt32 (wire_payload 1) (int (length (wire_payload 1)) - 4) = 7496034"
    using readInt32_last_four[of pre] by simp
  have t: "ticks wire_world0 = 0" by (simp add: wire_world0_def)
  have run1: "run_test (Small App_FlatBuffers_lowlevel) sample_clock wire_env wire_world0
      = Some (timed sample_clock 0 ''FlatBuffers'' ITERATIONS_app,
              world_after App_FlatBuffers_lowlevel wire_env wire_world0)"
    by (simp add: small_test_run t)
  have dec1: "List.map_filter decoded_of
        (new_events wire_world0 (world_after App_FlatBuffers_lowlevel wire_env wire_world0))
      = replicate ITERATIONS_app (LowLevel None None)"
    unfolding decoded_values_world_after
    by (simp add: wire_decoded_lowlevel map_replicate_const cong: map_cong)
  have warn1: "List.map_filter warning_of
        (new_events wire_world0 (world_after App_FlatBuffers_lowlevel wire_env wire_world0)) = []"
    unfolding warnings_world_after by (simp add: wire_decoded_lowlevel cong: map_cong)
  have run2: "run_test (Small App_FlatBuffers) sample_clock wire_env wire_world0
      = Some (timed sample_clock 0 ''FlatBuffers'' ITERATIONS_app,
              world_after App_FlatBuffers wire_env wire_world0)"
    by (simp add: small_test_run t)
  have dec2: "List.map_filter decoded_of
        (new_events wire_world0 (world_after App_FlatBuffers wire_env wire_world0))
      = map (\<lambda>i. Accessors (Some ''bar'') (int i)) [0..<ITERATIONS_app]"
    unfolding decoded_values_world_after by (simp add: wire_decoded_app cong: map_cong)
  have warn2: "List.map_filter warning_of
        (new_events wire_world0 (world_after App_FlatBuffers wire_env wire_world0)) = []"
    unfolding warnings_world_after by (simp add: wire_decoded_app cong: map_cong)
  from p r wire_lowlevel_read[of 1] run1 dec1 warn1 run2 dec2 warn2 show ?thesis by blast
qed

section \<open>The reused builder of the web FlatBuffers test\<close>

text \<open>
  C4. \<open>testFlatBuffers\<close> of the web files makes one builder and uses it in all
  iterations. The payload of iteration \<open>i\<close> is stored as an array of its own, at its
  own address, that holds the bytes the builder showed at iteration \<open>i\<close>; after the
  loop, when the builder has reached its last state, array \<open>i\<close> still holds these
  bytes, the decoder call of iteration \<open>i\<close> is given them, and it returns the number
  \<open>i\<close> when the library's decoder inverts its encoder. A view of the builder's
  buffer, which is what the loop copies, would show the buffer of the last iteration
  instead.
\<close>

theorem web_flatbuffers_payloads_are_copies:
  "\<exists>r w'. testFlatBuffers_web clk (lib_flatbuffers E) w = Some (r, w')
     \<and> builders w' (next_addr w) = builder_web (lib_flatbuffers E) ITERATIONS_web
     \<and> next_addr w' = next_addr w + 1 + ITERATIONS_web
     \<and> (\<forall>i<ITERATIONS_web.
           arrays w' (next_addr w + 1 + i)
             = window_bytes (lib_flatbuffers E) (builder_web (lib_flatbuffers E) (Suc i))
         \<and> u8_bytes (lib_flatbuffers E) w'
               (View (next_addr w)
                  (fst (Builder_window (lib_flatbuffers E) (builder_web (lib_flatbuffers E) (Suc i))))
                  (snd (Builder_window (lib_flatbuffers E) (builder_web (lib_flatbuffers E) (Suc i)))))
             = take (snd (Builder_window (lib_flatbuffers E) (builder_web (lib_flatbuffers E) (Suc i))))
                 (drop (fst (Builder_window (lib_flatbuffers E) (builder_web (lib_flatbuffers E) (Suc i))))
                    (Builder_backing (lib_flatbuffers E)
                       (builder_web (lib_flatbuffers E) ITERATIONS_web))))
     \<and> List.map_filter decoded_of (new_events w w')
         = map (\<lambda>i. Accessors
                  (TestData_foo (lib_flatbuffers E)
                     (window_bytes (lib_flatbuffers E) (builder_web (lib_flatbuffers E) (Suc i))))
                  (TestData_fooNumber (lib_flatbuffers E)
                     (window_bytes (lib_flatbuffers E) (builder_web (lib_flatbuffers E) (Suc i)))))
             [0..<ITERATIONS_web]
     \<and> (codecs_roundtrip E \<longrightarrow>
           map fields_of (List.map_filter decoded_of (new_events w w'))
             = map (\<lambda>i. Some (Some ''bar'', int i)) [0..<ITERATIONS_web])"
proof -
  let ?w' = "world_after Web_FlatBuffers E w"
  have run: "testFlatBuffers_web clk (lib_flatbuffers E) w
      = Some (timed clk (ticks w) ''FlatBuffers'' ITERATIONS_web, ?w')"
    by (simp add: testFlatBuffers_web_eq)
  have heap: "builders ?w' (next_addr w) = builder_web (lib_flatbuffers E) ITERATIONS_web"
    "next_addr ?w' = next_addr w + 1 + ITERATIONS_web"
    "\<And>i. i < ITERATIONS_web \<Longrightarrow> arrays ?w' (next_addr w + 1 + i)
        = window_bytes (lib_flatbuffers E) (builder_web (lib_flatbuffers E) (Suc i))"
    by (simp_all add: world_after_def del: builder_web.simps)
  have view: "u8_bytes (lib_flatbuffers E) ?w' (View (next_addr w) off len)
      = take len (drop off (Builder_backing (lib_flatbuffers E)
           (builder_web (lib_flatbuffers E) ITERATIONS_web)))" for off len
    by (simp add: u8_bytes_View heap)
  have dec: "List.map_filter decoded_of (new_events w ?w')
         = map (\<lambda>i. Accessors
                  (TestData_foo (lib_flatbuffers E)
                     (window_bytes (lib_flatbuffers E) (builder_web (lib_flatbuffers E) (Suc i))))
                  (TestData_fooNumber (lib_flatbuffers E)
                     (window_bytes (lib_flatbuffers E) (builder_web (lib_flatbuffers E) (Suc i)))))
             [0..<ITERATIONS_web]"
    by (simp add: decoded_values_world_after decoded_at_def del: builder_web.simps)
  have rt: "map fields_of (List.map_filter decoded_of (new_events w ?w'))
             = map (\<lambda>i. Some (Some ''bar'', int i)) [0..<ITERATIONS_web]"
    if "codecs_roundtrip E"
    using fields_of_decoded_at[OF that, of Web_FlatBuffers]
    by (simp add: decoded_values_world_after comp_def)
  from run heap view dec rt show ?thesis by (simp del: builder_web.simps)
qed

theorem web_flatbuffers_payloads_are_copies_witness:
  "codecs_roundtrip sample_env \<and> (7::nat) < ITERATIONS_web
   \<and> (\<exists>r w'. testFlatBuffers_web sample_clock (lib_flatbuffers sample_env) world0 = Some (r, w')
        \<and> arrays w' 8
             = window_bytes (lib_flatbuffers sample_env) (builder_web (lib_flatbuffers sample_env) 8)
        \<and> map fields_of (List.map_filter decoded_of (new_events world0 w'))
             = map (\<lambda>i. Some (Some ''bar'', int i)) [0..<ITERATIONS_web])"
proof -
  have lt: "(7::nat) < ITERATIONS_web" by (simp add: ITERATIONS_web_def)
  from web_flatbuffers_payloads_are_copies[of sample_clock sample_env world0]
  obtain r w' where run: "testFlatBuffers_web sample_clock (lib_flatbuffers sample_env) world0
        = Some (r, w')"
    and arr: "\<forall>i<ITERATIONS_web. arrays w' (next_addr world0 + 1 + i)
        = window_bytes (lib_flatbuffers sample_env) (builder_web (lib_flatbuffers sample_env) (Suc i))"
    and rt: "codecs_roundtrip sample_env \<longrightarrow>
           map fields_of (List.map_filter decoded_of (new_events world0 w'))
             = map (\<lambda>i. Some (Some ''bar'', int i)) [0..<ITERATIONS_web]"
    by blast
  from arr lt have "arrays w' (next_addr world0 + 1 + 7)
      = window_bytes (lib_flatbuffers sample_env) (builder_web (lib_flatbuffers sample_env) (Suc 7))"
    by blast
  then have "arrays w' 8
      = window_bytes (lib_flatbuffers sample_env) (builder_web (lib_flatbuffers sample_env) 8)"
    by (simp add: world0_def eval_nat_numeral del: builder_web.simps)
  with run rt sample_roundtrip lt show ?thesis by blast
qed

section \<open>The validation of the app's FlatBuffers tests\<close>

text \<open>
  The two \<open>testFlatBuffers\<close> of the app are the test functions that validate what they
  decode. Whatever the decoder returns, they run all
  \<open>ITERATIONS\<close> iterations and return a complete result: a mismatch adds a warning to
  the console, after the decoder call that it is about, and the loop goes on. The warning
  of a string mismatch and of a number mismatch names the format, the iteration, the
  expected and the actual value; the warning of a string-length mismatch, in the revision
  that decodes by hand, names the format and the iteration only.
\<close>

lemma validation_warns_and_continues:
  assumes "t = App_FlatBuffers \<or> t = App_FlatBuffers_lowlevel"
  shows "\<exists>w'. run_test (Small t) clk E w
            = Some (timed clk (ticks w) ''FlatBuffers'' ITERATIONS_app, w')
     \<and> new_events w w' = [Now]
         @ map (\<lambda>i. Encode ''FlatBuffers'' i (payload_at t E i)) [0..<ITERATIONS_app]
         @ [Now, Now]
         @ concat (map (\<lambda>i. Decode ''FlatBuffers'' i (payload_at t E i) (decoded_at t E i)
                              # warnings t i (decoded_at t E i)) [0..<ITERATIONS_app])
         @ [Now]
     \<and> List.map_filter decoded_of (new_events w w') = map (decoded_at t E) [0..<ITERATIONS_app]
     \<and> (\<forall>i got n. warnings App_FlatBuffers i (Accessors got n)
            = (if got \<noteq> Some ''bar'' then [ConsoleWarn (string_mismatch i got)] else [])
              @ (if n \<noteq> int i then [ConsoleWarn (number_mismatch i n)] else []))
     \<and> (\<forall>i l v. warnings App_FlatBuffers_lowlevel i (LowLevel l v)
            = (if l \<noteq> None \<and> l \<noteq> Some 3 then [ConsoleWarn (string_length_mismatch i)] else [])
              @ (if v \<noteq> None \<and> v \<noteq> Some (int i) then [ConsoleWarn (number_mismatch i (the v))]
                 else []))
     \<and> (\<forall>i got. sublist ''FlatBuffers'' (string_mismatch i got)
            \<and> sublist (''iteration '' @ string_of_nat i) (string_mismatch i got)
            \<and> sublist (''expected '' @ quote @ ''bar'' @ quote) (string_mismatch i got)
            \<and> sublist (''got '' @ quote @ string_of_nullable got @ quote) (string_mismatch i got))
     \<and> (\<forall>i v. sublist ''FlatBuffers'' (number_mismatch i v)
            \<and> sublist (''iteration '' @ string_of_nat i) (number_mismatch i v)
            \<and> sublist (''expected '' @ string_of_nat i) (number_mismatch i v)
            \<and> sublist (''got '' @ string_of_int v) (number_mismatch i v))
     \<and> (\<forall>i. sublist ''FlatBuffers'' (string_length_mismatch i)
            \<and> sublist (''iteration '' @ string_of_nat i) (string_length_mismatch i))"
proof -
  have lab: "label t = ''FlatBuffers''" "count t = ITERATIONS_app"
    using assms by auto
  have run: "run_test (Small t) clk E w
      = Some (timed clk (ticks w) ''FlatBuffers'' ITERATIONS_app, world_after t E w)"
    using small_test_run[of t clk E w] by (simp add: lab)
  have lg: "logs t E = []" using assms by auto
  have ev: "new_events w (world_after t E w) = [Now]
         @ map (\<lambda>i. Encode ''FlatBuffers'' i (payload_at t E i)) [0..<ITERATIONS_app]
         @ [Now, Now]
         @ concat (map (\<lambda>i. Decode ''FlatBuffers'' i (payload_at t E i) (decoded_at t E i)
                              # warnings t i (decoded_at t E i)) [0..<ITERATIONS_app])
         @ [Now]"
    by (simp add: new_events_world_after small_trace_def lab lg warnings_at_def)
  have dec: "List.map_filter decoded_of (new_events w (world_after t E w))
      = map (decoded_at t E) [0..<ITERATIONS_app]"
    by (simp add: decoded_values_world_after lab)
  have w1: "\<forall>i got n. warnings App_FlatBuffers i (Accessors got n)
            = (if got \<noteq> Some ''bar'' then [ConsoleWarn (string_mismatch i got)] else [])
              @ (if n \<noteq> int i then [ConsoleWarn (number_mismatch i n)] else [])"
    by simp
  have w2: "\<forall>i l v. warnings App_FlatBuffers_lowlevel i (LowLevel l v)
            = (if l \<noteq> None \<and> l \<noteq> Some 3 then [ConsoleWarn (string_length_mismatch i)] else [])
              @ (if v \<noteq> None \<and> v \<noteq> Some (int i) then [ConsoleWarn (number_mismatch i (the v))]
                 else [])"
    by (auto split: option.splits)
  have m1: "\<forall>i got. sublist ''FlatBuffers'' (string_mismatch i got)
            \<and> sublist (''iteration '' @ string_of_nat i) (string_mismatch i got)
            \<and> sublist (''expected '' @ quote @ ''bar'' @ quote) (string_mismatch i got)
            \<and> sublist (''got '' @ quote @ string_of_nullable got @ quote) (string_mismatch i got)"
    by (intro allI conjI string_mismatch_mentions)
  have m2: "\<forall>i v. sublist ''FlatBuffers'' (number_mismatch i v)
            \<and> sublist (''iteration '' @ string_of_nat i) (number_mismatch i v)
            \<and> sublist (''expected '' @ string_of_nat i) (number_mismatch i v)
            \<and> sublist (''got '' @ string_of_int v) (number_mismatch i v)"
    by (intro allI conjI number_mismatch_mentions)
  have m3: "\<forall>i. sublist ''FlatBuffers'' (string_length_mismatch i)
            \<and> sublist (''iteration '' @ string_of_nat i) (string_length_mismatch i)"
    by (intro allI conjI string_length_mismatch_mentions)
  from run ev dec w1 w2 m1 m2 m3 show ?thesis by blast
qed


section \<open>The order of a run\<close>

text \<open>
  C6. A run executes the formats one at a time, in the declared order, and after each
  test the user interface is given the results of the tests completed so far, in the
  order of their execution. \<open>run_order\<close> reads the trace of a run: \<open>Ran f\<close> is an
  unbroken block of calls into the codec of format \<open>f\<close>, \<open>Shown fs\<close> is a list of results
  handed to the user interface, with the formats \<open>fs\<close>. The later revision of the web
  page runs JSON, MessagePack, FlatBuffers, Avro and the three large-dataset variants
  (and returns when no element of the asset is \<open>null\<close>); the first revision of the page
  and the two revisions of the app run JSON, MessagePack and FlatBuffers. The lists
  shown are the growing prefixes of the list of all results.
\<close>

theorem formats_run_in_declared_order:
  "(JNull \<notin> set (largeJsonData E) \<longrightarrow>
      (\<exists>W. runAllTests_web2 clk E w = Some W
         \<and> run_order (new_events w W) =
             [Shown [],
              Ran ''JSON'', Shown [''JSON''],
              Ran ''MessagePack'', Shown [''JSON'', ''MessagePack''],
              Ran ''FlatBuffers'', Shown [''JSON'', ''MessagePack'', ''FlatBuffers''],
              Ran ''Avro'', Shown [''JSON'', ''MessagePack'', ''FlatBuffers'', ''Avro''],
              Ran ''JSON (5MB)'',
              Shown [''JSON'', ''MessagePack'', ''FlatBuffers'', ''Avro'', ''JSON (5MB)''],
              Ran ''MessagePack (5MB)'',
              Shown [''JSON'', ''MessagePack'', ''FlatBuffers'', ''Avro'', ''JSON (5MB)'',
                     ''MessagePack (5MB)''],
              Ran ''FlatBuffers (5MB)'',
              Shown [''JSON'', ''MessagePack'', ''FlatBuffers'', ''Avro'', ''JSON (5MB)'',
                     ''MessagePack (5MB)'', ''FlatBuffers (5MB)'']]
         \<and> List.map_filter content_of (new_events w W)
             = map (map (card_web2 (toFixed2 E))) (growing (web2_results clk (ticks w)))))
   \<and> (\<exists>W. runAllTests_web clk E w = Some W
         \<and> run_order (new_events w W) =
             [Shown [],
              Ran ''JSON'', Shown [''JSON''],
              Ran ''MessagePack'', Shown [''JSON'', ''MessagePack''],
              Ran ''FlatBuffers'', Shown [''JSON'', ''MessagePack'', ''FlatBuffers'']]
         \<and> List.map_filter content_of (new_events w W)
             = map (map (card_web (toFixed2 E))) (growing (web_results clk (ticks w))))
   \<and> (\<exists>W. runAllTests_app clk E w = Some W
         \<and> run_order (new_events w W) =
             [Shown [],
              Ran ''JSON'', Shown [''JSON''],
              Ran ''MessagePack'', Shown [''JSON'', ''MessagePack''],
              Ran ''FlatBuffers'', Shown [''JSON'', ''MessagePack'', ''FlatBuffers'']]
         \<and> List.map_filter results_of (new_events w W) = growing (app_results clk (ticks w)))
   \<and> (\<exists>W. runAllTests_app_lowlevel clk E w = Some W
         \<and> run_order (new_events w W) =
             [Shown [],
              Ran ''JSON'', Shown [''JSON''],
              Ran ''MessagePack'', Shown [''JSON'', ''MessagePack''],
              Ran ''FlatBuffers'', Shown [''JSON'', ''MessagePack'', ''FlatBuffers'']]
         \<and> List.map_filter results_of (new_events w W) = growing (app_results clk (ticks w)))"
proof (intro conjI impI)
  assume "JNull \<notin> set (largeJsonData E)"
  from runAllTests_web2_run[OF this, of clk w] obtain W X where
    "runAllTests_web2 clk E w = Some W" "new_events w W = X"
    "List.map_filter mark_of X =
         [Shown []] @ replicate ITERATIONS_web (Ran ''JSON'') @ replicate ITERATIONS_web (Ran ''JSON'')
         @ [Shown [''JSON'']]
         @ replicate ITERATIONS_web (Ran ''MessagePack'') @ replicate ITERATIONS_web (Ran ''MessagePack'')
         @ [Shown [''JSON'', ''MessagePack'']]
         @ replicate ITERATIONS_web (Ran ''FlatBuffers'') @ replicate ITERATIONS_web (Ran ''FlatBuffers'')
         @ [Shown [''JSON'', ''MessagePack'', ''FlatBuffers'']]
         @ replicate ITERATIONS_web (Ran ''Avro'') @ replicate ITERATIONS_web (Ran ''Avro'')
         @ [Shown [''JSON'', ''MessagePack'', ''FlatBuffers'', ''Avro''],
            Ran ''JSON (5MB)'', Ran ''JSON (5MB)'',
            Shown [''JSON'', ''MessagePack'', ''FlatBuffers'', ''Avro'', ''JSON (5MB)''],
            Ran ''MessagePack (5MB)'', Ran ''MessagePack (5MB)'',
            Shown [''JSON'', ''MessagePack'', ''FlatBuffers'', ''Avro'', ''JSON (5MB)'',
                   ''MessagePack (5MB)''],
            Ran ''FlatBuffers (5MB)'', Ran ''FlatBuffers (5MB)'',
            Shown [''JSON'', ''MessagePack'', ''FlatBuffers'', ''Avro'', ''JSON (5MB)'',
                   ''MessagePack (5MB)'', ''FlatBuffers (5MB)'']]"
    "List.map_filter content_of X
         = map (map (card_web2 (toFixed2 E))) (growing (web2_results clk (ticks w)))"
    by (auto dest: new_events_append)
  then show "\<exists>W. runAllTests_web2 clk E w = Some W
         \<and> run_order (new_events w W) =
             [Shown [],
              Ran ''JSON'', Shown [''JSON''],
              Ran ''MessagePack'', Shown [''JSON'', ''MessagePack''],
              Ran ''FlatBuffers'', Shown [''JSON'', ''MessagePack'', ''FlatBuffers''],
              Ran ''Avro'', Shown [''JSON'', ''MessagePack'', ''FlatBuffers'', ''Avro''],
              Ran ''JSON (5MB)'',
              Shown [''JSON'', ''MessagePack'', ''FlatBuffers'', ''Avro'', ''JSON (5MB)''],
              Ran ''MessagePack (5MB)'',
              Shown [''JSON'', ''MessagePack'', ''FlatBuffers'', ''Avro'', ''JSON (5MB)'',
                     ''MessagePack (5MB)''],
              Ran ''FlatBuffers (5MB)'',
              Shown [''JSON'', ''MessagePack'', ''FlatBuffers'', ''Avro'', ''JSON (5MB)'',
                     ''MessagePack (5MB)'', ''FlatBuffers (5MB)'']]
         \<and> List.map_filter content_of (new_events w W)
             = map (map (card_web2 (toFixed2 E))) (growing (web2_results clk (ticks w)))"
    by (simp add: run_order_def remdups_adj_block iterations_positive
        del: replicate.simps)
next
  from runAllTests_web_run[of clk E w] obtain W X where
    "runAllTests_web clk E w = Some W" "new_events w W = X"
    "List.map_filter mark_of X =
         [Shown []] @ replicate ITERATIONS_web (Ran ''JSON'') @ replicate ITERATIONS_web (Ran ''JSON'')
         @ [Shown [''JSON'']]
         @ replicate ITERATIONS_web (Ran ''MessagePack'') @ replicate ITERATIONS_web (Ran ''MessagePack'')
         @ [Shown [''JSON'', ''MessagePack'']]
         @ replicate ITERATIONS_web (Ran ''FlatBuffers'') @ replicate ITERATIONS_web (Ran ''FlatBuffers'')
         @ [Shown [''JSON'', ''MessagePack'', ''FlatBuffers'']]"
    "List.map_filter content_of X
         = map (map (card_web (toFixed2 E))) (growing (web_results clk (ticks w)))"
    by (auto dest: new_events_append)
  then show "\<exists>W. runAllTests_web clk E w = Some W
         \<and> run_order (new_events w W) =
             [Shown [],
              Ran ''JSON'', Shown [''JSON''],
              Ran ''MessagePack'', Shown [''JSON'', ''MessagePack''],
              Ran ''FlatBuffers'', Shown [''JSON'', ''MessagePack'', ''FlatBuffers'']]
         \<and> List.map_filter content_of (new_events w W)
             = map (map (card_web (toFixed2 E))) (growing (web_results clk (ticks w)))"
    by (simp add: run_order_def remdups_adj_block iterations_positive
        del: replicate.simps)
next
  from runAllTests_app_run[of clk E w] obtain W X where
    "runAllTests_app clk E w = Some W" "new_events w W = X"
    "List.map_filter mark_of X =
         [Shown []] @ replicate ITERATIONS_app (Ran ''JSON'') @ replicate ITERATIONS_app (Ran ''JSON'')
         @ [Shown [''JSON'']]
         @ replicate ITERATIONS_app (Ran ''MessagePack'') @ replicate ITERATIONS_app (Ran ''MessagePack'')
         @ [Shown [''JSON'', ''MessagePack'']]
         @ replicate ITERATIONS_app (Ran ''FlatBuffers'') @ replicate ITERATIONS_app (Ran ''FlatBuffers'')
         @ [Shown [''JSON'', ''MessagePack'', ''FlatBuffers'']]"
    "List.map_filter results_of X = growing (app_results clk (ticks w))"
    by (auto dest: new_events_append)
  then show "\<exists>W. runAllTests_app clk E w = Some W
         \<and> run_order (new_events w W) =
             [Shown [],
              Ran ''JSON'', Shown [''JSON''],
              Ran ''MessagePack'', Shown [''JSON'', ''MessagePack''],
              Ran ''FlatBuffers'', Shown [''JSON'', ''MessagePack'', ''FlatBuffers'']]
         \<and> List.map_filter results_of (new_events w W) = growing (app_results clk (ticks w))"
    by (simp add: run_order_def remdups_adj_block iterations_positive
        del: replicate.simps)
next
  from runAllTests_app_lowlevel_run[of clk E w] obtain W X where
    "runAllTests_app_lowlevel clk E w = Some W" "new_events w W = X"
    "List.map_filter mark_of X =
         [Shown []] @ replicate ITERATIONS_app (Ran ''JSON'') @ replicate ITERATIONS_app (Ran ''JSON'')
         @ [Shown [''JSON'']]
         @ replicate ITERATIONS_app (Ran ''MessagePack'') @ replicate ITERATIONS_app (Ran ''MessagePack'')
         @ [Shown [''JSON'', ''MessagePack'']]
         @ replicate ITERATIONS_app (Ran ''FlatBuffers'') @ replicate ITERATIONS_app (Ran ''FlatBuffers'')
         @ [Shown [''JSON'', ''MessagePack'', ''FlatBuffers'']]"
    "List.map_filter results_of X = growing (app_results clk (ticks w))"
    by (auto dest: new_events_append)
  then show "\<exists>W. runAllTests_app_lowlevel clk E w = Some W
         \<and> run_order (new_events w W) =
             [Shown [],
              Ran ''JSON'', Shown [''JSON''],
              Ran ''MessagePack'', Shown [''JSON'', ''MessagePack''],
              Ran ''FlatBuffers'', Shown [''JSON'', ''MessagePack'', ''FlatBuffers'']]
         \<and> List.map_filter results_of (new_events w W) = growing (app_results clk (ticks w))"
    by (simp add: run_order_def remdups_adj_block iterations_positive
        del: replicate.simps)
qed

theorem formats_run_in_declared_order_witness:
  "JNull \<notin> set (largeJsonData sample_env)
   \<and> (\<exists>W. runAllTests_web2 sample_clock sample_env world0 = Some W
         \<and> run_order (new_events world0 W) =
             [Shown [],
              Ran ''JSON'', Shown [''JSON''],
              Ran ''MessagePack'', Shown [''JSON'', ''MessagePack''],
              Ran ''FlatBuffers'', Shown [''JSON'', ''MessagePack'', ''FlatBuffers''],
              Ran ''Avro'', Shown [''JSON'', ''MessagePack'', ''FlatBuffers'', ''Avro''],
              Ran ''JSON (5MB)'',
              Shown [''JSON'', ''MessagePack'', ''FlatBuffers'', ''Avro'', ''JSON (5MB)''],
              Ran ''MessagePack (5MB)'',
              Shown [''JSON'', ''MessagePack'', ''FlatBuffers'', ''Avro'', ''JSON (5MB)'',
                     ''MessagePack (5MB)''],
              Ran ''FlatBuffers (5MB)'',
              Shown [''JSON'', ''MessagePack'', ''FlatBuffers'', ''Avro'', ''JSON (5MB)'',
                     ''MessagePack (5MB)'', ''FlatBuffers (5MB)'']]
         \<and> List.map_filter content_of (new_events world0 W)
             = map (map (card_web2 (\<lambda>x. ''0.00''))) (growing (web2_results sample_clock 0)))"
  using formats_run_in_declared_order[of sample_env sample_clock world0]
  by (simp add: sample_env_def world0_def)

section \<open>The average per operation\<close>

text \<open>
  C2. For every record that is rendered, the cell \<open>Avg per operation:\<close> of its card is
  the two-decimal rendering of \<open>totalTime / (iterations * 2)\<close>, followed by \<open>ms\<close>, when
  \<open>iterations > 1\<close>, and the marker \<open>N/A (single operation)\<close> otherwise; the marker is not
  the rendering of any number, whatever \<open>toFixed\<close> returns. The reporter of the later
  revision of the web page does so for every record. The reporters of the first
  revision of the page and of the app always divide; the records that their runners
  hand to them, which are the growing prefixes of the list of the results of the run,
  all have \<open>iterations > 1\<close>.
\<close>

theorem average_per_operation_as_specified:
  "(\<forall>r. avg_cell (card_web2 tf r)
        = Some (case spec_average r of Some q \<Rightarrow> tf (Finite q) @ '' ms''
                | None \<Rightarrow> ''N/A (single operation)''))
   \<and> (\<forall>x. tf x @ '' ms'' \<noteq> ''N/A (single operation)'')
   \<and> (JNull \<notin> set (largeJsonData E) \<longrightarrow>
        (\<exists>W. runAllTests_web2 clk E w = Some W
           \<and> List.map_filter content_of (new_events w W)
               = map (map (card_web2 (toFixed2 E))) (growing (web2_results clk (ticks w)))))
   \<and> (\<exists>W. runAllTests_web clk E w = Some W
           \<and> List.map_filter content_of (new_events w W)
               = map (map (card_web (toFixed2 E))) (growing (web_results clk (ticks w))))
   \<and> (\<forall>r \<in> set (web_results clk t).
          1 < iterations r
          \<and> avg_cell (card_web tf r)
              = Some (case spec_average r of Some q \<Rightarrow> tf (Finite q) @ '' ms''
                      | None \<Rightarrow> ''N/A (single operation)''))
   \<and> (\<exists>W. runAllTests_app clk E w = Some W
           \<and> map (SerializationTest_cards (toFixed2 E))
                 (List.map_filter results_of (new_events w W))
               = map (map (card_app (toFixed2 E))) (growing (app_results clk (ticks w))))
   \<and> (\<exists>W. runAllTests_app_lowlevel clk E w = Some W
           \<and> map (SerializationTest_cards (toFixed2 E))
                 (List.map_filter results_of (new_events w W))
               = map (map (card_app (toFixed2 E))) (growing (app_results clk (ticks w))))
   \<and> (\<forall>r \<in> set (app_results clk t).
          1 < iterations r
          \<and> avg_cell (card_app tf r)
              = Some (case spec_average r of Some q \<Rightarrow> tf (Finite q) @ '' ms''
                      | None \<Rightarrow> ''N/A (single operation)''))"
proof (intro conjI impI allI ballI)
  fix r
  show "avg_cell (card_web2 tf r)
        = Some (case spec_average r of Some q \<Rightarrow> tf (Finite q) @ '' ms''
                | None \<Rightarrow> ''N/A (single operation)'')"
    by (rule card_web2_average)
next
  fix x
  show "tf x @ '' ms'' \<noteq> ''N/A (single operation)''" by (rule marker_not_a_time)
next
  assume "JNull \<notin> set (largeJsonData E)"
  from runAllTests_web2_run[OF this, of clk w]
  show "\<exists>W. runAllTests_web2 clk E w = Some W
           \<and> List.map_filter content_of (new_events w W)
               = map (map (card_web2 (toFixed2 E))) (growing (web2_results clk (ticks w)))"
    by (auto dest: new_events_append)
next
  from runAllTests_web_run[of clk E w]
  show "\<exists>W. runAllTests_web clk E w = Some W
           \<and> List.map_filter content_of (new_events w W)
               = map (map (card_web (toFixed2 E))) (growing (web_results clk (ticks w)))"
    by (auto dest: new_events_append)
next
  fix r assume "r \<in> set (web_results clk t)"
  then show "1 < iterations r" by (auto simp: web_results_def ITERATIONS_web_def)
  then show "avg_cell (card_web tf r)
              = Some (case spec_average r of Some q \<Rightarrow> tf (Finite q) @ '' ms''
                      | None \<Rightarrow> ''N/A (single operation)'')"
    by (rule card_web_average)
next
  from runAllTests_app_run[of clk E w]
  show "\<exists>W. runAllTests_app clk E w = Some W
           \<and> map (SerializationTest_cards (toFixed2 E))
                 (List.map_filter results_of (new_events w W))
               = map (map (card_app (toFixed2 E))) (growing (app_results clk (ticks w)))"
    by (auto dest: new_events_append simp: SerializationTest_cards_eq)
next
  from runAllTests_app_lowlevel_run[of clk E w]
  show "\<exists>W. runAllTests_app_lowlevel clk E w = Some W
           \<and> map (SerializationTest_cards (toFixed2 E))
                 (List.map_filter results_of (new_events w W))
               = map (map (card_app (toFixed2 E))) (growing (app_results clk (ticks w)))"
    by (auto dest: new_events_append simp: SerializationTest_cards_eq)
next
  fix r assume "r \<in> set (app_results clk t)"
  then show "1 < iterations r" by (auto simp: app_results_def ITERATIONS_app_def)
  then show "avg_cell (card_app tf r)
              = Some (case spec_average r of Some q \<Rightarrow> tf (Finite q) @ '' ms''
                      | None \<Rightarrow> ''N/A (single operation)'')"
    by (rule card_app_average)
qed

text \<open>
  With a clock that advances by 5000 ms per reading, a test takes 10000 ms: the average
  of 10000 iterations is shown as \<open>0.50 ms\<close>, that of the 1000 iterations of the app as
  \<open>5.00 ms\<close>, and that of a large-dataset test as the marker.
\<close>

theorem average_per_operation_as_specified_witness:
  "avg_cell (card_web2 two_decimals (timed slow_clock 16 ''JSON (5MB)'' 1))
     = Some ''N/A (single operation)''
   \<and> avg_cell (card_web2 two_decimals (timed slow_clock 0 ''JSON'' ITERATIONS_web))
     = Some ''0.50 ms''
   \<and> JNull \<notin> set (largeJsonData decimal_env)
   \<and> (\<exists>W. runAllTests_web2 slow_clock decimal_env world0 = Some W
           \<and> List.map_filter content_of (new_events world0 W)
               = map (map (card_web2 two_decimals)) (growing (web2_results slow_clock 0)))
   \<and> timed slow_clock 0 ''JSON'' ITERATIONS_web \<in> set (web_results slow_clock 0)
   \<and> avg_cell (card_web two_decimals (timed slow_clock 0 ''JSON'' ITERATIONS_web))
       = Some ''0.50 ms''
   \<and> timed slow_clock 0 ''JSON'' ITERATIONS_app \<in> set (app_results slow_clock 0)
   \<and> avg_cell (card_app two_decimals (timed slow_clock 0 ''JSON'' ITERATIONS_app))
       = Some ''5.00 ms''"
proof -
  note t = average_per_operation_as_specified[of two_decimals decimal_env slow_clock world0 0]
  have n: "JNull \<notin> set (largeJsonData decimal_env)"
    by (simp add: decimal_env_def sample_env_def)
  have a: "timed slow_clock 0 ''JSON'' ITERATIONS_web \<in> set (web_results slow_clock 0)"
    by (simp add: web_results_def)
  have b: "timed slow_clock 0 ''JSON'' ITERATIONS_app \<in> set (app_results slow_clock 0)"
    by (simp add: app_results_def)
  have s1: "spec_average (timed slow_clock 16 ''JSON (5MB)'' 1) = None"
    by (simp add: spec_average_def)
  have s2: "spec_average (timed slow_clock 0 ''JSON'' ITERATIONS_web) = Some (1 / 2)"
    "spec_average (timed slow_clock 0 ''JSON'' ITERATIONS_app) = Some 5"
    by (simp_all add: spec_average_def timed_def slow_clock_def ITERATIONS_web_def
        ITERATIONS_app_def)
  have d: "two_decimals (Finite (1 / 2)) = ''0.50''" "two_decimals (Finite 5) = ''5.00''"
    by (simp_all add: two_decimals_def string_of_nat.simps digit_char_def)
  from t n a b s1 s2 d show ?thesis
    by (simp add: decimal_env_def world0_def)
qed

end
